theory Spec2Isabelle
  imports
    Complex_Main
    "HOL-Library.Product_Lexorder"
    "HOL-Library.List_Lexorder"
    "HOL-Library.Char_ord"
    "HOL-Library.Monad_Syntax"
begin

section \<open>JavaScript values\<close>

text \<open>
  A JavaScript number is a double: the finite ones are taken as rationals, and the two
  infinities (which \<open>JSON.parse\<close> produces from a literal such as \<open>1e999\<close>) are kept
  apart, since \<open>z.number().finite()\<close> tells them from the rest. A string is a list of
  code units. \<open>undefined\<close> is the absence of a value: \<open>None\<close> of an option.
\<close>

datatype number = Fin rat | PosInf | NegInf

datatype json =
    JNull
  | JBool bool
  | JNum number
  | JStr string
  | JArr "json list"
  | JObj "(string \<times> json) list"

text \<open>\<open>String.prototype.trim\<close>, \<open>toLowerCase\<close> (on ASCII letters) and \<open>split\<close>.\<close>

definition isWhiteSpace :: "char \<Rightarrow> bool" where
  "isWhiteSpace c = (of_char c \<in> {9, 10, 11, 12, 13, 32, 160 :: nat})"

definition trim :: "string \<Rightarrow> string" where
  "trim s = rev (dropWhile isWhiteSpace (rev (dropWhile isWhiteSpace s)))"

definition toLowerCase_char :: "char \<Rightarrow> char" where
  "toLowerCase_char c =
     (if 65 \<le> (of_char c :: nat) \<and> (of_char c :: nat) \<le> 90
      then char_of (of_char c + 32 :: nat) else c)"

definition toLowerCase :: "string \<Rightarrow> string" where
  "toLowerCase s = map toLowerCase_char s"

fun split :: "char \<Rightarrow> string \<Rightarrow> string list" where
  "split c [] = [[]]"
| "split c (x # xs) =
     (if x = c then [] # split c xs
      else (case split c xs of [] \<Rightarrow> [[x]] | w # ws \<Rightarrow> (x # w) # ws))"

section \<open>What the handlers take from their libraries and from the outside\<close>

text \<open>
  The libraries the repository calls are not part of it. Their functions are parameters
  of the model: \<open>uuid_ok\<close> is the test behind zod's \<open>z.string().uuid()\<close>, \<open>new_Date\<close> is
  \<open>new Date(x).getTime()\<close> with \<open>None\<close> for an invalid date, \<open>toISOString\<close> is
  \<open>Date.prototype.toISOString\<close>, \<open>zod_message\<close> gives zod's default message of an issue
  code, and \<open>bcrypt_compare\<close> is \<open>bcrypt.compare\<close>.
\<close>

datatype zcode =
  invalid_type | invalid_string | too_small | too_big | invalid_date | invalid_enum_value | not_finite

record lib =
  uuid_ok :: "string \<Rightarrow> bool"
  new_Date :: "json \<Rightarrow> int option"
  toISOString :: "int \<Rightarrow> string"
  zod_message :: "zcode \<Rightarrow> string"
  bcrypt_compare :: "string \<Rightarrow> string \<Rightarrow> bool"

text \<open>
  What one request reads from the outside: the clock (\<open>Date.now()\<close>, \<open>new Date()\<close>, in
  milliseconds), the identifier \<open>gen_random_uuid()\<close> gives a new row, the session token
  \<open>randomBytes(32).toString('hex')\<close>, bcrypt's hash under a new salt, and the
  configured \<open>SESSION_TTL_HOURS\<close>.
\<close>

record env =
  now :: int
  gen_random_uuid :: string
  randomBytes_hex :: string
  bcrypt_hash :: "string \<Rightarrow> string"
  SESSION_TTL_HOURS :: int

section \<open>Schema validation (zod)\<close>

text \<open>
  A field's result is the parsed value, if parsing was not aborted, and the messages of
  its issues. A type error aborts the field (no value); a failed check only marks it
  (value and messages): zod 3 runs an object's refinement when no field was aborted.
  An issue is a message under the first element of its path (\<open>None\<close> for the form).
\<close>

type_synonym zissue = "string option \<times> string"
type_synonym 'a zfield = "'a option \<times> string list"

datatype string_check =
    Trim
  | Min nat "string option"
  | Max nat "string option"
  | Uuid
  | Regex "string \<Rightarrow> bool" string

datatype number_check = Finite | Positive

definition msg_or :: "lib \<Rightarrow> string option \<Rightarrow> zcode \<Rightarrow> string" where
  "msg_or L m c = (case m of Some s \<Rightarrow> s | None \<Rightarrow> zod_message L c)"

fun run_string_check :: "lib \<Rightarrow> string_check \<Rightarrow> string \<times> string list \<Rightarrow> string \<times> string list" where
  "run_string_check L Trim (s, es) = (trim s, es)"
| "run_string_check L (Min n m) (s, es) =
     (s, if length s < n then es @ [msg_or L m too_small] else es)"
| "run_string_check L (Max n m) (s, es) =
     (s, if n < length s then es @ [msg_or L m too_big] else es)"
| "run_string_check L Uuid (s, es) =
     (s, if uuid_ok L s then es else es @ [zod_message L invalid_string])"
| "run_string_check L (Regex re m) (s, es) = (s, if re s then es else es @ [m])"

definition z_string :: "lib \<Rightarrow> string_check list \<Rightarrow> json \<Rightarrow> string zfield" where
  "z_string L checks j =
     (case j of
        JStr s \<Rightarrow>
          (case foldl (\<lambda>acc c. run_string_check L c acc) (s, []) checks of
             (v, es) \<Rightarrow> (Some v, es))
      | _ \<Rightarrow> (None, [zod_message L invalid_type]))"

fun run_number_check :: "lib \<Rightarrow> number_check \<Rightarrow> number \<Rightarrow> string list" where
  "run_number_check L Finite (Fin r) = []"
| "run_number_check L Finite _ = [zod_message L not_finite]"
| "run_number_check L Positive (Fin r) = (if 0 < r then [] else [zod_message L too_small])"
| "run_number_check L Positive PosInf = []"
| "run_number_check L Positive NegInf = [zod_message L too_small]"

definition z_number :: "lib \<Rightarrow> number_check list \<Rightarrow> json \<Rightarrow> number zfield" where
  "z_number L checks j =
     (case j of
        JNum n \<Rightarrow> (Some n, concat (map (\<lambda>c. run_number_check L c n) checks))
      | _ \<Rightarrow> (None, [zod_message L invalid_type]))"

definition z_boolean :: "lib \<Rightarrow> json \<Rightarrow> bool zfield" where
  "z_boolean L j =
     (case j of JBool b \<Rightarrow> (Some b, []) | _ \<Rightarrow> (None, [zod_message L invalid_type]))"

definition z_enum :: "lib \<Rightarrow> string list \<Rightarrow> json \<Rightarrow> string zfield" where
  "z_enum L vals j =
     (case j of
        JStr s \<Rightarrow> (if s \<in> set vals then (Some s, []) else (None, [zod_message L invalid_enum_value]))
      | _ \<Rightarrow> (None, [zod_message L invalid_type]))"

definition z_coerce_date :: "lib \<Rightarrow> json \<Rightarrow> int zfield" where
  "z_coerce_date L j =
     (case new_Date L j of Some t \<Rightarrow> (Some t, []) | None \<Rightarrow> (None, [zod_message L invalid_date]))"

definition z_nullable :: "(json \<Rightarrow> 'a zfield) \<Rightarrow> json \<Rightarrow> 'a option zfield" where
  "z_nullable f j =
     (case j of JNull \<Rightarrow> (Some None, []) | _ \<Rightarrow> (map_option Some (fst (f j)), snd (f j)))"

definition z_optional :: "(json \<Rightarrow> 'a zfield) \<Rightarrow> json option \<Rightarrow> 'a option zfield" where
  "z_optional f v =
     (case v of None \<Rightarrow> (Some None, []) | Some j \<Rightarrow> (map_option Some (fst (f j)), snd (f j)))"

definition z_required :: "lib \<Rightarrow> (json \<Rightarrow> 'a zfield) \<Rightarrow> json option \<Rightarrow> 'a zfield" where
  "z_required L f v =
     (case v of None \<Rightarrow> (None, [zod_message L invalid_type]) | Some j \<Rightarrow> f j)"

definition at_field :: "string \<Rightarrow> 'a zfield \<Rightarrow> zissue list" where
  "at_field k r = map (\<lambda>m. (Some k, m)) (snd r)"

definition z_finish :: "zissue list \<Rightarrow> 'a \<Rightarrow> zissue list + 'a" where
  "z_finish issues d = (if issues = [] then Inr d else Inl issues)"

text \<open>\<open>error.flatten()\<close>: the form's messages, and each field's messages under its name.\<close>

definition flatten :: "zissue list \<Rightarrow> json" where
  "flatten issues =
     JObj [(''formErrors'', JArr (map (\<lambda>i. JStr (snd i)) (filter (\<lambda>i. fst i = None) issues))),
           (''fieldErrors'',
              JObj (map (\<lambda>k. (k, JArr (map (\<lambda>i. JStr (snd i)) (filter (\<lambda>i. fst i = Some k) issues))))
                        (rev (remdups (rev (concat (map (\<lambda>i. case fst i of None \<Rightarrow> [] | Some k \<Rightarrow> [k]) issues)))))))]"


subsection \<open>The request schemas\<close>

text \<open>
  \<open>measurementInputSchema\<close> (routes/measurements.ts). Its \<open>superRefine\<close> asks for a
  value unless the metric type is \<open>note\<close>.
\<close>

record measurementInput =
  mi_animalId :: string
  mi_metricType :: string
  mi_value :: "number option"
  mi_unit :: "string option"
  mi_notes :: "string option"
  mi_recordedAt :: "int option"

definition measurementInputSchema :: "lib \<Rightarrow> json option \<Rightarrow> zissue list + measurementInput" where
  "measurementInputSchema L input =
     (case input of
        Some (JObj kv) \<Rightarrow>
          (let animalId = z_required L (z_string L [Uuid]) (map_of kv ''animalId'');
               metricType = z_required L (z_string L
                   [Trim, Min 1 (Some ''Metric type is required''),
                    Max 64 (Some ''Metric type must be at most 64 characters'')])
                 (map_of kv ''metricType'');
               val = z_optional (z_number L [Finite]) (map_of kv ''value'');
               unit = z_optional (z_string L [Trim, Max 32 None]) (map_of kv ''unit'');
               notes = z_optional (z_string L [Trim, Max 1000 None]) (map_of kv ''notes'');
               recordedAt = z_optional (z_coerce_date L) (map_of kv ''recordedAt'');
               issues = at_field ''animalId'' animalId @ at_field ''metricType'' metricType
                 @ at_field ''value'' val @ at_field ''unit'' unit @ at_field ''notes'' notes
                 @ at_field ''recordedAt'' recordedAt
           in case do {
                  a \<leftarrow> fst animalId; m \<leftarrow> fst metricType; v \<leftarrow> fst val;
                  u \<leftarrow> fst unit; n \<leftarrow> fst notes; r \<leftarrow> fst recordedAt;
                  Some \<lparr>mi_animalId = a, mi_metricType = m, mi_value = v, mi_unit = u,
                        mi_notes = n, mi_recordedAt = r\<rparr> } of
                None \<Rightarrow> Inl issues
              | Some d \<Rightarrow>
                  z_finish
                    (issues @
                      (if toLowerCase (mi_metricType d) \<noteq> ''note'' \<and> mi_value d = None
                       then [(Some ''value'', ''Value is required for this measurement type'')]
                       else []))
                    d)
      | _ \<Rightarrow> Inl [(None, zod_message L invalid_type)])"

text \<open>\<open>feedingInputSchema\<close> (routes/feedings.ts, the version with \<open>animalId\<close>).\<close>

record feedingInput =
  fi_animalId :: string
  fi_feedingDate :: "int option"
  fi_consumed :: "string option"
  fi_foodType :: string
  fi_quantity :: string
  fi_notes :: "string option"
  fi_weight :: "number option"

definition feedingInputSchema :: "lib \<Rightarrow> json option \<Rightarrow> zissue list + feedingInput" where
  "feedingInputSchema L input =
     (case input of
        Some (JObj kv) \<Rightarrow>
          (let animalId = z_required L (z_string L [Uuid]) (map_of kv ''animalId'');
               feedingDate = z_optional (z_coerce_date L) (map_of kv ''feedingDate'');
               consumed = z_optional (z_enum L [''fully'', ''partially'', ''refused''])
                 (map_of kv ''consumed'');
               foodType = z_required L (z_string L
                   [Trim, Min 1 (Some ''Food type is required''),
                    Max 255 (Some ''Food type must be 255 characters or less'')])
                 (map_of kv ''foodType'');
               quantity = z_required L (z_string L
                   [Trim, Min 1 (Some ''Quantity is required''),
                    Max 255 (Some ''Quantity must be 255 characters or less'')])
                 (map_of kv ''quantity'');
               notes = z_optional (z_string L [Trim, Max 1000 None]) (map_of kv ''notes'');
               weight = z_optional (z_number L [Positive]) (map_of kv ''weight'');
               issues = at_field ''animalId'' animalId @ at_field ''feedingDate'' feedingDate
                 @ at_field ''consumed'' consumed @ at_field ''foodType'' foodType
                 @ at_field ''quantity'' quantity @ at_field ''notes'' notes
                 @ at_field ''weight'' weight
           in case do {
                  a \<leftarrow> fst animalId; d \<leftarrow> fst feedingDate; c \<leftarrow> fst consumed;
                  f \<leftarrow> fst foodType; q \<leftarrow> fst quantity; n \<leftarrow> fst notes; w \<leftarrow> fst weight;
                  Some \<lparr>fi_animalId = a, fi_feedingDate = d, fi_consumed = c, fi_foodType = f,
                        fi_quantity = q, fi_notes = n, fi_weight = w\<rparr> } of
                None \<Rightarrow> Inl issues
              | Some d \<Rightarrow> z_finish issues d)
      | _ \<Rightarrow> Inl [(None, zod_message L invalid_type)])"

text \<open>\<open>createReminderSchema\<close> and \<open>updateReminderSchema\<close> (routes/reminders.ts).\<close>

record createReminder =
  cr_animalId :: string
  cr_title :: string
  cr_notes :: "string option"
  cr_isReminder :: "bool option"
  cr_dueDate :: "int option"
  cr_notificationId :: "string option"

definition createReminderSchema :: "lib \<Rightarrow> json option \<Rightarrow> zissue list + createReminder" where
  "createReminderSchema L input =
     (case input of
        Some (JObj kv) \<Rightarrow>
          (let animalId = z_required L (z_string L [Uuid]) (map_of kv ''animalId'');
               title = z_required L (z_string L
                   [Trim, Min 1 (Some ''Title must be at least 1 character long''),
                    Max 255 (Some ''Title must be 255 characters or less'')])
                 (map_of kv ''title'');
               notes = z_optional (z_string L [Trim, Max 2000 None]) (map_of kv ''notes'');
               isReminder = z_optional (z_boolean L) (map_of kv ''isReminder'');
               dueDate = z_optional (z_coerce_date L) (map_of kv ''dueDate'');
               notificationId = z_optional (z_string L [Trim, Max 255 None])
                 (map_of kv ''notificationId'');
               issues = at_field ''animalId'' animalId @ at_field ''title'' title
                 @ at_field ''notes'' notes @ at_field ''isReminder'' isReminder
                 @ at_field ''dueDate'' dueDate @ at_field ''notificationId'' notificationId
           in case do {
                  a \<leftarrow> fst animalId; t \<leftarrow> fst title; n \<leftarrow> fst notes;
                  i \<leftarrow> fst isReminder; d \<leftarrow> fst dueDate; k \<leftarrow> fst notificationId;
                  Some \<lparr>cr_animalId = a, cr_title = t, cr_notes = n, cr_isReminder = i,
                        cr_dueDate = d, cr_notificationId = k\<rparr> } of
                None \<Rightarrow> Inl issues
              | Some d \<Rightarrow> z_finish issues d)
      | _ \<Rightarrow> Inl [(None, zod_message L invalid_type)])"

text \<open>
  In an update every field is optional: \<open>None\<close> is a key the body does not have, and for
  a nullable field \<open>Some None\<close> is \<open>null\<close>.
\<close>

record updateReminder =
  ur_title :: "string option"
  ur_notes :: "string option"
  ur_isReminder :: "bool option"
  ur_dueDate :: "int option option"
  ur_isCompleted :: "bool option"
  ur_notificationId :: "string option option"
  ur_animalId :: "string option"

definition updateReminderSchema :: "lib \<Rightarrow> json option \<Rightarrow> zissue list + updateReminder" where
  "updateReminderSchema L input =
     (case input of
        Some (JObj kv) \<Rightarrow>
          (let title = z_optional (z_string L [Trim, Min 1 None, Max 255 None]) (map_of kv ''title'');
               notes = z_optional (z_string L [Trim, Max 2000 None]) (map_of kv ''notes'');
               isReminder = z_optional (z_boolean L) (map_of kv ''isReminder'');
               dueDate = z_optional (z_nullable (z_coerce_date L)) (map_of kv ''dueDate'');
               isCompleted = z_optional (z_boolean L) (map_of kv ''isCompleted'');
               notificationId = z_optional (z_nullable (z_string L [Trim, Max 255 None]))
                 (map_of kv ''notificationId'');
               animalId = z_optional (z_string L [Uuid]) (map_of kv ''animalId'');
               issues = at_field ''title'' title @ at_field ''notes'' notes
                 @ at_field ''isReminder'' isReminder @ at_field ''dueDate'' dueDate
                 @ at_field ''isCompleted'' isCompleted
                 @ at_field ''notificationId'' notificationId @ at_field ''animalId'' animalId
           in case do {
                  t \<leftarrow> fst title; n \<leftarrow> fst notes; i \<leftarrow> fst isReminder; d \<leftarrow> fst dueDate;
                  c \<leftarrow> fst isCompleted; k \<leftarrow> fst notificationId; a \<leftarrow> fst animalId;
                  Some \<lparr>ur_title = t, ur_notes = n, ur_isReminder = i, ur_dueDate = d,
                        ur_isCompleted = c, ur_notificationId = k, ur_animalId = a\<rparr> } of
                None \<Rightarrow> Inl issues
              | Some d \<Rightarrow> z_finish issues d)
      | _ \<Rightarrow> Inl [(None, zod_message L invalid_type)])"

text \<open>\<open>Object.keys(updates)\<close>: the keys of the parsed update, those the body gave.\<close>

definition keys_updateReminder :: "updateReminder \<Rightarrow> string list" where
  "keys_updateReminder u =
     (if ur_title u \<noteq> None then [''title''] else [])
     @ (if ur_notes u \<noteq> None then [''notes''] else [])
     @ (if ur_isReminder u \<noteq> None then [''isReminder''] else [])
     @ (if ur_dueDate u \<noteq> None then [''dueDate''] else [])
     @ (if ur_isCompleted u \<noteq> None then [''isCompleted''] else [])
     @ (if ur_notificationId u \<noteq> None then [''notificationId''] else [])
     @ (if ur_animalId u \<noteq> None then [''animalId''] else [])"

text \<open>\<open>createAnimalSchema\<close> and \<open>updateAnimalSchema\<close> (routes/animals.ts).\<close>

record createAnimal =
  ca_name :: string
  ca_species :: "string option"
  ca_description :: "string option"
  ca_birthDate :: "int option"
  ca_sex :: "string option"

definition createAnimalSchema :: "lib \<Rightarrow> json option \<Rightarrow> zissue list + createAnimal" where
  "createAnimalSchema L input =
     (case input of
        Some (JObj kv) \<Rightarrow>
          (let name = z_required L (z_string L
                   [Trim, Min 1 (Some ''Name must be at least 1 character long''),
                    Max 100 (Some ''Name must be 100 characters or less'')])
                 (map_of kv ''name'');
               species = z_optional (z_string L [Trim, Max 100 None]) (map_of kv ''species'');
               description = z_optional (z_string L [Trim, Max 1000 None])
                 (map_of kv ''description'');
               birthDate = z_optional (z_coerce_date L) (map_of kv ''birthDate'');
               sex = z_optional (z_string L [Trim, Max 32 None]) (map_of kv ''sex'');
               issues = at_field ''name'' name @ at_field ''species'' species
                 @ at_field ''description'' description @ at_field ''birthDate'' birthDate
                 @ at_field ''sex'' sex
           in case do {
                  n \<leftarrow> fst name; s \<leftarrow> fst species; d \<leftarrow> fst description;
                  b \<leftarrow> fst birthDate; x \<leftarrow> fst sex;
                  Some \<lparr>ca_name = n, ca_species = s, ca_description = d, ca_birthDate = b,
                        ca_sex = x\<rparr> } of
                None \<Rightarrow> Inl issues
              | Some d \<Rightarrow> z_finish issues d)
      | _ \<Rightarrow> Inl [(None, zod_message L invalid_type)])"

record updateAnimal =
  ua_name :: "string option"
  ua_species :: "string option"
  ua_description :: "string option"
  ua_birthDate :: "int option option"
  ua_sex :: "string option option"

definition keys_updateAnimal :: "updateAnimal \<Rightarrow> string list" where
  "keys_updateAnimal u =
     (if ua_name u \<noteq> None then [''name''] else [])
     @ (if ua_species u \<noteq> None then [''species''] else [])
     @ (if ua_description u \<noteq> None then [''description''] else [])
     @ (if ua_birthDate u \<noteq> None then [''birthDate''] else [])
     @ (if ua_sex u \<noteq> None then [''sex''] else [])"

definition updateAnimalSchema :: "lib \<Rightarrow> json option \<Rightarrow> zissue list + updateAnimal" where
  "updateAnimalSchema L input =
     (case input of
        Some (JObj kv) \<Rightarrow>
          (let name = z_optional (z_string L
                   [Trim, Min 1 (Some ''Name must be at least 1 character long''),
                    Max 100 (Some ''Name must be 100 characters or less'')])
                 (map_of kv ''name'');
               species = z_optional (z_string L [Trim, Max 100 None]) (map_of kv ''species'');
               description = z_optional (z_string L [Trim, Max 1000 None])
                 (map_of kv ''description'');
               birthDate = z_optional (z_nullable (z_coerce_date L)) (map_of kv ''birthDate'');
               sex = z_optional (z_nullable (z_string L [Trim, Max 32 None])) (map_of kv ''sex'');
               issues = at_field ''name'' name @ at_field ''species'' species
                 @ at_field ''description'' description @ at_field ''birthDate'' birthDate
                 @ at_field ''sex'' sex
           in case do {
                  n \<leftarrow> fst name; s \<leftarrow> fst species; d \<leftarrow> fst description;
                  b \<leftarrow> fst birthDate; x \<leftarrow> fst sex;
                  Some \<lparr>ua_name = n, ua_species = s, ua_description = d, ua_birthDate = b,
                        ua_sex = x\<rparr> } of
                None \<Rightarrow> Inl issues
              | Some d \<Rightarrow>
                  z_finish
                    (issues @
                      (if length (keys_updateAnimal d) > 0 then []
                       else [(None, ''No fields provided to update'')]))
                    d)
      | _ \<Rightarrow> Inl [(None, zod_message L invalid_type)])"

text \<open>\<open>credentialsSchema\<close> (routes/auth.ts); the regular expression is \<open>^[a-zA-Z0-9._-]+$\<close>.\<close>

definition username_char :: "char \<Rightarrow> bool" where
  "username_char c =
     (let n = (of_char c :: nat)
      in (97 \<le> n \<and> n \<le> 122) \<or> (65 \<le> n \<and> n \<le> 90) \<or> (48 \<le> n \<and> n \<le> 57)
         \<or> c = CHR ''.'' \<or> c = CHR ''_'' \<or> c = CHR ''-'')"

definition username_regex :: "string \<Rightarrow> bool" where
  "username_regex s = (s \<noteq> [] \<and> list_all username_char s)"

record credentials =
  cred_username :: string
  cred_password :: string

definition credentialsSchema :: "lib \<Rightarrow> json option \<Rightarrow> zissue list + credentials" where
  "credentialsSchema L input =
     (case input of
        Some (JObj kv) \<Rightarrow>
          (let username = z_required L (z_string L
                   [Min 3 (Some ''Username must be at least 3 characters long''),
                    Max 32 (Some ''Username must be at most 32 characters long''),
                    Regex username_regex
                      ''Username can only include letters, numbers, dots, underscores, or dashes''])
                 (map_of kv ''username'');
               password = z_required L (z_string L
                   [Min 8 (Some ''Password must be at least 8 characters long''),
                    Max 72 (Some ''Password must be at most 72 characters long'')])
                 (map_of kv ''password'');
               issues = at_field ''username'' username @ at_field ''password'' password
           in case do {
                  u \<leftarrow> fst username; p \<leftarrow> fst password;
                  Some \<lparr>cred_username = u, cred_password = p\<rparr> } of
                None \<Rightarrow> Inl issues
              | Some d \<Rightarrow> z_finish issues d)
      | _ \<Rightarrow> Inl [(None, zod_message L invalid_type)])"

text \<open>
  The path parameter schemas (\<open>measurementParamsSchema\<close>, \<open>reminderParamsSchema\<close>,
  \<open>deleteParamsSchema\<close>, \<open>animalParamsSchema\<close>) are all \<open>z.object({ id: z.string().uuid() })\<close>,
  on the parameter the router took from the path; the query schemas
  (\<open>measurementQuerySchema\<close>, \<open>feedingQuerySchema\<close>, \<open>reminderQuerySchema\<close>) are all
  \<open>z.object({ animalId: z.string().uuid() })\<close>, on the parsed query string.
\<close>

definition idParamsSchema :: "lib \<Rightarrow> (string \<times> string) list \<Rightarrow> zissue list + string" where
  "idParamsSchema L params =
     (let r = z_required L (z_string L [Uuid]) (map_option JStr (map_of params ''id''))
      in case fst r of None \<Rightarrow> Inl (at_field ''id'' r) | Some v \<Rightarrow> z_finish (at_field ''id'' r) v)"

definition animalIdQuerySchema :: "lib \<Rightarrow> (string \<times> json) list \<Rightarrow> zissue list + string" where
  "animalIdQuerySchema L q =
     (let r = z_required L (z_string L [Uuid]) (map_of q ''animalId'')
      in case fst r of
           None \<Rightarrow> Inl (at_field ''animalId'' r)
         | Some v \<Rightarrow> z_finish (at_field ''animalId'' r) v)"


section \<open>The relational store\<close>

text \<open>
  The tables of db/schema.ts with the columns migration 0005 adds (\<open>animal\<close>, and the
  nullable \<open>animal_id\<close> of the three record tables). Timestamps are milliseconds; the
  database's \<open>now()\<close> and the server's \<open>Date.now()\<close> are one clock.
\<close>

record user_row =
  u_id :: string
  u_username :: string
  u_passwordHash :: string
  u_role :: string
  u_isActive :: bool
  u_createdAt :: int
  u_updatedAt :: int

record session_row =
  s_id :: string
  s_userId :: string
  s_expiresAt :: int
  s_createdAt :: int

record animal_row =
  a_id :: string
  a_userId :: string
  a_name :: string
  a_species :: "string option"
  a_description :: "string option"
  a_birthDate :: "int option"
  a_sex :: "string option"
  a_createdAt :: int
  a_updatedAt :: int

record feeding_row =
  f_id :: string
  f_userId :: string
  f_animalId :: "string option"
  f_feedingDate :: int
  f_consumed :: string
  f_foodType :: "string option"
  f_quantity :: "string option"
  f_notes :: "string option"
  f_weight :: "number option"
  f_createdAt :: int
  f_updatedAt :: int

record measurement_row =
  m_id :: string
  m_userId :: string
  m_animalId :: "string option"
  m_metricType :: string
  m_value :: "number option"
  m_unit :: "string option"
  m_notes :: "string option"
  m_recordedAt :: int
  m_createdAt :: int
  m_updatedAt :: int

record reminder_row =
  r_id :: string
  r_userId :: string
  r_animalId :: "string option"
  r_title :: string
  r_notes :: "string option"
  r_isReminder :: bool
  r_dueDate :: "int option"
  r_isCompleted :: bool
  r_notificationId :: "string option"
  r_createdAt :: int
  r_updatedAt :: int

record db =
  users :: "user_row list"
  sessions :: "session_row list"
  animals :: "animal_row list"
  feedings :: "feeding_row list"
  measurements :: "measurement_row list"
  reminders :: "reminder_row list"

text \<open>
  \<open>INSERT ... RETURNING\<close>: the primary key is checked by the database, and a duplicate
  key is an error the handler does not catch. (The unique indexes on \<open>user.username\<close> and
  on \<open>animal (user_id, name)\<close> are looked up by the handlers before they insert.)
\<close>

definition insert_row :: "('r \<Rightarrow> string) \<Rightarrow> 'r \<Rightarrow> 'r list \<Rightarrow> 'r list option" where
  "insert_row pk row table =
     (if pk row \<in> set (map pk table) then None else Some (table @ [row]))"

text \<open>
  The \<open>id\<close> and \<open>animal_id\<close> columns are of type \<open>uuid\<close>. A string the server binds to
  such a column (in \<open>eq(column, value)\<close> or in the values of an insert or update) is read
  as a uuid: PostgreSQL takes the hexadecimal digits in either case and writes a uuid in
  lower case, which is how the rows hold it. The strings bound here have passed
  \<open>z.string().uuid()\<close>, so they are in the hyphenated form. A comparison the server makes
  itself (\<open>!==\<close>) is on the strings as they are.
\<close>

definition pg_uuid :: "string \<Rightarrow> string" where
  "pg_uuid v = toLowerCase v"

text \<open>
  \<open>ORDER BY x DESC, y DESC\<close> is a sort on the negated keys, compared lexicographically;
  with \<open>DESC\<close> PostgreSQL puts a null first.
\<close>

definition order_desc2 :: "('r \<Rightarrow> int) \<Rightarrow> ('r \<Rightarrow> int) \<Rightarrow> 'r list \<Rightarrow> 'r list" where
  "order_desc2 k1 k2 rows = sort_key (\<lambda>r. (- k1 r, - k2 r)) rows"

definition reminder_order :: "reminder_row \<Rightarrow> nat \<times> int \<times> int" where
  "reminder_order r =
     (case r_dueDate r of
        None \<Rightarrow> (0, 0, - r_createdAt r)
      | Some d \<Rightarrow> (1, - d, - r_createdAt r))"

text \<open>
  \<open>DELETE FROM animal\<close> cascades: migration 0005 declares the \<open>animal_id\<close> foreign keys
  of \<open>feeding_record\<close>, \<open>measurement_log\<close> and \<open>reminder\<close> with \<open>ON DELETE cascade\<close>.
  \<open>cascade_animals gone d\<close> removes the rows that reference a deleted animal.
\<close>

definition cascade_animals :: "string list \<Rightarrow> db \<Rightarrow> db" where
  "cascade_animals gone d =
     d\<lparr>feedings := filter (\<lambda>f. case f_animalId f of None \<Rightarrow> True | Some a \<Rightarrow> a \<notin> set gone) (feedings d),
       measurements := filter (\<lambda>m. case m_animalId m of None \<Rightarrow> True | Some a \<Rightarrow> a \<notin> set gone) (measurements d),
       reminders := filter (\<lambda>r. case r_animalId r of None \<Rightarrow> True | Some a \<Rightarrow> a \<notin> set gone) (reminders d)\<rparr>"

definition delete_animals :: "(animal_row \<Rightarrow> bool) \<Rightarrow> db \<Rightarrow> animal_row list \<times> db" where
  "delete_animals cond d =
     (let deleted = filter cond (animals d)
      in (deleted,
          cascade_animals (map a_id deleted) (d\<lparr>animals := filter (\<lambda>a. \<not> cond a) (animals d)\<rparr>)))"

text \<open>
  \<open>DELETE FROM "user"\<close>: no route of the server deletes a user; the statement is the
  database's, and its cascade is the one the migrations declare: the \<open>user_id\<close> foreign
  keys of \<open>session\<close> (0000), \<open>feeding_record\<close> (0002), \<open>reminder\<close> (0003),
  \<open>measurement_log\<close> (0004) and \<open>animal\<close> (0005) are all \<open>ON DELETE cascade\<close>, and the
  animals deleted that way cascade in turn.
\<close>

definition delete_user :: "string \<Rightarrow> db \<Rightarrow> db" where
  "delete_user uid d =
     (let d1 = d\<lparr>users := filter (\<lambda>u. u_id u \<noteq> uid) (users d),
                 sessions := filter (\<lambda>s. s_userId s \<noteq> uid) (sessions d),
                 feedings := filter (\<lambda>f. f_userId f \<noteq> uid) (feedings d),
                 measurements := filter (\<lambda>m. m_userId m \<noteq> uid) (measurements d),
                 reminders := filter (\<lambda>r. r_userId r \<noteq> uid) (reminders d)\<rparr>
      in snd (delete_animals (\<lambda>a. a_userId a = uid) d1))"

section \<open>Requests and responses\<close>

datatype http_method = GET | POST | PUT | PATCH | DELETE

text \<open>
  A request as a handler sees it: \<open>req_params\<close> is what the router took from the path
  (\<open>request.params\<close>), \<open>req_query\<close> the parsed query string, \<open>req_body\<close> the parsed JSON
  body (\<open>None\<close> when there is none).
\<close>

record request =
  req_method :: http_method
  req_url :: string
  req_params :: "(string \<times> string) list"
  req_authorization :: "string option"
  req_query :: "(string \<times> json) list"
  req_body :: "json option"

record response =
  status :: nat
  body :: json

text \<open>\<open>reply.code(c).send(b)\<close>; \<open>reply.send(b)\<close> is \<open>send 200 b\<close>.\<close>

definition send :: "nat \<Rightarrow> json \<Rightarrow> response" where
  "send c b = \<lparr>status = c, body = b\<rparr>"

definition send_error :: "nat \<Rightarrow> string \<Rightarrow> response" where
  "send_error c msg = send c (JObj [(''error'', JStr msg)])"

definition send_invalid :: "string \<Rightarrow> zissue list \<Rightarrow> response" where
  "send_invalid msg issues = send 400 (JObj [(''error'', JStr msg), (''details'', flatten issues)])"

text \<open>An error the handler does not catch: Fastify answers 500.\<close>

definition internal_server_error :: response where
  "internal_server_error =
     send 500 (JObj [(''statusCode'', JNum (Fin 500)), (''error'', JStr ''Internal Server Error''),
                     (''message'', JStr ''duplicate key value violates unique constraint'')])"

definition str_or_null :: "string option \<Rightarrow> json" where
  "str_or_null v = (case v of None \<Rightarrow> JNull | Some s \<Rightarrow> JStr s)"

definition num_or_null :: "number option \<Rightarrow> json" where
  "num_or_null v = (case v of None \<Rightarrow> JNull | Some n \<Rightarrow> JNum n)"

definition date_or_null :: "lib \<Rightarrow> int option \<Rightarrow> json" where
  "date_or_null L v = (case v of None \<Rightarrow> JNull | Some t \<Rightarrow> JStr (toISOString L t))"

text \<open>\<open>x && x.length > 0 ? x : null\<close>, on a string that may be undefined or null.\<close>

definition non_empty :: "string option \<Rightarrow> string option" where
  "non_empty v = (case v of None \<Rightarrow> None | Some s \<Rightarrow> if length s > 0 then Some s else None)"

section \<open>Sessions (auth/session.ts)\<close>

record authenticatedContext =
  ac_session :: session_row
  ac_user :: user_row

definition extractToken :: "string option \<Rightarrow> string option" where
  "extractToken header =
     (case header of
        None \<Rightarrow> None
      | Some h \<Rightarrow>
          if h = [] then None
          else (case split CHR '' '' h of
                  scheme # v # _ \<Rightarrow>
                    if toLowerCase scheme \<noteq> ''bearer'' \<or> v = [] then None else Some (trim v)
                | _ \<Rightarrow> None))"

text \<open>The query of \<open>getActiveSessionByToken\<close>: \<open>session\<close> joined with \<open>user\<close>, by token.\<close>

definition session_join :: "db \<Rightarrow> string \<Rightarrow> (session_row \<times> user_row) list" where
  "session_join d token =
     [(s, u). s \<leftarrow> sessions d, u \<leftarrow> users d, s_userId s = u_id u, s_id s = token]"

definition getActiveSessionByToken :: "env \<Rightarrow> db \<Rightarrow> string \<Rightarrow> authenticatedContext option \<times> db" where
  "getActiveSessionByToken E d token =
     (case session_join d token of
        [] \<Rightarrow> (None, d)
      | (s, u) # _ \<Rightarrow>
          if s_expiresAt s \<le> now E \<or> \<not> u_isActive u
          then (None, d\<lparr>sessions := filter (\<lambda>x. s_id x \<noteq> token) (sessions d)\<rparr>)
          else (Some \<lparr>ac_session = s, ac_user = u\<rparr>, d))"

definition authenticateRequest :: "env \<Rightarrow> db \<Rightarrow> request \<Rightarrow> authenticatedContext option \<times> db" where
  "authenticateRequest E d req =
     (case extractToken (req_authorization req) of
        None \<Rightarrow> (None, d)
      | Some token \<Rightarrow> if token = [] then (None, d) else getActiveSessionByToken E d token)"

definition requireAuth :: "env \<Rightarrow> db \<Rightarrow> request \<Rightarrow> (response + authenticatedContext) \<times> db" where
  "requireAuth E d req =
     (case authenticateRequest E d req of
        (None, d') \<Rightarrow> (Inl (send_error 401 ''Unauthorized''), d')
      | (Some auth, d') \<Rightarrow> (Inr auth, d'))"

text \<open>
  Every handler of a protected route starts with
  \<open>const auth = await requireAuth(request, reply); if (!auth) return\<close>.
\<close>

definition with_auth ::
  "env \<Rightarrow> db \<Rightarrow> request \<Rightarrow> (authenticatedContext \<Rightarrow> db \<Rightarrow> response \<times> db) \<Rightarrow> response \<times> db" where
  "with_auth E d req handler =
     (case requireAuth E d req of
        (Inl r, d') \<Rightarrow> (r, d')
      | (Inr auth, d') \<Rightarrow> handler auth d')"

definition ensureAnimalOwnership :: "db \<Rightarrow> string \<Rightarrow> string \<Rightarrow> string option" where
  "ensureAnimalOwnership d userId animalId =
     (case filter (\<lambda>a. a_id a = pg_uuid animalId \<and> a_userId a = userId) (animals d) of
        [] \<Rightarrow> None
      | a # _ \<Rightarrow> Some (a_id a))"


text \<open>
  \<open>DELETE ... WHERE cond RETURNING\<close> and \<open>UPDATE ... SET ... WHERE cond RETURNING\<close>: the
  rows the statement touched, and the table after it.
\<close>

definition delete_rows :: "('r \<Rightarrow> bool) \<Rightarrow> 'r list \<Rightarrow> 'r list \<times> 'r list" where
  "delete_rows cond table = (filter cond table, filter (\<lambda>r. \<not> cond r) table)"

definition update_rows :: "('r \<Rightarrow> bool) \<Rightarrow> ('r \<Rightarrow> 'r) \<Rightarrow> 'r list \<Rightarrow> 'r list \<times> 'r list" where
  "update_rows cond f table =
     (map f (filter cond table), map (\<lambda>r. if cond r then f r else r) table)"

definition success_body :: json where
  "success_body = JObj [(''success'', JBool True)]"

section \<open>Feedings (routes/feedings.ts)\<close>

definition toFeedingResponse :: "lib \<Rightarrow> feeding_row \<Rightarrow> json" where
  "toFeedingResponse L r =
     JObj [(''id'', JStr (f_id r)),
           (''feedingDate'', JStr (toISOString L (f_feedingDate r))),
           (''consumed'', JStr (f_consumed r)),
           (''foodType'', str_or_null (f_foodType r)),
           (''quantity'', str_or_null (f_quantity r)),
           (''notes'', str_or_null (f_notes r)),
           (''weight'', num_or_null (f_weight r)),
           (''animalId'', str_or_null (f_animalId r)),
           (''createdAt'', JStr (toISOString L (f_createdAt r))),
           (''updatedAt'', JStr (toISOString L (f_updatedAt r)))]"

definition new_feeding :: "env \<Rightarrow> string \<Rightarrow> feedingInput \<Rightarrow> feeding_row" where
  "new_feeding E userId p =
     \<lparr>f_id = gen_random_uuid E,
      f_userId = userId,
      f_animalId = Some (pg_uuid (fi_animalId p)),
      f_feedingDate = (case fi_feedingDate p of None \<Rightarrow> now E | Some t \<Rightarrow> t),
      f_consumed = (case fi_consumed p of None \<Rightarrow> ''fully'' | Some c \<Rightarrow> c),
      f_foodType = Some (trim (fi_foodType p)),
      f_quantity = Some (trim (fi_quantity p)),
      f_notes = non_empty (fi_notes p),
      f_weight = fi_weight p,
      f_createdAt = now E,
      f_updatedAt = now E\<rparr>"

definition post_feedings :: "lib \<Rightarrow> env \<Rightarrow> db \<Rightarrow> request \<Rightarrow> response \<times> db" where
  "post_feedings L E d0 req =
     with_auth E d0 req (\<lambda>auth d.
       case feedingInputSchema L (req_body req) of
         Inl issues \<Rightarrow> (send_invalid ''Invalid feeding payload'' issues, d)
       | Inr p \<Rightarrow>
           (case ensureAnimalOwnership d (u_id (ac_user auth)) (fi_animalId p) of
              None \<Rightarrow> (send_error 404 ''Animal not found'', d)
            | Some _ \<Rightarrow>
                (let record = new_feeding E (u_id (ac_user auth)) p
                 in case insert_row f_id record (feedings d) of
                      None \<Rightarrow> (internal_server_error, d)
                    | Some t \<Rightarrow> (send 201 (toFeedingResponse L record), d\<lparr>feedings := t\<rparr>))))"

definition select_feedings :: "db \<Rightarrow> string \<Rightarrow> string \<Rightarrow> feeding_row list" where
  "select_feedings d userId animalId =
     take 200 (order_desc2 f_feedingDate f_createdAt
       (filter (\<lambda>f. f_userId f = userId \<and> f_animalId f = Some (pg_uuid animalId)) (feedings d)))"

definition get_feedings :: "lib \<Rightarrow> env \<Rightarrow> db \<Rightarrow> request \<Rightarrow> response \<times> db" where
  "get_feedings L E d0 req =
     with_auth E d0 req (\<lambda>auth d.
       case animalIdQuerySchema L (req_query req) of
         Inl issues \<Rightarrow> (send_error 400 ''Invalid feedings query parameters'', d)
       | Inr animalId \<Rightarrow>
           (case ensureAnimalOwnership d (u_id (ac_user auth)) animalId of
              None \<Rightarrow> (send_error 404 ''Animal not found'', d)
            | Some _ \<Rightarrow>
                (send 200 (JArr (map (toFeedingResponse L)
                                  (select_feedings d (u_id (ac_user auth)) animalId))), d)))"

definition delete_feeding :: "lib \<Rightarrow> env \<Rightarrow> db \<Rightarrow> request \<Rightarrow> response \<times> db" where
  "delete_feeding L E d0 req =
     with_auth E d0 req (\<lambda>auth d.
       case idParamsSchema L (req_params req) of
         Inl issues \<Rightarrow> (send_error 400 ''Invalid feeding identifier'', d)
       | Inr ident \<Rightarrow>
           (case delete_rows (\<lambda>f. f_id f = pg_uuid ident \<and> f_userId f = u_id (ac_user auth)) (feedings d) of
              ([], t) \<Rightarrow> (send_error 404 ''Feeding record not found'', d\<lparr>feedings := t\<rparr>)
            | (_ # _, t) \<Rightarrow> (send 200 success_body, d\<lparr>feedings := t\<rparr>)))"

section \<open>Measurements (routes/measurements.ts)\<close>

definition MEASUREMENT_LIMIT :: nat where
  "MEASUREMENT_LIMIT = 200"

definition toMeasurementResponse :: "lib \<Rightarrow> measurement_row \<Rightarrow> json" where
  "toMeasurementResponse L r =
     JObj [(''id'', JStr (m_id r)),
           (''metricType'', JStr (m_metricType r)),
           (''value'', num_or_null (m_value r)),
           (''unit'', str_or_null (m_unit r)),
           (''notes'', str_or_null (m_notes r)),
           (''recordedAt'', JStr (toISOString L (m_recordedAt r))),
           (''animalId'', str_or_null (m_animalId r)),
           (''createdAt'', JStr (toISOString L (m_createdAt r))),
           (''updatedAt'', JStr (toISOString L (m_updatedAt r)))]"

definition new_measurement :: "env \<Rightarrow> string \<Rightarrow> measurementInput \<Rightarrow> measurement_row" where
  "new_measurement E userId p =
     \<lparr>m_id = gen_random_uuid E,
      m_userId = userId,
      m_animalId = Some (pg_uuid (mi_animalId p)),
      m_metricType = mi_metricType p,
      m_value = mi_value p,
      m_unit = non_empty (mi_unit p),
      m_notes = non_empty (mi_notes p),
      m_recordedAt = (case mi_recordedAt p of None \<Rightarrow> now E | Some t \<Rightarrow> t),
      m_createdAt = now E,
      m_updatedAt = now E\<rparr>"

definition post_measurements :: "lib \<Rightarrow> env \<Rightarrow> db \<Rightarrow> request \<Rightarrow> response \<times> db" where
  "post_measurements L E d0 req =
     with_auth E d0 req (\<lambda>auth d.
       case measurementInputSchema L (req_body req) of
         Inl issues \<Rightarrow> (send_invalid ''Invalid measurement payload'' issues, d)
       | Inr p \<Rightarrow>
           (case ensureAnimalOwnership d (u_id (ac_user auth)) (mi_animalId p) of
              None \<Rightarrow> (send_error 404 ''Animal not found'', d)
            | Some _ \<Rightarrow>
                (let record = new_measurement E (u_id (ac_user auth)) p
                 in case insert_row m_id record (measurements d) of
                      None \<Rightarrow> (internal_server_error, d)
                    | Some t \<Rightarrow> (send 201 (toMeasurementResponse L record), d\<lparr>measurements := t\<rparr>))))"

definition select_measurements :: "db \<Rightarrow> string \<Rightarrow> string \<Rightarrow> measurement_row list" where
  "select_measurements d userId animalId =
     take MEASUREMENT_LIMIT (order_desc2 m_recordedAt m_createdAt
       (filter (\<lambda>m. m_userId m = userId \<and> m_animalId m = Some (pg_uuid animalId)) (measurements d)))"

definition get_measurements :: "lib \<Rightarrow> env \<Rightarrow> db \<Rightarrow> request \<Rightarrow> response \<times> db" where
  "get_measurements L E d0 req =
     with_auth E d0 req (\<lambda>auth d.
       case animalIdQuerySchema L (req_query req) of
         Inl issues \<Rightarrow> (send_error 400 ''Invalid measurements query parameters'', d)
       | Inr animalId \<Rightarrow>
           (case ensureAnimalOwnership d (u_id (ac_user auth)) animalId of
              None \<Rightarrow> (send_error 404 ''Animal not found'', d)
            | Some _ \<Rightarrow>
                (send 200 (JArr (map (toMeasurementResponse L)
                                  (select_measurements d (u_id (ac_user auth)) animalId))), d)))"

definition delete_measurement :: "lib \<Rightarrow> env \<Rightarrow> db \<Rightarrow> request \<Rightarrow> response \<times> db" where
  "delete_measurement L E d0 req =
     with_auth E d0 req (\<lambda>auth d.
       case idParamsSchema L (req_params req) of
         Inl issues \<Rightarrow> (send_error 400 ''Invalid measurement identifier'', d)
       | Inr ident \<Rightarrow>
           (case delete_rows (\<lambda>m. m_id m = pg_uuid ident \<and> m_userId m = u_id (ac_user auth)) (measurements d) of
              ([], t) \<Rightarrow> (send_error 404 ''Measurement not found'', d\<lparr>measurements := t\<rparr>)
            | (_ # _, t) \<Rightarrow> (send 200 success_body, d\<lparr>measurements := t\<rparr>)))"

section \<open>Reminders (routes/reminders.ts)\<close>

definition toReminderResponse :: "lib \<Rightarrow> reminder_row \<Rightarrow> json" where
  "toReminderResponse L r =
     JObj [(''id'', JStr (r_id r)),
           (''title'', JStr (r_title r)),
           (''notes'', str_or_null (r_notes r)),
           (''isReminder'', JBool (r_isReminder r)),
           (''dueDate'', date_or_null L (r_dueDate r)),
           (''isCompleted'', JBool (r_isCompleted r)),
           (''notificationId'', str_or_null (r_notificationId r)),
           (''animalId'', str_or_null (r_animalId r)),
           (''createdAt'', JStr (toISOString L (r_createdAt r))),
           (''updatedAt'', JStr (toISOString L (r_updatedAt r)))]"

definition new_reminder :: "env \<Rightarrow> string \<Rightarrow> createReminder \<Rightarrow> reminder_row" where
  "new_reminder E userId p =
     \<lparr>r_id = gen_random_uuid E,
      r_userId = userId,
      r_animalId = Some (pg_uuid (cr_animalId p)),
      r_title = cr_title p,
      r_notes = non_empty (cr_notes p),
      r_isReminder = (case cr_isReminder p of None \<Rightarrow> False | Some b \<Rightarrow> b),
      r_dueDate = cr_dueDate p,
      r_isCompleted = False,
      r_notificationId = non_empty (cr_notificationId p),
      r_createdAt = now E,
      r_updatedAt = now E\<rparr>"

definition post_reminders :: "lib \<Rightarrow> env \<Rightarrow> db \<Rightarrow> request \<Rightarrow> response \<times> db" where
  "post_reminders L E d0 req =
     with_auth E d0 req (\<lambda>auth d.
       case createReminderSchema L (req_body req) of
         Inl issues \<Rightarrow> (send_invalid ''Invalid reminder payload'' issues, d)
       | Inr p \<Rightarrow>
           (case ensureAnimalOwnership d (u_id (ac_user auth)) (cr_animalId p) of
              None \<Rightarrow> (send_error 404 ''Animal not found'', d)
            | Some _ \<Rightarrow>
                (let record = new_reminder E (u_id (ac_user auth)) p
                 in case insert_row r_id record (reminders d) of
                      None \<Rightarrow> (internal_server_error, d)
                    | Some t \<Rightarrow> (send 201 (toReminderResponse L record), d\<lparr>reminders := t\<rparr>))))"

definition select_reminders :: "db \<Rightarrow> string \<Rightarrow> string \<Rightarrow> reminder_row list" where
  "select_reminders d userId animalId =
     sort_key reminder_order
       (filter (\<lambda>r. r_userId r = userId \<and> r_animalId r = Some (pg_uuid animalId)) (reminders d))"

definition get_reminders :: "lib \<Rightarrow> env \<Rightarrow> db \<Rightarrow> request \<Rightarrow> response \<times> db" where
  "get_reminders L E d0 req =
     with_auth E d0 req (\<lambda>auth d.
       case animalIdQuerySchema L (req_query req) of
         Inl issues \<Rightarrow> (send_error 400 ''Invalid reminders query parameters'', d)
       | Inr animalId \<Rightarrow>
           (case ensureAnimalOwnership d (u_id (ac_user auth)) animalId of
              None \<Rightarrow> (send_error 404 ''Animal not found'', d)
            | Some _ \<Rightarrow>
                (send 200 (JArr (map (toReminderResponse L)
                                  (select_reminders d (u_id (ac_user auth)) animalId))), d)))"

text \<open>
  \<open>updatePayload\<close>: the columns the \<open>UPDATE\<close> sets. \<open>None\<close> leaves a column as it is;
  for a nullable column \<open>Some None\<close> sets it to null.
\<close>

record reminder_patch =
  rp_title :: "string option"
  rp_notes :: "string option option"
  rp_isReminder :: "bool option"
  rp_dueDate :: "int option option"
  rp_isCompleted :: "bool option"
  rp_notificationId :: "string option option"
  rp_animalId :: "string option"
  rp_updatedAt :: int

definition reminder_updatePayload :: "env \<Rightarrow> updateReminder \<Rightarrow> reminder_patch" where
  "reminder_updatePayload E updates =
     \<lparr>rp_title = ur_title updates,
      rp_notes = map_option (\<lambda>n. non_empty (Some n)) (ur_notes updates),
      rp_isReminder = ur_isReminder updates,
      rp_dueDate = ur_dueDate updates,
      rp_isCompleted = ur_isCompleted updates,
      rp_notificationId = map_option non_empty (ur_notificationId updates),
      rp_animalId = map_option pg_uuid (ur_animalId updates),
      rp_updatedAt = now E\<rparr>"

definition set_reminder :: "reminder_patch \<Rightarrow> reminder_row \<Rightarrow> reminder_row" where
  "set_reminder p r =
     r\<lparr>r_title := (case rp_title p of None \<Rightarrow> r_title r | Some v \<Rightarrow> v),
       r_notes := (case rp_notes p of None \<Rightarrow> r_notes r | Some v \<Rightarrow> v),
       r_isReminder := (case rp_isReminder p of None \<Rightarrow> r_isReminder r | Some v \<Rightarrow> v),
       r_dueDate := (case rp_dueDate p of None \<Rightarrow> r_dueDate r | Some v \<Rightarrow> v),
       r_isCompleted := (case rp_isCompleted p of None \<Rightarrow> r_isCompleted r | Some v \<Rightarrow> v),
       r_notificationId := (case rp_notificationId p of None \<Rightarrow> r_notificationId r | Some v \<Rightarrow> v),
       r_animalId := (case rp_animalId p of None \<Rightarrow> r_animalId r | Some v \<Rightarrow> Some v),
       r_updatedAt := rp_updatedAt p\<rparr>"

definition patch_reminder :: "lib \<Rightarrow> env \<Rightarrow> db \<Rightarrow> request \<Rightarrow> response \<times> db" where
  "patch_reminder L E d0 req =
     with_auth E d0 req (\<lambda>auth d.
       case idParamsSchema L (req_params req) of
         Inl issues \<Rightarrow> (send_error 400 ''Invalid reminder identifier'', d)
       | Inr ident \<Rightarrow>
           (case updateReminderSchema L (req_body req) of
              Inl issues \<Rightarrow> (send_invalid ''Invalid reminder update payload'' issues, d)
            | Inr updates \<Rightarrow>
                if length (keys_updateReminder updates) = 0
                then (send_error 400 ''No fields provided to update'', d)
                else if (case ur_animalId updates of
                           None \<Rightarrow> False
                         | Some a \<Rightarrow> ensureAnimalOwnership d (u_id (ac_user auth)) a = None)
                then (send_error 404 ''Animal not found'', d)
                else (case update_rows (\<lambda>r. r_id r = pg_uuid ident \<and> r_userId r = u_id (ac_user auth))
                             (set_reminder (reminder_updatePayload E updates)) (reminders d) of
                        ([], t) \<Rightarrow> (send_error 404 ''Reminder not found'', d\<lparr>reminders := t\<rparr>)
                      | (updated # _, t) \<Rightarrow>
                          (send 200 (toReminderResponse L updated), d\<lparr>reminders := t\<rparr>))))"

definition delete_reminder :: "lib \<Rightarrow> env \<Rightarrow> db \<Rightarrow> request \<Rightarrow> response \<times> db" where
  "delete_reminder L E d0 req =
     with_auth E d0 req (\<lambda>auth d.
       case idParamsSchema L (req_params req) of
         Inl issues \<Rightarrow> (send_error 400 ''Invalid reminder identifier'', d)
       | Inr ident \<Rightarrow>
           (case delete_rows (\<lambda>r. r_id r = pg_uuid ident \<and> r_userId r = u_id (ac_user auth)) (reminders d) of
              ([], t) \<Rightarrow> (send_error 404 ''Reminder not found'', d\<lparr>reminders := t\<rparr>)
            | (_ # _, t) \<Rightarrow> (send 200 success_body, d\<lparr>reminders := t\<rparr>)))"

section \<open>Animals (routes/animals.ts)\<close>

definition toAnimalResponse :: "lib \<Rightarrow> animal_row \<Rightarrow> json" where
  "toAnimalResponse L r =
     JObj [(''id'', JStr (a_id r)),
           (''name'', JStr (a_name r)),
           (''species'', str_or_null (a_species r)),
           (''description'', str_or_null (a_description r)),
           (''birthDate'', date_or_null L (a_birthDate r)),
           (''sex'', str_or_null (a_sex r)),
           (''createdAt'', JStr (toISOString L (a_createdAt r))),
           (''updatedAt'', JStr (toISOString L (a_updatedAt r)))]"

definition sanitizeOptionalString :: "string option \<Rightarrow> string option" where
  "sanitizeOptionalString v =
     (case v of None \<Rightarrow> None | Some s \<Rightarrow> if length (trim s) > 0 then Some (trim s) else None)"

text \<open>\<open>sanitizeCreateAnimalPayload\<close>, with the columns the insert adds to it.\<close>

definition new_animal :: "env \<Rightarrow> string \<Rightarrow> createAnimal \<Rightarrow> animal_row" where
  "new_animal E userId input =
     \<lparr>a_id = gen_random_uuid E,
      a_userId = userId,
      a_name = trim (ca_name input),
      a_species = sanitizeOptionalString (ca_species input),
      a_description = sanitizeOptionalString (ca_description input),
      a_birthDate = ca_birthDate input,
      a_sex = sanitizeOptionalString (ca_sex input),
      a_createdAt = now E,
      a_updatedAt = now E\<rparr>"

definition get_animals :: "lib \<Rightarrow> env \<Rightarrow> db \<Rightarrow> request \<Rightarrow> response \<times> db" where
  "get_animals L E d0 req =
     with_auth E d0 req (\<lambda>auth d.
       (send 200 (JArr (map (toAnimalResponse L)
                         (sort_key a_name (filter (\<lambda>a. a_userId a = u_id (ac_user auth)) (animals d))))),
        d))"

definition post_animals :: "lib \<Rightarrow> env \<Rightarrow> db \<Rightarrow> request \<Rightarrow> response \<times> db" where
  "post_animals L E d0 req =
     with_auth E d0 req (\<lambda>auth d.
       case createAnimalSchema L (req_body req) of
         Inl issues \<Rightarrow> (send_invalid ''Invalid animal payload'' issues, d)
       | Inr input \<Rightarrow>
           (let record = new_animal E (u_id (ac_user auth)) input;
                existing = filter (\<lambda>a. a_userId a = u_id (ac_user auth) \<and> a_name a = a_name record)
                             (animals d)
            in if length existing > 0
               then (send_error 409 ''An animal with this name already exists'', d)
               else (case insert_row a_id record (animals d) of
                       None \<Rightarrow> (internal_server_error, d)
                     | Some t \<Rightarrow> (send 201 (toAnimalResponse L record), d\<lparr>animals := t\<rparr>))))"

text \<open>\<open>sanitizeUpdateAnimalPayload\<close>: the columns to set, as in \<open>reminder_patch\<close>.\<close>

record animal_patch =
  ap_name :: "string option"
  ap_species :: "string option option"
  ap_description :: "string option option"
  ap_birthDate :: "int option option"
  ap_sex :: "string option option"

definition sanitizeUpdateAnimalPayload :: "updateAnimal \<Rightarrow> animal_patch" where
  "sanitizeUpdateAnimalPayload input =
     \<lparr>ap_name = map_option trim (ua_name input),
      ap_species = map_option (\<lambda>v. sanitizeOptionalString (Some v)) (ua_species input),
      ap_description = map_option (\<lambda>v. sanitizeOptionalString (Some v)) (ua_description input),
      ap_birthDate = ua_birthDate input,
      ap_sex = map_option sanitizeOptionalString (ua_sex input)\<rparr>"

definition keys_animal_patch :: "animal_patch \<Rightarrow> string list" where
  "keys_animal_patch u =
     (if ap_name u \<noteq> None then [''name''] else [])
     @ (if ap_species u \<noteq> None then [''species''] else [])
     @ (if ap_description u \<noteq> None then [''description''] else [])
     @ (if ap_birthDate u \<noteq> None then [''birthDate''] else [])
     @ (if ap_sex u \<noteq> None then [''sex''] else [])"

definition set_animal :: "animal_patch \<Rightarrow> int \<Rightarrow> animal_row \<Rightarrow> animal_row" where
  "set_animal p updatedAt r =
     r\<lparr>a_name := (case ap_name p of None \<Rightarrow> a_name r | Some v \<Rightarrow> v),
       a_species := (case ap_species p of None \<Rightarrow> a_species r | Some v \<Rightarrow> v),
       a_description := (case ap_description p of None \<Rightarrow> a_description r | Some v \<Rightarrow> v),
       a_birthDate := (case ap_birthDate p of None \<Rightarrow> a_birthDate r | Some v \<Rightarrow> v),
       a_sex := (case ap_sex p of None \<Rightarrow> a_sex r | Some v \<Rightarrow> v),
       a_updatedAt := updatedAt\<rparr>"

text \<open>
  \<open>if (updates.name)\<close> holds for a name that is there and not empty; the duplicate the
  query finds (\<open>LIMIT 1\<close>) is refused when its id is not the string of the path
  (\<open>duplicate[0].id !== parsedParams.data.id\<close>, a comparison of strings).
\<close>

definition duplicate_name :: "db \<Rightarrow> string \<Rightarrow> string \<Rightarrow> animal_patch \<Rightarrow> bool" where
  "duplicate_name d userId ident updates =
     (case ap_name updates of
        None \<Rightarrow> False
      | Some n \<Rightarrow>
          if n = [] then False
          else (case filter (\<lambda>a. a_userId a = userId \<and> a_name a = n) (animals d) of
                  [] \<Rightarrow> False
                | dup # _ \<Rightarrow> a_id dup \<noteq> ident))"

definition patch_animal :: "lib \<Rightarrow> env \<Rightarrow> db \<Rightarrow> request \<Rightarrow> response \<times> db" where
  "patch_animal L E d0 req =
     with_auth E d0 req (\<lambda>auth d.
       case idParamsSchema L (req_params req) of
         Inl issues \<Rightarrow> (send_error 400 ''Invalid animal identifier'', d)
       | Inr ident \<Rightarrow>
           (case updateAnimalSchema L (req_body req) of
              Inl issues \<Rightarrow> (send_invalid ''Invalid animal update payload'' issues, d)
            | Inr input \<Rightarrow>
                (let updates = sanitizeUpdateAnimalPayload input
                 in if length (keys_animal_patch updates) = 0
                    then (send_error 400 ''No fields provided to update'', d)
                    else if duplicate_name d (u_id (ac_user auth)) ident updates
                    then (send_error 409 ''An animal with this name already exists'', d)
                    else (case update_rows (\<lambda>a. a_id a = pg_uuid ident \<and> a_userId a = u_id (ac_user auth))
                                 (set_animal updates (now E)) (animals d) of
                            ([], t) \<Rightarrow> (send_error 404 ''Animal not found'', d\<lparr>animals := t\<rparr>)
                          | (updated # _, t) \<Rightarrow>
                              (send 200 (toAnimalResponse L updated), d\<lparr>animals := t\<rparr>)))))"

definition delete_animal :: "lib \<Rightarrow> env \<Rightarrow> db \<Rightarrow> request \<Rightarrow> response \<times> db" where
  "delete_animal L E d0 req =
     with_auth E d0 req (\<lambda>auth d.
       case idParamsSchema L (req_params req) of
         Inl issues \<Rightarrow> (send_error 400 ''Invalid animal identifier'', d)
       | Inr ident \<Rightarrow>
           (case delete_animals (\<lambda>a. a_id a = pg_uuid ident \<and> a_userId a = u_id (ac_user auth)) d of
              ([], d') \<Rightarrow> (send_error 404 ''Animal not found'', d')
            | (_ # _, d') \<Rightarrow> (send 200 success_body, d')))"

section \<open>Authentication (auth/index.ts, routes/auth.ts)\<close>

definition normalizeUsername :: "string \<Rightarrow> string" where
  "normalizeUsername username = toLowerCase (trim username)"

text \<open>
  A user row as the object the handlers hold (the \<open>User\<close> of db/schema.ts), and
  \<open>toPublicUser\<close>, which takes \<open>passwordHash\<close> out and keeps the rest.
\<close>

definition user_object :: "lib \<Rightarrow> user_row \<Rightarrow> (string \<times> json) list" where
  "user_object L u =
     [(''id'', JStr (u_id u)),
      (''username'', JStr (u_username u)),
      (''passwordHash'', JStr (u_passwordHash u)),
      (''role'', JStr (u_role u)),
      (''isActive'', JBool (u_isActive u)),
      (''createdAt'', JStr (toISOString L (u_createdAt u))),
      (''updatedAt'', JStr (toISOString L (u_updatedAt u)))]"

definition toPublicUser :: "(string \<times> json) list \<Rightarrow> (string \<times> json) list" where
  "toPublicUser user = filter (\<lambda>kv. fst kv \<noteq> ''passwordHash'') user"

record sessionPayload =
  sp_token :: string
  sp_expiresAt :: string

definition authResponse :: "lib \<Rightarrow> user_row \<Rightarrow> sessionPayload \<Rightarrow> json" where
  "authResponse L u sp =
     JObj [(''user'', JObj (toPublicUser (user_object L u))),
           (''session'', JObj [(''token'', JStr (sp_token sp)), (''expiresAt'', JStr (sp_expiresAt sp))])]"

definition findUserByUsername :: "db \<Rightarrow> string \<Rightarrow> user_row option" where
  "findUserByUsername d username =
     (case filter (\<lambda>u. u_username u = username) (users d) of [] \<Rightarrow> None | u # _ \<Rightarrow> Some u)"

definition createSession :: "lib \<Rightarrow> env \<Rightarrow> db \<Rightarrow> string \<Rightarrow> (sessionPayload \<times> db) option" where
  "createSession L E d userId =
     (let newSession = \<lparr>s_id = randomBytes_hex E, s_userId = userId,
                         s_expiresAt = now E + SESSION_TTL_HOURS E * 60 * 60 * 1000,
                         s_createdAt = now E\<rparr>
      in case insert_row s_id newSession (sessions d) of
           None \<Rightarrow> None
         | Some t \<Rightarrow>
             Some (\<lparr>sp_token = s_id newSession,
                     sp_expiresAt = toISOString L (s_expiresAt newSession)\<rparr>,
                   d\<lparr>sessions := t\<rparr>))"

definition auth_register :: "lib \<Rightarrow> env \<Rightarrow> db \<Rightarrow> request \<Rightarrow> response \<times> db" where
  "auth_register L E d req =
     (case credentialsSchema L (req_body req) of
        Inl issues \<Rightarrow> (send_invalid ''Invalid credentials payload'' issues, d)
      | Inr c \<Rightarrow>
          (let normalizedUsername = normalizeUsername (cred_username c)
           in case findUserByUsername d normalizedUsername of
                Some _ \<Rightarrow> (send_error 409 ''Username is already taken'', d)
              | None \<Rightarrow>
                  (let createdUser = \<lparr>u_id = gen_random_uuid E, u_username = normalizedUsername,
                                       u_passwordHash = bcrypt_hash E (cred_password c),
                                       u_role = ''user'', u_isActive = True,
                                       u_createdAt = now E, u_updatedAt = now E\<rparr>
                   in case insert_row u_id createdUser (users d) of
                        None \<Rightarrow> (internal_server_error, d)
                      | Some t \<Rightarrow>
                          (case createSession L E (d\<lparr>users := t\<rparr>) (u_id createdUser) of
                             None \<Rightarrow> (internal_server_error, d\<lparr>users := t\<rparr>)
                           | Some (sp, d') \<Rightarrow> (send 201 (authResponse L createdUser sp), d')))))"

definition auth_login :: "lib \<Rightarrow> env \<Rightarrow> db \<Rightarrow> request \<Rightarrow> response \<times> db" where
  "auth_login L E d req =
     (case credentialsSchema L (req_body req) of
        Inl issues \<Rightarrow> (send_invalid ''Invalid credentials payload'' issues, d)
      | Inr c \<Rightarrow>
          (case findUserByUsername d (normalizeUsername (cred_username c)) of
             None \<Rightarrow> (send_error 401 ''Invalid username or password'', d)
           | Some existingUser \<Rightarrow>
               if \<not> u_isActive existingUser
               then (send_error 403 ''Account is inactive. Contact an administrator.'', d)
               else if \<not> bcrypt_compare L (cred_password c) (u_passwordHash existingUser)
               then (send_error 401 ''Invalid username or password'', d)
               else (case createSession L E d (u_id existingUser) of
                       None \<Rightarrow> (internal_server_error, d)
                     | Some (sp, d') \<Rightarrow> (send 200 (authResponse L existingUser sp), d'))))"

definition auth_me :: "lib \<Rightarrow> env \<Rightarrow> db \<Rightarrow> request \<Rightarrow> response \<times> db" where
  "auth_me L E d req =
     (case extractToken (req_authorization req) of
        None \<Rightarrow> (send_error 401 ''Missing authorization token'', d)
      | Some token \<Rightarrow>
          if token = [] then (send_error 401 ''Missing authorization token'', d)
          else (case getActiveSessionByToken E d token of
                  (None, d') \<Rightarrow> (send_error 401 ''Session not found or expired'', d')
                | (Some sessionData, d') \<Rightarrow>
                    (send 200 (authResponse L (ac_user sessionData)
                       \<lparr>sp_token = s_id (ac_session sessionData),
                        sp_expiresAt = toISOString L (s_expiresAt (ac_session sessionData))\<rparr>), d')))"

definition auth_logout :: "lib \<Rightarrow> env \<Rightarrow> db \<Rightarrow> request \<Rightarrow> response \<times> db" where
  "auth_logout L E d req =
     (case extractToken (req_authorization req) of
        None \<Rightarrow> (send 200 success_body, d)
      | Some token \<Rightarrow>
          if token = [] then (send 200 success_body, d)
          else (send 200 success_body, d\<lparr>sessions := filter (\<lambda>s. s_id s \<noteq> token) (sessions d)\<rparr>))"

definition health :: "lib \<Rightarrow> env \<Rightarrow> db \<Rightarrow> request \<Rightarrow> response \<times> db" where
  "health L E d req = (send 200 (JObj [(''status'', JStr ''ok'')]), d)"

section \<open>The server (server.ts)\<close>

text \<open>
  Each \<open>register...Routes\<close> is the list of the routes it registers, in its order:
  \<open>app.post('/feedings', handler)\<close> is \<open>(POST, ''/feedings'', handler)\<close>. The router matches
  the method and the path, segment by segment; a pattern segment \<open>:name\<close> takes any
  segment as the parameter \<open>name\<close>. A request no route matches is answered 404.
  \<open>createServer\<close> (server.ts) registers \<open>/health\<close> and the auth, feeding, measurement and
  reminder routes. It does not call \<open>registerAnimalRoutes\<close> (routes/animals.ts), whose
  routes are those of an application it is called on: \<open>serve_routes registerAnimalRoutes\<close>.
\<close>

type_synonym handler = "lib \<Rightarrow> env \<Rightarrow> db \<Rightarrow> request \<Rightarrow> response \<times> db"
type_synonym route = "http_method \<times> string \<times> handler"

definition registerAuthRoutes :: "route list" where
  "registerAuthRoutes =
     [(POST, ''/auth/register'', auth_register),
      (POST, ''/auth/login'', auth_login),
      (GET, ''/auth/me'', auth_me),
      (POST, ''/auth/logout'', auth_logout)]"

definition registerFeedingRoutes :: "route list" where
  "registerFeedingRoutes =
     [(POST, ''/feedings'', post_feedings),
      (GET, ''/feedings'', get_feedings),
      (DELETE, ''/feedings/:id'', delete_feeding)]"

definition registerMeasurementRoutes :: "route list" where
  "registerMeasurementRoutes =
     [(POST, ''/measurements'', post_measurements),
      (GET, ''/measurements'', get_measurements),
      (DELETE, ''/measurements/:id'', delete_measurement)]"

definition registerReminderRoutes :: "route list" where
  "registerReminderRoutes =
     [(POST, ''/reminders'', post_reminders),
      (GET, ''/reminders'', get_reminders),
      (PATCH, ''/reminders/:id'', patch_reminder),
      (DELETE, ''/reminders/:id'', delete_reminder)]"

definition registerAnimalRoutes :: "route list" where
  "registerAnimalRoutes =
     [(GET, ''/animals'', get_animals),
      (POST, ''/animals'', post_animals),
      (PATCH, ''/animals/:id'', patch_animal),
      (DELETE, ''/animals/:id'', delete_animal)]"

definition createServer :: "route list" where
  "createServer =
     [(GET, ''/health'', health)] @ registerAuthRoutes @ registerFeedingRoutes
     @ registerMeasurementRoutes @ registerReminderRoutes"

fun match_path :: "string list \<Rightarrow> string list \<Rightarrow> (string \<times> string) list option" where
  "match_path [] [] = Some []"
| "match_path (p # ps) (x # xs) =
     (if p \<noteq> [] \<and> hd p = CHR '':''
      then map_option ((#) (tl p, x)) (match_path ps xs)
      else if p = x then match_path ps xs else None)"
| "match_path _ _ = None"

definition route_params :: "route \<Rightarrow> request \<Rightarrow> (string \<times> string) list option" where
  "route_params r req =
     (if fst r = req_method req
      then match_path (split CHR ''/'' (fst (snd r))) (split CHR ''/'' (req_url req))
      else None)"

definition route_not_found :: response where
  "route_not_found =
     send 404 (JObj [(''message'', JStr ''Route not found''), (''error'', JStr ''Not Found''),
                     (''statusCode'', JNum (Fin 404))])"

definition serve_routes :: "route list \<Rightarrow> lib \<Rightarrow> env \<Rightarrow> db \<Rightarrow> request \<Rightarrow> response \<times> db" where
  "serve_routes routes L E d req =
     (case List.find (\<lambda>r. route_params r req \<noteq> None) routes of
        None \<Rightarrow> (route_not_found, d)
      | Some r \<Rightarrow>
          (snd (snd r)) L E d
            (req\<lparr>req_params := (case route_params r req of None \<Rightarrow> [] | Some ps \<Rightarrow> ps)\<rparr>))"

definition serve :: "lib \<Rightarrow> env \<Rightarrow> db \<Rightarrow> request \<Rightarrow> response \<times> db" where
  "serve L E d req = serve_routes createServer L E d req"

section \<open>The mobile client's session cache (contexts/AuthContext.tsx)\<close>

text \<open>
  The provider's state is the signed-in user and session, and the item stored under
  \<open>@reptiai/auth-state\<close>; \<open>me_calls\<close> lists the tokens \<open>/auth/me\<close> was called with. A
  stored item that \<open>JSON.parse\<close> refuses is \<open>Unparseable\<close>. A call to the API resolves with
  the response or is rejected with an error: its \<open>status\<close> is the response's, and a
  network failure has none (or 0).
\<close>

record authUser =
  au_id :: string
  au_username :: string
  au_role :: string
  au_createdAt :: string
  au_updatedAt :: string

record authSession =
  as_token :: string
  as_expiresAt :: string

record storedAuthState =
  st_user :: authUser
  st_session :: authSession

datatype storage_item = Unparseable | Stored storedAuthState

datatype api_result = Resolved storedAuthState | Rejected "nat option"

record auth_state =
  cur_user :: "authUser option"
  cur_session :: "authSession option"
  storage :: "storage_item option"
  me_calls :: "string list"

definition isSessionExpired :: "lib \<Rightarrow> int \<Rightarrow> authSession option \<Rightarrow> bool" where
  "isSessionExpired L t session =
     (case session of
        None \<Rightarrow> True
      | Some s \<Rightarrow> (case new_Date L (JStr (as_expiresAt s)) of None \<Rightarrow> False | Some e \<Rightarrow> e \<le> t))"

definition persistAuthState :: "authUser option \<Rightarrow> authSession option \<Rightarrow> auth_state \<Rightarrow> auth_state" where
  "persistAuthState nextUser nextSession st =
     (case (nextUser, nextSession) of
        (Some u, Some s) \<Rightarrow> st\<lparr>storage := Some (Stored \<lparr>st_user = u, st_session = s\<rparr>)\<rparr>
      | _ \<Rightarrow> st\<lparr>storage := None\<rparr>)"

definition applyAuthState :: "authUser option \<Rightarrow> authSession option \<Rightarrow> auth_state \<Rightarrow> auth_state" where
  "applyAuthState nextUser nextSession st =
     persistAuthState nextUser nextSession (st\<lparr>cur_user := nextUser, cur_session := nextSession\<rparr>)"

definition restoreSession :: "lib \<Rightarrow> int \<Rightarrow> (string \<Rightarrow> api_result) \<Rightarrow> auth_state \<Rightarrow> auth_state" where
  "restoreSession L t auth_me_request st =
     (case storage st of
        None \<Rightarrow> st
      | Some Unparseable \<Rightarrow> st
      | Some (Stored parsed) \<Rightarrow>
          if isSessionExpired L t (Some (st_session parsed)) then st\<lparr>storage := None\<rparr>
          else (let st1 = st\<lparr>me_calls := me_calls st @ [as_token (st_session parsed)]\<rparr>
                in case auth_me_request (as_token (st_session parsed)) of
                     Resolved refreshed \<Rightarrow>
                       applyAuthState (Some (st_user refreshed)) (Some (st_session refreshed)) st1
                   | Rejected st_code \<Rightarrow>
                       if st_code = Some 401 \<or> st_code = Some 403
                       then applyAuthState None None st1
                       else st1\<lparr>cur_user := Some (st_user parsed),
                               cur_session := Some (st_session parsed)\<rparr>))"

section \<open>Properties of states and responses\<close>

text \<open>The JSON keys of a response body, at any depth.\<close>

fun has_key :: "string \<Rightarrow> json \<Rightarrow> bool" where
  "has_key k (JObj kvs) = list_ex (\<lambda>kv. fst kv = k \<or> has_key k (snd kv)) kvs"
| "has_key k (JArr xs) = list_ex (has_key k) xs"
| "has_key k _ = False"

text \<open>The elements of a JSON array (none for another value).\<close>

fun items :: "json \<Rightarrow> json list" where
  "items (JArr xs) = xs"
| "items _ = []"

text \<open>
  The resource tables: everything but the sessions, which \<open>getActiveSessionByToken\<close>
  prunes.
\<close>

definition same_resources :: "db \<Rightarrow> db \<Rightarrow> bool" where
  "same_resources d d' =
     (users d' = users d \<and> animals d' = animals d \<and> feedings d' = feedings d
      \<and> measurements d' = measurements d \<and> reminders d' = reminders d)"

text \<open>Referential integrity: every foreign key names a row of its parent table.\<close>

definition animal_ref_ok :: "db \<Rightarrow> string option \<Rightarrow> bool" where
  "animal_ref_ok d ref = (case ref of None \<Rightarrow> True | Some a \<Rightarrow> a \<in> a_id ` set (animals d))"

definition fk_ok :: "db \<Rightarrow> bool" where
  "fk_ok d =
     ((\<forall>s \<in> set (sessions d). s_userId s \<in> u_id ` set (users d))
      \<and> (\<forall>a \<in> set (animals d). a_userId a \<in> u_id ` set (users d))
      \<and> (\<forall>f \<in> set (feedings d). f_userId f \<in> u_id ` set (users d) \<and> animal_ref_ok d (f_animalId f))
      \<and> (\<forall>m \<in> set (measurements d).
            m_userId m \<in> u_id ` set (users d) \<and> animal_ref_ok d (m_animalId m))
      \<and> (\<forall>r \<in> set (reminders d). r_userId r \<in> u_id ` set (users d) \<and> animal_ref_ok d (r_animalId r)))"

text \<open>
  \<open>more_recent k1 k2 x y\<close>: \<open>x\<close> does not come after \<open>y\<close> under
  \<open>ORDER BY k1 DESC, k2 DESC\<close>.
\<close>

definition more_recent :: "('r \<Rightarrow> int) \<Rightarrow> ('r \<Rightarrow> int) \<Rightarrow> 'r \<Rightarrow> 'r \<Rightarrow> bool" where
  "more_recent k1 k2 x y = (k1 y < k1 x \<or> (k1 y = k1 x \<and> k2 y \<le> k2 x))"

section \<open>A library instance and a small database, for the examples\<close>

text \<open>
  \<open>lib0\<close> stands for the libraries on the values the examples use: identifiers of the
  shape 8-4-4-4-12 in hexadecimal digits, three dates and their ISO strings, and a
  password hash that \<open>bcrypt_compare\<close> recognises.
\<close>

definition hex_char :: "char \<Rightarrow> bool" where
  "hex_char c =
     (let n = (of_char c :: nat)
      in (48 \<le> n \<and> n \<le> 57) \<or> (97 \<le> n \<and> n \<le> 102) \<or> (65 \<le> n \<and> n \<le> 70))"

definition uuid_shape :: "string \<Rightarrow> bool" where
  "uuid_shape s =
     (let gs = split CHR ''-'' s
      in map length gs = [8, 4, 4, 4, 12] \<and> list_all (list_all hex_char) gs)"

definition date0 :: "json \<Rightarrow> int option" where
  "date0 j =
     (case j of
        JStr s \<Rightarrow>
          if s = ''2020-01-01T00:00:00.000Z'' then Some 1577836800000
          else if s = ''2025-01-01T00:00:00.000Z'' then Some 1735689600000
          else if s = ''2030-01-01T00:00:00.000Z'' then Some 1893456000000
          else None
      | _ \<Rightarrow> None)"

definition iso0 :: "int \<Rightarrow> string" where
  "iso0 t =
     (if t = 1577836800000 then ''2020-01-01T00:00:00.000Z''
      else if t = 1735689600000 then ''2025-01-01T00:00:00.000Z''
      else if t = 1893456000000 then ''2030-01-01T00:00:00.000Z''
      else ''1970-01-01T00:00:00.000Z'')"

definition lib0 :: lib where
  "lib0 = \<lparr>uuid_ok = uuid_shape, new_Date = date0, toISOString = iso0,
           zod_message = (\<lambda>c. ''Invalid input''),
           bcrypt_compare = (\<lambda>p h. h = ''hash:'' @ p)\<rparr>"

text \<open>A request at 2025-01-01T00:00:00Z.\<close>

definition env0 :: env where
  "env0 = \<lparr>now = 1735689600000,
           gen_random_uuid = ''00000000-0000-4000-8000-0000000000ff'',
           randomBytes_hex = ''c0ffee'',
           bcrypt_hash = (\<lambda>p. ''hash:'' @ p),
           SESSION_TTL_HOURS = 24\<rparr>"

definition alice :: user_row where
  "alice = \<lparr>u_id = ''00000000-0000-4000-8000-00000000000a'', u_username = ''alice'',
            u_passwordHash = ''hash:alicepassword'', u_role = ''user'', u_isActive = True,
            u_createdAt = 1577836800000, u_updatedAt = 1577836800000\<rparr>"

definition bob :: user_row where
  "bob = \<lparr>u_id = ''00000000-0000-4000-8000-00000000000b'', u_username = ''bob'',
          u_passwordHash = ''hash:bobpassword'', u_role = ''user'', u_isActive = True,
          u_createdAt = 1577836800000, u_updatedAt = 1577836800000\<rparr>"

definition rex :: animal_row where
  "rex = \<lparr>a_id = ''00000000-0000-4000-8000-0000000000a1'', a_userId = u_id alice,
          a_name = ''Rex'', a_species = None, a_description = None, a_birthDate = None,
          a_sex = None, a_createdAt = 1577836800000, a_updatedAt = 1577836800000\<rparr>"

definition iggy :: animal_row where
  "iggy = \<lparr>a_id = ''00000000-0000-4000-8000-0000000000a2'', a_userId = u_id alice,
           a_name = ''Iggy'', a_species = None, a_description = None, a_birthDate = None,
           a_sex = None, a_createdAt = 1577836800000, a_updatedAt = 1577836800000\<rparr>"

definition spike :: animal_row where
  "spike = \<lparr>a_id = ''00000000-0000-4000-8000-0000000000b1'', a_userId = u_id bob,
            a_name = ''Spike'', a_species = None, a_description = None, a_birthDate = None,
            a_sex = None, a_createdAt = 1577836800000, a_updatedAt = 1577836800000\<rparr>"

text \<open>
  Alice's session \<open>tokalice\<close> and Bob's \<open>tokbob\<close> run until 2030; Alice's \<open>tokold\<close>
  expired in 2020.
\<close>

definition db0 :: db where
  "db0 = \<lparr>users = [alice, bob],
          sessions = [\<lparr>s_id = ''tokalice'', s_userId = u_id alice, s_expiresAt = 1893456000000,
                       s_createdAt = 1577836800000\<rparr>,
                      \<lparr>s_id = ''tokbob'', s_userId = u_id bob, s_expiresAt = 1893456000000,
                       s_createdAt = 1577836800000\<rparr>,
                      \<lparr>s_id = ''tokold'', s_userId = u_id alice, s_expiresAt = 1577836800000,
                       s_createdAt = 1577836800000\<rparr>],
          animals = [rex, iggy, spike],
          feedings = [], measurements = [], reminders = []\<rparr>"

definition request0 :: request where
  "request0 = \<lparr>req_method = GET, req_url = ''/health'', req_params = [],
                req_authorization = None, req_query = [], req_body = None\<rparr>"

definition request_expired :: request where
  "request_expired = \<lparr>req_method = GET, req_url = ''/animals'', req_params = [],
      req_authorization = Some ''Bearer tokold'', req_query = [], req_body = None\<rparr>"

definition request_login :: request where
  "request_login = \<lparr>req_method = POST, req_url = ''/auth/login'', req_params = [],
      req_authorization = None, req_query = [],
      req_body = Some (JObj [(''username'', JStr ''Alice''), (''password'', JStr ''alicepassword'')])\<rparr>"

text \<open>
  The client's cache: Alice signed in, with a session until 2030 (\<open>cache_valid\<close>) or one
  that ended in 2020 (\<open>cache_expired\<close>); \<open>offline\<close> is a network that fails.
\<close>

definition cached_alice :: authUser where
  "cached_alice = \<lparr>au_id = u_id alice, au_username = ''alice'', au_role = ''user'',
      au_createdAt = ''2020-01-01T00:00:00.000Z'', au_updatedAt = ''2020-01-01T00:00:00.000Z''\<rparr>"

definition stored_valid :: storedAuthState where
  "stored_valid = \<lparr>st_user = cached_alice,
      st_session = \<lparr>as_token = ''tokalice'', as_expiresAt = ''2030-01-01T00:00:00.000Z''\<rparr>\<rparr>"

definition stored_expired :: storedAuthState where
  "stored_expired = \<lparr>st_user = cached_alice,
      st_session = \<lparr>as_token = ''tokold'', as_expiresAt = ''2020-01-01T00:00:00.000Z''\<rparr>\<rparr>"

definition cache_valid :: auth_state where
  "cache_valid = \<lparr>cur_user = None, cur_session = None, storage = Some (Stored stored_valid),
      me_calls = []\<rparr>"

definition cache_expired :: auth_state where
  "cache_expired = \<lparr>cur_user = None, cur_session = None, storage = Some (Stored stored_expired),
      me_calls = []\<rparr>"

definition offline :: "string \<Rightarrow> api_result" where
  "offline token = Rejected None"

text \<open>
  \<open>db1\<close>: \<open>db0\<close> with two measurements and two feedings of Rex (one of 2020, one of
  2025) and a reminder.
\<close>

definition meas_2020 :: measurement_row where
  "meas_2020 = \<lparr>m_id = ''00000000-0000-4000-8000-0000000000c1'', m_userId = u_id alice,
      m_animalId = Some (a_id rex), m_metricType = ''weight'', m_value = Some (Fin 120),
      m_unit = Some ''g'', m_notes = None, m_recordedAt = 1577836800000,
      m_createdAt = 1577836800000, m_updatedAt = 1577836800000\<rparr>"

definition meas_2025 :: measurement_row where
  "meas_2025 = \<lparr>m_id = ''00000000-0000-4000-8000-0000000000c2'', m_userId = u_id alice,
      m_animalId = Some (a_id rex), m_metricType = ''weight'', m_value = Some (Fin 150),
      m_unit = Some ''g'', m_notes = None, m_recordedAt = 1735689600000,
      m_createdAt = 1735689600000, m_updatedAt = 1735689600000\<rparr>"

definition feed_2020 :: feeding_row where
  "feed_2020 = \<lparr>f_id = ''00000000-0000-4000-8000-0000000000d1'', f_userId = u_id alice,
      f_animalId = Some (a_id rex), f_feedingDate = 1577836800000, f_consumed = ''fully'',
      f_foodType = Some ''mouse'', f_quantity = Some ''1'', f_notes = None, f_weight = None,
      f_createdAt = 1577836800000, f_updatedAt = 1577836800000\<rparr>"

definition feed_2025 :: feeding_row where
  "feed_2025 = \<lparr>f_id = ''00000000-0000-4000-8000-0000000000d2'', f_userId = u_id alice,
      f_animalId = Some (a_id rex), f_feedingDate = 1735689600000, f_consumed = ''refused'',
      f_foodType = Some ''mouse'', f_quantity = Some ''1'', f_notes = None, f_weight = None,
      f_createdAt = 1735689600000, f_updatedAt = 1735689600000\<rparr>"

definition remind_rex :: reminder_row where
  "remind_rex = \<lparr>r_id = ''00000000-0000-4000-8000-0000000000e1'', r_userId = u_id alice,
      r_animalId = Some (a_id rex), r_title = ''Clean tank'', r_notes = None,
      r_isReminder = False, r_dueDate = None, r_isCompleted = False, r_notificationId = None,
      r_createdAt = 1577836800000, r_updatedAt = 1577836800000\<rparr>"

definition db1 :: db where
  "db1 = db0\<lparr>feedings := [feed_2020, feed_2025], measurements := [meas_2020, meas_2025],
             reminders := [remind_rex]\<rparr>"

definition request_list :: "string \<Rightarrow> string \<Rightarrow> string \<Rightarrow> request" where
  "request_list url token animalId =
     \<lparr>req_method = GET, req_url = url, req_params = [],
      req_authorization = Some (''Bearer '' @ token),
      req_query = [(''animalId'', JStr animalId)], req_body = None\<rparr>"

definition alice_session :: session_row where
  "alice_session = \<lparr>s_id = ''tokalice'', s_userId = u_id alice, s_expiresAt = 1893456000000,
      s_createdAt = 1577836800000\<rparr>"

definition bob_session :: session_row where
  "bob_session = \<lparr>s_id = ''tokbob'', s_userId = u_id bob, s_expiresAt = 1893456000000,
      s_createdAt = 1577836800000\<rparr>"

definition as_alice :: authenticatedContext where
  "as_alice = \<lparr>ac_session = alice_session, ac_user = alice\<rparr>"

definition as_bob :: authenticatedContext where
  "as_bob = \<lparr>ac_session = bob_session, ac_user = bob\<rparr>"

text \<open>Requests of Alice and Bob with a JSON body, and with none.\<close>

definition request_json :: "http_method \<Rightarrow> string \<Rightarrow> string \<Rightarrow> (string \<times> json) list \<Rightarrow> request" where
  "request_json m url token kvs =
     \<lparr>req_method = m, req_url = url, req_params = [],
      req_authorization = Some (''Bearer '' @ token), req_query = [],
      req_body = Some (JObj kvs)\<rparr>"

definition request_plain :: "http_method \<Rightarrow> string \<Rightarrow> string \<Rightarrow> request" where
  "request_plain m url token =
     \<lparr>req_method = m, req_url = url, req_params = [],
      req_authorization = Some (''Bearer '' @ token), req_query = [], req_body = None\<rparr>"

text \<open>A request as a handler sees it once the router has taken \<open>:id\<close> from the path.\<close>

definition with_id :: "string \<Rightarrow> request \<Rightarrow> request" where
  "with_id ident req = req\<lparr>req_params := [(''id'', ident)]\<rparr>"






chapter \<open>Proofs\<close>

lemma set_session_join:
  "set (session_join d token) =
     {(s, u). s \<in> set (sessions d) \<and> u \<in> set (users d) \<and> s_userId s = u_id u \<and> s_id s = token}"
  by (auto simp: session_join_def split: if_splits)

lemma getActiveSessionByToken_Some:
  "getActiveSessionByToken E d token = (Some auth, d') \<Longrightarrow>
     d' = d \<and> ac_session auth \<in> set (sessions d) \<and> ac_user auth \<in> set (users d)
     \<and> s_userId (ac_session auth) = u_id (ac_user auth) \<and> s_id (ac_session auth) = token
     \<and> now E < s_expiresAt (ac_session auth) \<and> u_isActive (ac_user auth)"
proof -
  assume a: "getActiveSessionByToken E d token = (Some auth, d')"
  from a obtain s u rest where j: "session_join d token = (s, u) # rest"
    by (cases "session_join d token") (auto simp: getActiveSessionByToken_def)
  then have "(s, u) \<in> set (session_join d token)" by simp
  then have m: "s \<in> set (sessions d)" "u \<in> set (users d)" "s_userId s = u_id u" "s_id s = token"
    by (auto simp: set_session_join)
  from a j have "\<not> (s_expiresAt s \<le> now E \<or> \<not> u_isActive u)" "auth = \<lparr>ac_session = s, ac_user = u\<rparr>" "d' = d"
    by (auto simp: getActiveSessionByToken_def split: if_splits)
  with m show ?thesis by auto
qed

lemma getActiveSessionByToken_None:
  "getActiveSessionByToken E d token = (None, d') \<Longrightarrow>
     same_resources d d' \<and> set (sessions d') \<subseteq> set (sessions d)"
  by (auto simp: getActiveSessionByToken_def same_resources_def split: list.splits if_splits)

lemma authenticateRequest_Some:
  "authenticateRequest E d req = (Some auth, d') \<Longrightarrow>
     d' = d \<and> ac_session auth \<in> set (sessions d) \<and> ac_user auth \<in> set (users d)
     \<and> s_userId (ac_session auth) = u_id (ac_user auth)
     \<and> now E < s_expiresAt (ac_session auth) \<and> u_isActive (ac_user auth)"
  by (auto simp: authenticateRequest_def split: option.splits if_splits
      dest!: getActiveSessionByToken_Some)

lemma authenticateRequest_None:
  "authenticateRequest E d req = (None, d') \<Longrightarrow>
     same_resources d d' \<and> set (sessions d') \<subseteq> set (sessions d)"
  by (auto simp: authenticateRequest_def same_resources_def split: option.splits if_splits
      dest!: getActiveSessionByToken_None)

lemma requireAuth_Inr:
  "requireAuth E d req = (Inr auth, d') \<Longrightarrow>
     d' = d \<and> ac_user auth \<in> set (users d) \<and> ac_session auth \<in> set (sessions d)
     \<and> s_userId (ac_session auth) = u_id (ac_user auth)"
  by (auto simp: requireAuth_def split: prod.splits option.splits dest!: authenticateRequest_Some)

lemma requireAuth_Inl:
  "requireAuth E d req = (Inl r, d') \<Longrightarrow>
     r = send_error 401 ''Unauthorized'' \<and> same_resources d d' \<and> set (sessions d') \<subseteq> set (sessions d)"
  by (auto simp: requireAuth_def split: prod.splits option.splits dest!: authenticateRequest_None)

lemma with_auth_cases:
  assumes "\<And>d'. same_resources d d' \<Longrightarrow> set (sessions d') \<subseteq> set (sessions d) \<Longrightarrow>
             P (send_error 401 ''Unauthorized'', d')"
      and "\<And>auth. requireAuth E d req = (Inr auth, d) \<Longrightarrow> P (h auth d)"
  shows "P (with_auth E d req h)"
proof (cases "requireAuth E d req")
  case (Pair x d')
  show ?thesis
  proof (cases x)
    case (Inl r)
    with Pair requireAuth_Inl[of E d req r d'] assms(1)[of d'] show ?thesis
      by (simp add: with_auth_def)
  next
    case (Inr auth)
    with Pair requireAuth_Inr[of E d req auth d'] assms(2)[of auth] show ?thesis
      by (simp add: with_auth_def)
  qed
qed

lemma with_auth_Inr:
  "requireAuth E d req = (Inr auth, d') \<Longrightarrow> with_auth E d req h = h auth d"
  by (frule requireAuth_Inr) (simp add: with_auth_def)

lemma getActiveSessionByToken_expired:
  assumes "\<forall>s \<in> set (sessions d). s_id s = token \<longrightarrow> s_expiresAt s \<le> now E"
  shows "fst (getActiveSessionByToken E d token) = None"
proof (cases "session_join d token")
  case Nil
  then show ?thesis by (simp add: getActiveSessionByToken_def)
next
  case (Cons p rest)
  obtain s u where p: "p = (s, u)" by (cases p)
  from Cons p have "(s, u) \<in> set (session_join d token)" by simp
  then have "s \<in> set (sessions d)" "s_id s = token" by (auto simp: set_session_join)
  with assms have "s_expiresAt s \<le> now E" by blast
  with Cons p show ?thesis by (simp add: getActiveSessionByToken_def)
qed

lemma requireAuth_expired:
  assumes "extractToken (req_authorization req) = Some token"
      and "\<forall>s \<in> set (sessions d). s_id s = token \<longrightarrow> s_expiresAt s \<le> now E"
  shows "\<exists>d'. requireAuth E d req = (Inl (send_error 401 ''Unauthorized''), d')
           \<and> same_resources d d'"
proof -
  obtain x d' where r: "requireAuth E d req = (x, d')" by (cases "requireAuth E d req")
  have "fst (authenticateRequest E d req) = None"
    using assms getActiveSessionByToken_expired[OF assms(2)]
    by (simp add: authenticateRequest_def)
  then have "\<exists>r. x = Inl r"
    using r by (auto simp: requireAuth_def split: prod.splits option.splits)
  then obtain r0 where "x = Inl r0" by blast
  with r requireAuth_Inl[of E d req r0 d'] show ?thesis by simp
qed

lemma with_auth_expired:
  assumes "extractToken (req_authorization req) = Some token"
      and "\<forall>s \<in> set (sessions d). s_id s = token \<longrightarrow> s_expiresAt s \<le> now E"
  shows "fst (with_auth E d req h) = send_error 401 ''Unauthorized''
         \<and> same_resources d (snd (with_auth E d req h))"
  using requireAuth_expired[OF assms] by (auto simp: with_auth_def)

text \<open>
  Claim C2. A request whose bearer token names a session row that has expired
  (\<open>expiresAt\<close> at or before the clock) is refused: \<open>getActiveSessionByToken\<close> returns
  null, \<open>requireAuth\<close> answers 401 Unauthorized, and every handler behind \<open>requireAuth\<close>
  (the feeding, measurement, reminder and animal routes) returns that answer and leaves
  the users, animals, feedings, measurements and reminders as they were.
\<close>

theorem expired_sessions_rejected:
  assumes "extractToken (req_authorization req) = Some token"
      and "s \<in> set (sessions d)" and "s_id s = token"
      and "\<forall>s \<in> set (sessions d). s_id s = token \<longrightarrow> s_expiresAt s \<le> now E"
  shows "fst (getActiveSessionByToken E d token) = None
       \<and> fst (requireAuth E d req) = Inl (send_error 401 ''Unauthorized'')
       \<and> (\<forall>r \<in> set (registerFeedingRoutes @ registerMeasurementRoutes
                      @ registerReminderRoutes @ registerAnimalRoutes).
            fst (snd (snd r) L E d req) = send_error 401 ''Unauthorized''
            \<and> status (fst (snd (snd r) L E d req)) = 401
            \<and> same_resources d (snd (snd (snd r) L E d req)))"
proof -
  note w = with_auth_expired[OF assms(1) assms(4)]
  have a: "fst (getActiveSessionByToken E d token) = None"
    by (rule getActiveSessionByToken_expired[OF assms(4)])
  have b: "fst (requireAuth E d req) = Inl (send_error 401 ''Unauthorized'')"
    using requireAuth_expired[OF assms(1) assms(4)] by auto
  have s: "status (send_error 401 ''Unauthorized'') = 401"
    by (simp add: send_error_def send_def)
  have c: "\<forall>r \<in> set (registerFeedingRoutes @ registerMeasurementRoutes
                      @ registerReminderRoutes @ registerAnimalRoutes).
            fst (snd (snd r) L E d req) = send_error 401 ''Unauthorized''
            \<and> status (fst (snd (snd r) L E d req)) = 401
            \<and> same_resources d (snd (snd (snd r) L E d req))"
    unfolding registerFeedingRoutes_def registerMeasurementRoutes_def
      registerReminderRoutes_def registerAnimalRoutes_def
    by (simp add: w s post_feedings_def get_feedings_def delete_feeding_def
        post_measurements_def get_measurements_def delete_measurement_def
        post_reminders_def get_reminders_def patch_reminder_def delete_reminder_def
        get_animals_def post_animals_def patch_animal_def delete_animal_def)
  from a b c show ?thesis by blast
qed

theorem expired_sessions_rejected_witness:
  "fst (getActiveSessionByToken env0 db0 ''tokold'') = None
   \<and> fst (requireAuth env0 db0 request_expired) = Inl (send_error 401 ''Unauthorized'')
   \<and> fst (get_animals lib0 env0 db0 request_expired) = send_error 401 ''Unauthorized''
   \<and> same_resources db0 (snd (get_animals lib0 env0 db0 request_expired))"
proof -
  have h1: "extractToken (req_authorization request_expired) = Some ''tokold''"
    by code_simp
  have h2: "\<lparr>s_id = ''tokold'', s_userId = u_id alice, s_expiresAt = 1577836800000,
              s_createdAt = 1577836800000\<rparr> \<in> set (sessions db0)"
    by (simp add: db0_def)
  have h3: "s_id \<lparr>s_id = ''tokold'', s_userId = u_id alice, s_expiresAt = 1577836800000,
              s_createdAt = 1577836800000\<rparr> = ''tokold''"
    by simp
  have h4: "\<forall>s \<in> set (sessions db0). s_id s = ''tokold'' \<longrightarrow> s_expiresAt s \<le> now env0"
    by (simp add: db0_def env0_def)
  have m: "(GET, ''/animals'', get_animals) \<in> set (registerFeedingRoutes @ registerMeasurementRoutes
                      @ registerReminderRoutes @ registerAnimalRoutes)"
    by (simp add: registerAnimalRoutes_def)
  from expired_sessions_rejected[OF h1 h2 h3 h4, of lib0] m show ?thesis
    by fastforce
qed

lemma z_string_abort: "fst (z_string L cs j) = None \<Longrightarrow> snd (z_string L cs j) \<noteq> []"
  by (cases j) (auto simp: z_string_def split: prod.splits)

lemma z_number_abort: "fst (z_number L cs j) = None \<Longrightarrow> snd (z_number L cs j) \<noteq> []"
  by (cases j) (auto simp: z_number_def)

lemma z_boolean_abort: "fst (z_boolean L j) = None \<Longrightarrow> snd (z_boolean L j) \<noteq> []"
  by (cases j) (auto simp: z_boolean_def)

lemma z_enum_abort: "fst (z_enum L vs j) = None \<Longrightarrow> snd (z_enum L vs j) \<noteq> []"
  by (cases j) (auto simp: z_enum_def)

lemma z_coerce_date_abort: "fst (z_coerce_date L j) = None \<Longrightarrow> snd (z_coerce_date L j) \<noteq> []"
  by (auto simp: z_coerce_date_def split: option.splits)

lemma z_nullable_abort:
  "(fst (f j) = None \<Longrightarrow> snd (f j) \<noteq> []) \<Longrightarrow>
   fst (z_nullable f j) = None \<Longrightarrow> snd (z_nullable f j) \<noteq> []"
  by (cases j) (auto simp: z_nullable_def)

lemma z_optional_abort:
  "(\<And>j. fst (f j) = None \<Longrightarrow> snd (f j) \<noteq> []) \<Longrightarrow>
   fst (z_optional f v) = None \<Longrightarrow> snd (z_optional f v) \<noteq> []"
  by (cases v) (auto simp: z_optional_def)

lemma z_required_abort:
  "(\<And>j. fst (f j) = None \<Longrightarrow> snd (f j) \<noteq> []) \<Longrightarrow>
   fst (z_required L f v) = None \<Longrightarrow> snd (z_required L f v) \<noteq> []"
  by (cases v) (auto simp: z_required_def)

lemmas z_abort = z_string_abort z_number_abort z_boolean_abort z_enum_abort z_coerce_date_abort
  z_nullable_abort z_optional_abort z_required_abort

lemma at_field_Nil: "at_field k r = [] \<longleftrightarrow> snd r = []"
  by (simp add: at_field_def)

lemma z_finish_Inl: "z_finish issues d = Inl out \<longleftrightarrow> issues \<noteq> [] \<and> out = issues"
  by (auto simp: z_finish_def)

lemma z_finish_Inr: "z_finish issues d = Inr d' \<longleftrightarrow> issues = [] \<and> d' = d"
  by (auto simp: z_finish_def)

lemma z_abort_req_string:
  "fst (z_required L (z_string L cs) v) = None \<Longrightarrow> snd (z_required L (z_string L cs) v) = [] \<Longrightarrow> False"
  using z_required_abort[of "z_string L cs" L v] z_string_abort by blast

lemma z_abort_opt_string:
  "fst (z_optional (z_string L cs) v) = None \<Longrightarrow> snd (z_optional (z_string L cs) v) = [] \<Longrightarrow> False"
  using z_optional_abort[of "z_string L cs" v] z_string_abort by blast

lemma z_abort_opt_number:
  "fst (z_optional (z_number L cs) v) = None \<Longrightarrow> snd (z_optional (z_number L cs) v) = [] \<Longrightarrow> False"
  using z_optional_abort[of "z_number L cs" v] z_number_abort by blast

lemma z_abort_opt_boolean:
  "fst (z_optional (z_boolean L) v) = None \<Longrightarrow> snd (z_optional (z_boolean L) v) = [] \<Longrightarrow> False"
  using z_optional_abort[of "z_boolean L" v] z_boolean_abort by blast

lemma z_abort_opt_enum:
  "fst (z_optional (z_enum L vs) v) = None \<Longrightarrow> snd (z_optional (z_enum L vs) v) = [] \<Longrightarrow> False"
  using z_optional_abort[of "z_enum L vs" v] z_enum_abort by blast

lemma z_abort_opt_date:
  "fst (z_optional (z_coerce_date L) v) = None \<Longrightarrow> snd (z_optional (z_coerce_date L) v) = [] \<Longrightarrow> False"
  using z_optional_abort[of "z_coerce_date L" v] z_coerce_date_abort by blast

lemma z_abort_opt_null_date:
  "fst (z_optional (z_nullable (z_coerce_date L)) v) = None \<Longrightarrow>
   snd (z_optional (z_nullable (z_coerce_date L)) v) = [] \<Longrightarrow> False"
  using z_optional_abort[of "z_nullable (z_coerce_date L)" v]
    z_nullable_abort[of "z_coerce_date L"] z_coerce_date_abort by blast

lemma z_abort_opt_null_string:
  "fst (z_optional (z_nullable (z_string L cs)) v) = None \<Longrightarrow>
   snd (z_optional (z_nullable (z_string L cs)) v) = [] \<Longrightarrow> False"
  using z_optional_abort[of "z_nullable (z_string L cs)" v]
    z_nullable_abort[of "z_string L cs"] z_string_abort by blast

lemmas z_aborts = z_abort_req_string z_abort_opt_string z_abort_opt_number z_abort_opt_boolean
  z_abort_opt_enum z_abort_opt_date z_abort_opt_null_date z_abort_opt_null_string

lemma not_object:
  "\<not> (\<exists>kv. input = Some (JObj kv)) \<Longrightarrow>
   (case input of Some (JObj kv) \<Rightarrow> f kv | _ \<Rightarrow> g) = g"
  by (auto split: option.splits json.splits)

lemma set_at_field: "set (at_field k r) = (\<lambda>m. (Some k, m)) ` set (snd r)"
  by (simp add: at_field_def)

lemma measurementInputSchema_issues:
  assumes "measurementInputSchema L input = Inl issues"
  shows "issues \<noteq> [] \<and> Some ''passwordHash'' \<notin> fst ` set issues"
proof (cases "\<exists>kv. input = Some (JObj kv)")
  case False
  with assms show ?thesis
    by (auto simp: measurementInputSchema_def not_object)
next
  case True
  then obtain kv where kv: "input = Some (JObj kv)" by blast
  have a: "issues \<noteq> []"
    using assms unfolding kv measurementInputSchema_def
    by (auto simp: Let_def at_field_Nil z_finish_Inl bind_eq_None_conv
        split: option.splits if_splits dest: z_aborts)
  have b: "Some ''passwordHash'' \<notin> fst ` set issues"
    using assms unfolding kv measurementInputSchema_def
    by (auto simp: Let_def set_at_field z_finish_Inl split: option.splits if_splits)
  from a b show ?thesis by simp
qed

lemma feedingInputSchema_issues:
  assumes "feedingInputSchema L input = Inl issues"
  shows "issues \<noteq> [] \<and> Some ''passwordHash'' \<notin> fst ` set issues"
proof (cases "\<exists>kv. input = Some (JObj kv)")
  case False
  with assms show ?thesis
    by (auto simp: feedingInputSchema_def not_object)
next
  case True
  then obtain kv where kv: "input = Some (JObj kv)" by blast
  have a: "issues \<noteq> []"
    using assms unfolding kv feedingInputSchema_def
    by (auto simp: Let_def at_field_Nil z_finish_Inl bind_eq_None_conv
        split: option.splits if_splits dest: z_aborts)
  have b: "Some ''passwordHash'' \<notin> fst ` set issues"
    using assms unfolding kv feedingInputSchema_def
    by (auto simp: Let_def set_at_field z_finish_Inl split: option.splits if_splits)
  from a b show ?thesis by simp
qed

lemma createReminderSchema_issues:
  assumes "createReminderSchema L input = Inl issues"
  shows "issues \<noteq> [] \<and> Some ''passwordHash'' \<notin> fst ` set issues"
proof (cases "\<exists>kv. input = Some (JObj kv)")
  case False
  with assms show ?thesis
    by (auto simp: createReminderSchema_def not_object)
next
  case True
  then obtain kv where kv: "input = Some (JObj kv)" by blast
  have a: "issues \<noteq> []"
    using assms unfolding kv createReminderSchema_def
    by (auto simp: Let_def at_field_Nil z_finish_Inl bind_eq_None_conv
        split: option.splits if_splits dest: z_aborts)
  have b: "Some ''passwordHash'' \<notin> fst ` set issues"
    using assms unfolding kv createReminderSchema_def
    by (auto simp: Let_def set_at_field z_finish_Inl split: option.splits if_splits)
  from a b show ?thesis by simp
qed

lemma updateReminderSchema_issues:
  assumes "updateReminderSchema L input = Inl issues"
  shows "issues \<noteq> [] \<and> Some ''passwordHash'' \<notin> fst ` set issues"
proof (cases "\<exists>kv. input = Some (JObj kv)")
  case False
  with assms show ?thesis
    by (auto simp: updateReminderSchema_def not_object)
next
  case True
  then obtain kv where kv: "input = Some (JObj kv)" by blast
  have a: "issues \<noteq> []"
    using assms unfolding kv updateReminderSchema_def
    by (auto simp: Let_def at_field_Nil z_finish_Inl bind_eq_None_conv
        split: option.splits if_splits dest: z_aborts)
  have b: "Some ''passwordHash'' \<notin> fst ` set issues"
    using assms unfolding kv updateReminderSchema_def
    by (auto simp: Let_def set_at_field z_finish_Inl split: option.splits if_splits)
  from a b show ?thesis by simp
qed

lemma createAnimalSchema_issues:
  assumes "createAnimalSchema L input = Inl issues"
  shows "issues \<noteq> [] \<and> Some ''passwordHash'' \<notin> fst ` set issues"
proof (cases "\<exists>kv. input = Some (JObj kv)")
  case False
  with assms show ?thesis
    by (auto simp: createAnimalSchema_def not_object)
next
  case True
  then obtain kv where kv: "input = Some (JObj kv)" by blast
  have a: "issues \<noteq> []"
    using assms unfolding kv createAnimalSchema_def
    by (auto simp: Let_def at_field_Nil z_finish_Inl bind_eq_None_conv
        split: option.splits if_splits dest: z_aborts)
  have b: "Some ''passwordHash'' \<notin> fst ` set issues"
    using assms unfolding kv createAnimalSchema_def
    by (auto simp: Let_def set_at_field z_finish_Inl split: option.splits if_splits)
  from a b show ?thesis by simp
qed

lemma updateAnimalSchema_issues:
  assumes "updateAnimalSchema L input = Inl issues"
  shows "issues \<noteq> [] \<and> Some ''passwordHash'' \<notin> fst ` set issues"
proof (cases "\<exists>kv. input = Some (JObj kv)")
  case False
  with assms show ?thesis
    by (auto simp: updateAnimalSchema_def not_object)
next
  case True
  then obtain kv where kv: "input = Some (JObj kv)" by blast
  have a: "issues \<noteq> []"
    using assms unfolding kv updateAnimalSchema_def
    by (auto simp: Let_def at_field_Nil z_finish_Inl bind_eq_None_conv
        split: option.splits if_splits dest: z_aborts)
  have b: "Some ''passwordHash'' \<notin> fst ` set issues"
    using assms unfolding kv updateAnimalSchema_def
    by (auto simp: Let_def set_at_field z_finish_Inl split: option.splits if_splits)
  from a b show ?thesis by simp
qed

lemma credentialsSchema_issues:
  assumes "credentialsSchema L input = Inl issues"
  shows "issues \<noteq> [] \<and> Some ''passwordHash'' \<notin> fst ` set issues"
proof (cases "\<exists>kv. input = Some (JObj kv)")
  case False
  with assms show ?thesis
    by (auto simp: credentialsSchema_def not_object)
next
  case True
  then obtain kv where kv: "input = Some (JObj kv)" by blast
  have a: "issues \<noteq> []"
    using assms unfolding kv credentialsSchema_def
    by (auto simp: Let_def at_field_Nil z_finish_Inl bind_eq_None_conv
        split: option.splits if_splits dest: z_aborts)
  have b: "Some ''passwordHash'' \<notin> fst ` set issues"
    using assms unfolding kv credentialsSchema_def
    by (auto simp: Let_def set_at_field z_finish_Inl split: option.splits if_splits)
  from a b show ?thesis by simp
qed

lemma has_key_send_error [simp]: "has_key k (body (send_error c m)) \<longleftrightarrow> k = ''error''"
  by (auto simp: send_error_def send_def)

lemma has_key_flatten:
  "has_key k (flatten issues) \<longleftrightarrow>
     k = ''formErrors'' \<or> k = ''fieldErrors'' \<or> Some k \<in> fst ` set issues"
proof -
  have a: "\<not> list_ex (has_key k) (map (\<lambda>i. JStr (snd i)) xs)" for xs :: "zissue list"
    by (induction xs) auto
  have b: "set (concat (map (\<lambda>i. case fst i of None \<Rightarrow> [] | Some k \<Rightarrow> [k]) issues))
           = {k. Some k \<in> fst ` set issues}"
    by (induction issues) (auto split: option.splits)
  show ?thesis
    unfolding flatten_def
    by (auto simp: a b list_ex_iff image_iff)
qed

lemma has_key_send_invalid:
  "has_key k (body (send_invalid m issues)) \<longleftrightarrow>
     k = ''error'' \<or> k = ''details'' \<or> k = ''formErrors'' \<or> k = ''fieldErrors''
     \<or> Some k \<in> fst ` set issues"
  by (auto simp: send_invalid_def send_def has_key_flatten)

lemma has_key_or_null [simp]:
  "\<not> has_key k (str_or_null v)" "\<not> has_key k (num_or_null n)" "\<not> has_key k (date_or_null L t)"
  by (auto simp: str_or_null_def num_or_null_def date_or_null_def split: option.splits)

lemma no_hash_feeding [simp]: "\<not> has_key ''passwordHash'' (toFeedingResponse L r)"
  by (simp add: toFeedingResponse_def)

lemma no_hash_measurement [simp]: "\<not> has_key ''passwordHash'' (toMeasurementResponse L r)"
  by (simp add: toMeasurementResponse_def)

lemma no_hash_reminder [simp]: "\<not> has_key ''passwordHash'' (toReminderResponse L r)"
  by (simp add: toReminderResponse_def)

lemma no_hash_animal [simp]: "\<not> has_key ''passwordHash'' (toAnimalResponse L r)"
  by (simp add: toAnimalResponse_def)

lemma no_hash_auth [simp]: "\<not> has_key ''passwordHash'' (authResponse L u sp)"
  by (simp add: authResponse_def toPublicUser_def user_object_def)

lemma no_hash_fixed [simp]:
  "\<not> has_key ''passwordHash'' (body internal_server_error)"
  "\<not> has_key ''passwordHash'' (body route_not_found)"
  "\<not> has_key ''passwordHash'' success_body"
  by (simp_all add: internal_server_error_def route_not_found_def success_body_def send_def)

lemma body_send [simp]: "body (send c b) = b" "status (send c b) = c"
  by (simp_all add: send_def)

lemma no_hash_list:
  "(\<And>r. \<not> has_key k (f r)) \<Longrightarrow> \<not> has_key k (JArr (map f rows))"
  by (simp add: list_ex_iff)

lemma no_hash_invalid:
  "Some ''passwordHash'' \<notin> fst ` set issues \<Longrightarrow>
   \<not> has_key ''passwordHash'' (body (send_invalid m issues))"
  by (simp add: has_key_send_invalid)

lemmas schema_issues = measurementInputSchema_issues feedingInputSchema_issues
  createReminderSchema_issues updateReminderSchema_issues createAnimalSchema_issues
  updateAnimalSchema_issues credentialsSchema_issues

lemma serve_routes_cases:
  assumes "P (route_not_found, d)"
      and "\<And>r req'. r \<in> set routes \<Longrightarrow> P (snd (snd r) L E d req')"
  shows "P (serve_routes routes L E d req)"
proof (cases "List.find (\<lambda>r. route_params r req \<noteq> None) routes")
  case None
  with assms(1) show ?thesis by (simp add: serve_routes_def)
next
  case (Some r)
  then have "r \<in> set routes" by (auto simp: find_Some_iff)
  from assms(2)[OF this] Some show ?thesis by (simp add: serve_routes_def)
qed

lemma serve_cases:
  assumes "P (route_not_found, d)"
      and "\<And>r req'. r \<in> set createServer \<Longrightarrow> P (snd (snd r) L E d req')"
  shows "P (serve L E d req)"
  unfolding serve_def using assms by (rule serve_routes_cases)

lemma no_hash_post_feedings: "\<not> has_key ''passwordHash'' (body (fst (post_feedings L E d req)))"
  unfolding post_feedings_def
  by (rule with_auth_cases)
    (auto simp: Let_def no_hash_invalid dest!: schema_issues split: sum.splits option.splits)

lemma no_hash_get_feedings: "\<not> has_key ''passwordHash'' (body (fst (get_feedings L E d req)))"
  unfolding get_feedings_def
  by (rule with_auth_cases)
    (auto simp: list_ex_iff split: sum.splits option.splits)

lemma no_hash_delete_feeding: "\<not> has_key ''passwordHash'' (body (fst (delete_feeding L E d req)))"
  unfolding delete_feeding_def
  by (rule with_auth_cases)
    (auto split: sum.splits prod.splits list.splits)

lemma no_hash_post_measurements:
  "\<not> has_key ''passwordHash'' (body (fst (post_measurements L E d req)))"
  unfolding post_measurements_def
  by (rule with_auth_cases)
    (auto simp: Let_def no_hash_invalid dest!: schema_issues split: sum.splits option.splits)

lemma no_hash_get_measurements:
  "\<not> has_key ''passwordHash'' (body (fst (get_measurements L E d req)))"
  unfolding get_measurements_def
  by (rule with_auth_cases)
    (auto simp: list_ex_iff split: sum.splits option.splits)

lemma no_hash_delete_measurement:
  "\<not> has_key ''passwordHash'' (body (fst (delete_measurement L E d req)))"
  unfolding delete_measurement_def
  by (rule with_auth_cases)
    (auto split: sum.splits prod.splits list.splits)

lemma no_hash_post_reminders: "\<not> has_key ''passwordHash'' (body (fst (post_reminders L E d req)))"
  unfolding post_reminders_def
  by (rule with_auth_cases)
    (auto simp: Let_def no_hash_invalid dest!: schema_issues split: sum.splits option.splits)

lemma no_hash_get_reminders: "\<not> has_key ''passwordHash'' (body (fst (get_reminders L E d req)))"
  unfolding get_reminders_def
  by (rule with_auth_cases)
    (auto simp: list_ex_iff split: sum.splits option.splits)

lemma no_hash_patch_reminder: "\<not> has_key ''passwordHash'' (body (fst (patch_reminder L E d req)))"
  unfolding patch_reminder_def
  by (rule with_auth_cases)
    (auto simp: no_hash_invalid dest!: schema_issues
      split: sum.splits prod.splits list.splits if_splits)

lemma no_hash_delete_reminder: "\<not> has_key ''passwordHash'' (body (fst (delete_reminder L E d req)))"
  unfolding delete_reminder_def
  by (rule with_auth_cases)
    (auto split: sum.splits prod.splits list.splits)

lemma no_hash_get_animals: "\<not> has_key ''passwordHash'' (body (fst (get_animals L E d req)))"
  unfolding get_animals_def
  by (rule with_auth_cases) (auto simp: list_ex_iff)

lemma no_hash_post_animals: "\<not> has_key ''passwordHash'' (body (fst (post_animals L E d req)))"
  unfolding post_animals_def
  by (rule with_auth_cases)
    (auto simp: Let_def no_hash_invalid dest!: schema_issues split: sum.splits option.splits)

lemma no_hash_patch_animal: "\<not> has_key ''passwordHash'' (body (fst (patch_animal L E d req)))"
  unfolding patch_animal_def
  by (rule with_auth_cases)
    (auto simp: Let_def no_hash_invalid dest!: schema_issues
      split: sum.splits prod.splits list.splits if_splits)

lemma no_hash_delete_animal: "\<not> has_key ''passwordHash'' (body (fst (delete_animal L E d req)))"
  unfolding delete_animal_def
  by (rule with_auth_cases)
    (auto split: sum.splits prod.splits list.splits)

lemma no_hash_auth_register: "\<not> has_key ''passwordHash'' (body (fst (auth_register L E d req)))"
  unfolding auth_register_def
  by (auto simp: Let_def no_hash_invalid dest!: schema_issues
      split: sum.splits option.splits prod.splits)

lemma no_hash_auth_login: "\<not> has_key ''passwordHash'' (body (fst (auth_login L E d req)))"
  unfolding auth_login_def
  by (auto simp: Let_def no_hash_invalid dest!: schema_issues
      split: sum.splits option.splits prod.splits)

lemma no_hash_auth_me: "\<not> has_key ''passwordHash'' (body (fst (auth_me L E d req)))"
  unfolding auth_me_def
  by (auto split: option.splits prod.splits)

lemma no_hash_auth_logout: "\<not> has_key ''passwordHash'' (body (fst (auth_logout L E d req)))"
  unfolding auth_logout_def
  by (auto split: option.splits)

lemma no_hash_health: "\<not> has_key ''passwordHash'' (body (fst (health L E d req)))"
  by (simp add: health_def)

lemmas no_hash_handlers = no_hash_post_feedings no_hash_get_feedings no_hash_delete_feeding
  no_hash_post_measurements no_hash_get_measurements no_hash_delete_measurement
  no_hash_post_reminders no_hash_get_reminders no_hash_patch_reminder no_hash_delete_reminder
  no_hash_get_animals no_hash_post_animals no_hash_patch_animal no_hash_delete_animal
  no_hash_auth_register no_hash_auth_login no_hash_auth_me no_hash_auth_logout no_hash_health

lemma no_hash_serve: "\<not> has_key ''passwordHash'' (body (fst (serve L E d req)))"
proof (rule serve_cases)
  show "\<not> has_key ''passwordHash'' (body (fst (route_not_found, d)))" by simp
next
  fix r req'
  assume "r \<in> set createServer"
  then show "\<not> has_key ''passwordHash'' (body (fst (snd (snd r) L E d req')))"
    unfolding createServer_def registerAuthRoutes_def registerFeedingRoutes_def
      registerMeasurementRoutes_def registerReminderRoutes_def
    by (auto simp: no_hash_handlers)
qed

lemma no_hash_serve_animals:
  "\<not> has_key ''passwordHash'' (body (fst (serve_routes registerAnimalRoutes L E d req)))"
proof (rule serve_routes_cases)
  show "\<not> has_key ''passwordHash'' (body (fst (route_not_found, d)))" by simp
next
  fix r req'
  assume "r \<in> set registerAnimalRoutes"
  then show "\<not> has_key ''passwordHash'' (body (fst (snd (snd r) L E d req')))"
    unfolding registerAnimalRoutes_def by (auto simp: no_hash_handlers)
qed

lemma toPublicUser_keeps:
  "map_of (toPublicUser obj) k = (if k = ''passwordHash'' then None else map_of obj k)"
  unfolding toPublicUser_def by (induction obj) auto

lemma status_fixed [simp]:
  "status (send_error c m) = c" "status (send_invalid m issues) = 400"
  "status internal_server_error = 500" "status route_not_found = 404"
  by (simp_all add: send_error_def send_invalid_def internal_server_error_def
      route_not_found_def send_def)

lemma auth_register_body:
  "status (fst (auth_register L E d req)) = 201 \<Longrightarrow>
   \<exists>u sp. body (fst (auth_register L E d req)) = authResponse L u sp"
  unfolding auth_register_def
  by (auto simp: Let_def split: sum.splits option.splits prod.splits)

lemma auth_login_body:
  "status (fst (auth_login L E d req)) = 200 \<Longrightarrow>
   \<exists>u sp. u \<in> set (users d) \<and> body (fst (auth_login L E d req)) = authResponse L u sp"
  unfolding auth_login_def findUserByUsername_def
  by (auto simp: Let_def filter_eq_Cons_iff split: sum.splits option.splits prod.splits list.splits if_splits)

lemma auth_me_body:
  assumes "status (fst (auth_me L E d req)) = 200"
  shows "\<exists>u sp. u \<in> set (users d) \<and> body (fst (auth_me L E d req)) = authResponse L u sp"
proof (cases "extractToken (req_authorization req)")
  case None
  with assms show ?thesis by (simp add: auth_me_def)
next
  case (Some token)
  show ?thesis
  proof (cases "token = []")
    case True
    with assms Some show ?thesis by (simp add: auth_me_def)
  next
    case False
    obtain r d' where g: "getActiveSessionByToken E d token = (r, d')"
      by (cases "getActiveSessionByToken E d token")
    show ?thesis
    proof (cases r)
      case None
      with assms Some False g show ?thesis by (simp add: auth_me_def)
    next
      case (Some sessionData)
      with g getActiveSessionByToken_Some[of E d token sessionData d']
      have "ac_user sessionData \<in> set (users d)" by simp
      with \<open>extractToken (req_authorization req) = Some token\<close> False g Some show ?thesis
        by (auto simp: auth_me_def)
    qed
  qed
qed

text \<open>
  Claim C9. No response body of the server, whatever the request and the stored data,
  has a \<open>passwordHash\<close> key at any depth, and none of the animal routes has.
  \<open>toPublicUser\<close> takes \<open>passwordHash\<close> out of a
  user object and keeps every other field with its value; the successful answers of
  \<open>/auth/register\<close>, \<open>/auth/login\<close> and \<open>/auth/me\<close> carry the user as \<open>toPublicUser\<close> of a
  user row.
\<close>

theorem responses_never_leak_passwordHash:
  "\<not> has_key ''passwordHash'' (body (fst (serve L E d req)))
   \<and> map_of (toPublicUser obj) ''passwordHash'' = None
   \<and> (\<forall>k. k \<noteq> ''passwordHash'' \<longrightarrow> map_of (toPublicUser obj) k = map_of obj k)
   \<and> (status (fst (auth_register L E d req)) = 201 \<longrightarrow>
        (\<exists>u (sp :: sessionPayload). body (fst (auth_register L E d req)) =
           JObj [(''user'', JObj (toPublicUser (user_object L u))),
                 (''session'', JObj [(''token'', JStr (sp_token sp)),
                                     (''expiresAt'', JStr (sp_expiresAt sp))])]))
   \<and> (status (fst (auth_login L E d req)) = 200 \<longrightarrow>
        (\<exists>u (sp :: sessionPayload). u \<in> set (users d) \<and> body (fst (auth_login L E d req)) =
           JObj [(''user'', JObj (toPublicUser (user_object L u))),
                 (''session'', JObj [(''token'', JStr (sp_token sp)),
                                     (''expiresAt'', JStr (sp_expiresAt sp))])]))
   \<and> (status (fst (auth_me L E d req)) = 200 \<longrightarrow>
        (\<exists>u (sp :: sessionPayload). u \<in> set (users d) \<and> body (fst (auth_me L E d req)) =
           JObj [(''user'', JObj (toPublicUser (user_object L u))),
                 (''session'', JObj [(''token'', JStr (sp_token sp)),
                                     (''expiresAt'', JStr (sp_expiresAt sp))])]))
   \<and> \<not> has_key ''passwordHash'' (body (fst (serve_routes registerAnimalRoutes L E d req)))"
proof -
  have a: "\<not> has_key ''passwordHash'' (body (fst (serve L E d req)))"
    by (rule no_hash_serve)
  have f: "\<not> has_key ''passwordHash'' (body (fst (serve_routes registerAnimalRoutes L E d req)))"
    by (rule no_hash_serve_animals)
  have b: "map_of (toPublicUser obj) ''passwordHash'' = None"
    by (simp add: toPublicUser_keeps)
  have c: "\<forall>k. k \<noteq> ''passwordHash'' \<longrightarrow> map_of (toPublicUser obj) k = map_of obj k"
    by (simp add: toPublicUser_keeps)
  have e1: "status (fst (auth_register L E d req)) = 201 \<longrightarrow>
        (\<exists>u (sp :: sessionPayload). body (fst (auth_register L E d req)) =
           JObj [(''user'', JObj (toPublicUser (user_object L u))),
                 (''session'', JObj [(''token'', JStr (sp_token sp)),
                                     (''expiresAt'', JStr (sp_expiresAt sp))])])"
  proof
    assume st: "status (fst (auth_register L E d req)) = 201"
    from auth_register_body[OF st] show "\<exists>u (sp :: sessionPayload). body (fst (auth_register L E d req)) =
           JObj [(''user'', JObj (toPublicUser (user_object L u))),
                 (''session'', JObj [(''token'', JStr (sp_token sp)),
                                     (''expiresAt'', JStr (sp_expiresAt sp))])]"
      by (simp add: authResponse_def)
  qed
  have e2: "status (fst (auth_login L E d req)) = 200 \<longrightarrow>
        (\<exists>u (sp :: sessionPayload). u \<in> set (users d) \<and> body (fst (auth_login L E d req)) =
           JObj [(''user'', JObj (toPublicUser (user_object L u))),
                 (''session'', JObj [(''token'', JStr (sp_token sp)),
                                     (''expiresAt'', JStr (sp_expiresAt sp))])])"
  proof
    assume st: "status (fst (auth_login L E d req)) = 200"
    from auth_login_body[OF st] show "\<exists>u (sp :: sessionPayload). u \<in> set (users d) \<and> body (fst (auth_login L E d req)) =
           JObj [(''user'', JObj (toPublicUser (user_object L u))),
                 (''session'', JObj [(''token'', JStr (sp_token sp)),
                                     (''expiresAt'', JStr (sp_expiresAt sp))])]"
      by (simp add: authResponse_def)
  qed
  have e3: "status (fst (auth_me L E d req)) = 200 \<longrightarrow>
        (\<exists>u (sp :: sessionPayload). u \<in> set (users d) \<and> body (fst (auth_me L E d req)) =
           JObj [(''user'', JObj (toPublicUser (user_object L u))),
                 (''session'', JObj [(''token'', JStr (sp_token sp)),
                                     (''expiresAt'', JStr (sp_expiresAt sp))])])"
  proof
    assume st: "status (fst (auth_me L E d req)) = 200"
    from auth_me_body[OF st] show "\<exists>u (sp :: sessionPayload). u \<in> set (users d) \<and> body (fst (auth_me L E d req)) =
           JObj [(''user'', JObj (toPublicUser (user_object L u))),
                 (''session'', JObj [(''token'', JStr (sp_token sp)),
                                     (''expiresAt'', JStr (sp_expiresAt sp))])]"
      by (simp add: authResponse_def)
  qed
  show ?thesis
    by (rule conjI[OF a conjI[OF b conjI[OF c conjI[OF e1 conjI[OF e2 conjI[OF e3 f]]]]]])
qed

theorem responses_never_leak_passwordHash_witness:
  "status (fst (serve lib0 env0 db0 request_login)) = 200
   \<and> \<not> has_key ''passwordHash'' (body (fst (serve lib0 env0 db0 request_login)))
   \<and> has_key ''username'' (body (fst (serve lib0 env0 db0 request_login)))
   \<and> map_of (user_object lib0 alice) ''passwordHash'' = Some (JStr ''hash:alicepassword'')
   \<and> map_of (toPublicUser (user_object lib0 alice)) ''passwordHash'' = None
   \<and> map_of (toPublicUser (user_object lib0 alice)) ''username'' = Some (JStr ''alice'')"
proof -
  have s: "status (fst (serve lib0 env0 db0 request_login)) = 200" by code_simp
  have u: "has_key ''username'' (body (fst (serve lib0 env0 db0 request_login)))" by code_simp
  have h: "map_of (user_object lib0 alice) ''passwordHash'' = Some (JStr ''hash:alicepassword'')"
    by (simp add: user_object_def alice_def)
  have k: "map_of (user_object lib0 alice) ''username'' = Some (JStr ''alice'')"
    by (simp add: user_object_def alice_def)
  note t = responses_never_leak_passwordHash[of lib0 env0 db0 request_login
      "user_object lib0 alice"]
  have a: "\<not> has_key ''passwordHash'' (body (fst (serve lib0 env0 db0 request_login)))"
    by (rule t[THEN conjunct1])
  have b: "map_of (toPublicUser (user_object lib0 alice)) ''passwordHash'' = None"
    by (rule t[THEN conjunct2, THEN conjunct1])
  have c: "map_of (toPublicUser (user_object lib0 alice)) ''username''
           = map_of (user_object lib0 alice) ''username''"
    by (rule t[THEN conjunct2, THEN conjunct2, THEN conjunct1, rule_format]) simp
  from c k have c': "map_of (toPublicUser (user_object lib0 alice)) ''username''
      = Some (JStr ''alice'')" by simp
  show ?thesis
    by (rule conjI[OF s conjI[OF a conjI[OF u conjI[OF h conjI[OF b c']]]]])
qed

lemma isSessionExpired_iff:
  "isSessionExpired L t (Some s) \<longleftrightarrow> (\<exists>e. new_Date L (JStr (as_expiresAt s)) = Some e \<and> e \<le> t)"
  by (auto simp: isSessionExpired_def split: option.splits)

text \<open>
  Claim C8. With a session in the cache, \<open>restoreSession\<close> drops the cached item when its
  \<open>expiresAt\<close> is at or before the clock, and calls nothing; otherwise it calls
  \<open>/auth/me\<close> once, with the cached token, and then: (a) an error of status 401 or 403
  clears the user, the session and the cache; (b) any other error (a network failure, a
  server error) makes the cached user and session the signed-in ones and keeps the
  cache; (c) a response replaces user, session and cache with the refreshed ones.
\<close>

theorem restoreSession_cache:
  assumes "storage st = Some (Stored parsed)"
  shows "(isSessionExpired L t (Some (st_session parsed)) \<longleftrightarrow>
            (\<exists>e. new_Date L (JStr (as_expiresAt (st_session parsed))) = Some e \<and> e \<le> t))
       \<and> (isSessionExpired L t (Some (st_session parsed)) \<longrightarrow>
            restoreSession L t api st = st\<lparr>storage := None\<rparr>)
       \<and> (\<not> isSessionExpired L t (Some (st_session parsed)) \<longrightarrow>
            me_calls (restoreSession L t api st) = me_calls st @ [as_token (st_session parsed)]
            \<and> (\<forall>c. api (as_token (st_session parsed)) = Rejected c \<and> (c = Some 401 \<or> c = Some 403) \<longrightarrow>
                  cur_user (restoreSession L t api st) = None
                  \<and> cur_session (restoreSession L t api st) = None
                  \<and> storage (restoreSession L t api st) = None)
            \<and> (\<forall>c. api (as_token (st_session parsed)) = Rejected c \<and> c \<noteq> Some 401 \<and> c \<noteq> Some 403 \<longrightarrow>
                  cur_user (restoreSession L t api st) = Some (st_user parsed)
                  \<and> cur_session (restoreSession L t api st) = Some (st_session parsed)
                  \<and> storage (restoreSession L t api st) = storage st)
            \<and> (\<forall>refreshed. api (as_token (st_session parsed)) = Resolved refreshed \<longrightarrow>
                  cur_user (restoreSession L t api st) = Some (st_user refreshed)
                  \<and> cur_session (restoreSession L t api st) = Some (st_session refreshed)
                  \<and> storage (restoreSession L t api st) = Some (Stored refreshed)))"
proof -
  have a: "isSessionExpired L t (Some (st_session parsed)) \<longleftrightarrow>
            (\<exists>e. new_Date L (JStr (as_expiresAt (st_session parsed))) = Some e \<and> e \<le> t)"
    by (rule isSessionExpired_iff)
  have b: "isSessionExpired L t (Some (st_session parsed)) \<longrightarrow>
            restoreSession L t api st = st\<lparr>storage := None\<rparr>"
    using assms by (simp add: restoreSession_def)
  have c: "\<not> isSessionExpired L t (Some (st_session parsed)) \<longrightarrow>
            me_calls (restoreSession L t api st) = me_calls st @ [as_token (st_session parsed)]"
    using assms
    by (auto simp: restoreSession_def Let_def applyAuthState_def persistAuthState_def
        split: api_result.splits)
  have d: "\<not> isSessionExpired L t (Some (st_session parsed)) \<longrightarrow>
      (\<forall>c. api (as_token (st_session parsed)) = Rejected c \<and> (c = Some 401 \<or> c = Some 403) \<longrightarrow>
                  cur_user (restoreSession L t api st) = None
                  \<and> cur_session (restoreSession L t api st) = None
                  \<and> storage (restoreSession L t api st) = None)"
    using assms
    by (auto simp: restoreSession_def Let_def applyAuthState_def persistAuthState_def)
  have e: "\<not> isSessionExpired L t (Some (st_session parsed)) \<longrightarrow>
      (\<forall>c. api (as_token (st_session parsed)) = Rejected c \<and> c \<noteq> Some 401 \<and> c \<noteq> Some 403 \<longrightarrow>
                  cur_user (restoreSession L t api st) = Some (st_user parsed)
                  \<and> cur_session (restoreSession L t api st) = Some (st_session parsed)
                  \<and> storage (restoreSession L t api st) = storage st)"
    using assms
    by (auto simp: restoreSession_def Let_def)
  have f: "\<not> isSessionExpired L t (Some (st_session parsed)) \<longrightarrow>
      (\<forall>refreshed. api (as_token (st_session parsed)) = Resolved refreshed \<longrightarrow>
                  cur_user (restoreSession L t api st) = Some (st_user refreshed)
                  \<and> cur_session (restoreSession L t api st) = Some (st_session refreshed)
                  \<and> storage (restoreSession L t api st) = Some (Stored refreshed))"
    using assms
    by (auto simp: restoreSession_def Let_def applyAuthState_def persistAuthState_def)
  from a b c d e f show ?thesis by blast
qed

theorem restoreSession_cache_witness:
  "storage cache_valid = Some (Stored stored_valid)
   \<and> \<not> isSessionExpired lib0 (now env0) (Some (st_session stored_valid))
   \<and> offline (as_token (st_session stored_valid)) = Rejected None
   \<and> me_calls (restoreSession lib0 (now env0) offline cache_valid) = [''tokalice'']
   \<and> cur_user (restoreSession lib0 (now env0) offline cache_valid) = Some cached_alice
   \<and> cur_session (restoreSession lib0 (now env0) offline cache_valid) = Some (st_session stored_valid)
   \<and> storage (restoreSession lib0 (now env0) offline cache_valid) = storage cache_valid
   \<and> storage cache_expired = Some (Stored stored_expired)
   \<and> isSessionExpired lib0 (now env0) (Some (st_session stored_expired))
   \<and> restoreSession lib0 (now env0) offline cache_expired = cache_expired\<lparr>storage := None\<rparr>"
proof -
  have h1: "storage cache_valid = Some (Stored stored_valid)"
    by (simp add: cache_valid_def)
  have h2: "storage cache_expired = Some (Stored stored_expired)"
    by (simp add: cache_expired_def)
  have n: "\<not> isSessionExpired lib0 (now env0) (Some (st_session stored_valid))"
    by (simp add: isSessionExpired_def stored_valid_def lib0_def date0_def env0_def)
  have x: "isSessionExpired lib0 (now env0) (Some (st_session stored_expired))"
    by (simp add: isSessionExpired_def stored_expired_def lib0_def date0_def env0_def)
  have o: "offline (as_token (st_session stored_valid)) = Rejected None"
    by (simp add: offline_def)
  have m: "me_calls cache_valid = []" by (simp add: cache_valid_def)
  have tk: "as_token (st_session stored_valid) = ''tokalice''"
    by (simp add: stored_valid_def)
  have su: "st_user stored_valid = cached_alice"
    by (simp add: stored_valid_def)
  note v = restoreSession_cache[OF h1, of lib0 "now env0" offline, THEN conjunct2,
      THEN conjunct2, rule_format, OF n]
  have c1: "me_calls (restoreSession lib0 (now env0) offline cache_valid) = [''tokalice'']"
    using v[THEN conjunct1] m tk by simp
  have c2: "cur_user (restoreSession lib0 (now env0) offline cache_valid) = Some cached_alice
       \<and> cur_session (restoreSession lib0 (now env0) offline cache_valid)
           = Some (st_session stored_valid)
       \<and> storage (restoreSession lib0 (now env0) offline cache_valid) = storage cache_valid"
    using v[THEN conjunct2, THEN conjunct2, THEN conjunct1, rule_format, of None] o su by simp
  have c3: "restoreSession lib0 (now env0) offline cache_expired = cache_expired\<lparr>storage := None\<rparr>"
    using restoreSession_cache[OF h2, of lib0 "now env0" offline, THEN conjunct2, THEN conjunct1] x
    by simp
  from h1 n o c1 c2 h2 x c3 show ?thesis by (intro conjI) simp_all
qed

lemma more_recent_key:
  "more_recent k1 k2 x y \<longleftrightarrow> (- k1 x, - k2 x) \<le> (- k1 y, - k2 y)"
  by (auto simp: more_recent_def less_eq_prod_def)

lemma sorted_order_desc2: "sorted_wrt (more_recent k1 k2) (order_desc2 k1 k2 rows)"
proof -
  have "sorted (map (\<lambda>r. (- k1 r, - k2 r)) (sort_key (\<lambda>r. (- k1 r, - k2 r)) rows))"
    by (rule sorted_sort_key)
  then show ?thesis
    unfolding order_desc2_def sorted_map more_recent_key[abs_def] .
qed

lemma set_order_desc2 [simp]: "set (order_desc2 k1 k2 rows) = set rows"
  by (simp add: order_desc2_def)

lemma length_order_desc2 [simp]: "length (order_desc2 k1 k2 rows) = length rows"
  by (simp add: order_desc2_def)

lemma sorted_wrt_take_drop:
  assumes "sorted_wrt P xs"
  shows "sorted_wrt P (take n xs) \<and> (\<forall>x \<in> set (take n xs). \<forall>y \<in> set (drop n xs). P x y)"
proof -
  from assms have "sorted_wrt P (take n xs @ drop n xs)" by simp
  then show ?thesis unfolding sorted_wrt_append by blast
qed

lemma limited_select:
  fixes ka kb :: "'r \<Rightarrow> int"
  defines "sel \<equiv> \<lambda>n c rows. take n (order_desc2 ka kb (filter c rows))"
  shows "length (sel n c rows) \<le> n"
    and "sorted_wrt (more_recent ka kb) (sel n c rows)"
    and "set (sel n c rows) \<subseteq> {r \<in> set rows. c r}"
    and "\<forall>x \<in> set (sel n c rows). \<forall>y \<in> set rows. c y \<and> y \<notin> set (sel n c rows) \<longrightarrow> more_recent ka kb x y"
    and "length (filter c rows) \<le> n \<longrightarrow>
           set (sel n c rows) = {r \<in> set rows. c r} \<and> length (sel n c rows) = length (filter c rows)"
    and "n < length (filter c rows) \<longrightarrow> length (sel n c rows) = n"
proof -
  let ?s = "order_desc2 ka kb (filter c rows)"
  note td = sorted_wrt_take_drop[OF sorted_order_desc2, of ka kb n "filter c rows"]
  show "length (sel n c rows) \<le> n" by (simp add: sel_def)
  show "sorted_wrt (more_recent ka kb) (sel n c rows)" using td by (simp add: sel_def)
  show "set (sel n c rows) \<subseteq> {r \<in> set rows. c r}"
    using set_take_subset[of n ?s] by (auto simp: sel_def)
  show "\<forall>x \<in> set (sel n c rows). \<forall>y \<in> set rows. c y \<and> y \<notin> set (sel n c rows) \<longrightarrow> more_recent ka kb x y"
  proof (intro ballI impI)
    fix x y assume x: "x \<in> set (sel n c rows)" and y: "y \<in> set rows" and cy: "c y \<and> y \<notin> set (sel n c rows)"
    from y cy have "y \<in> set ?s" by simp
    then have "y \<in> set (take n ?s @ drop n ?s)" by simp
    with cy have "y \<in> set (drop n ?s)" by (auto simp: sel_def simp del: append_take_drop_id)
    with td x show "more_recent ka kb x y" by (auto simp: sel_def)
  qed
  show "length (filter c rows) \<le> n \<longrightarrow>
           set (sel n c rows) = {r \<in> set rows. c r} \<and> length (sel n c rows) = length (filter c rows)"
    by (auto simp: sel_def)
  show "n < length (filter c rows) \<longrightarrow> length (sel n c rows) = n"
    by (simp add: sel_def)
qed

lemma ensureAnimalOwnership_Some_iff:
  "ensureAnimalOwnership d userId animalId \<noteq> None \<longleftrightarrow>
     (\<exists>a \<in> set (animals d). a_id a = pg_uuid animalId \<and> a_userId a = userId)"
proof -
  have "ensureAnimalOwnership d userId animalId = None \<longleftrightarrow>
          filter (\<lambda>a. a_id a = pg_uuid animalId \<and> a_userId a = userId) (animals d) = []"
    by (simp add: ensureAnimalOwnership_def split: list.splits)
  then show ?thesis by (auto simp: filter_empty_conv)
qed

lemma get_measurements_ok:
  assumes "requireAuth E d req = (Inr auth, d)"
      and "animalIdQuerySchema L (req_query req) = Inr animalId"
      and "ensureAnimalOwnership d (u_id (ac_user auth)) animalId \<noteq> None"
  shows "get_measurements L E d req =
     (send 200 (JArr (map (toMeasurementResponse L)
        (select_measurements d (u_id (ac_user auth)) animalId))), d)"
  using assms by (auto simp: get_measurements_def with_auth_Inr)

lemma get_feedings_ok:
  assumes "requireAuth E d req = (Inr auth, d)"
      and "animalIdQuerySchema L (req_query req) = Inr animalId"
      and "ensureAnimalOwnership d (u_id (ac_user auth)) animalId \<noteq> None"
  shows "get_feedings L E d req =
     (send 200 (JArr (map (toFeedingResponse L)
        (select_feedings d (u_id (ac_user auth)) animalId))), d)"
  using assms by (auto simp: get_feedings_def with_auth_Inr)


text \<open>
  Claim C10. For an authenticated user and an animal the user owns, \<open>GET /measurements\<close>
  and \<open>GET /feedings\<close> answer 200 with the projections of at most 200 of the user's rows
  for that animal, sorted by \<open>recordedAt\<close> (respectively \<open>feedingDate\<close>) descending and
  then \<open>createdAt\<close> descending. Every matching row that is left out is no more recent
  than every row returned; nothing is left out when at most 200 rows match, and exactly
  200 are returned when more do.
\<close>

theorem lists_bounded_most_recent_first:
  assumes "requireAuth E d req = (Inr auth, d)"
      and "animalIdQuerySchema L (req_query req) = Inr animalId"
      and "ensureAnimalOwnership d (u_id (ac_user auth)) animalId \<noteq> None"
  shows "(let rows = select_measurements d (u_id (ac_user auth)) animalId;
              matching = filter (\<lambda>m. m_userId m = u_id (ac_user auth) \<and> m_animalId m = Some (pg_uuid animalId))
                           (measurements d)
          in get_measurements L E d req = (send 200 (JArr (map (toMeasurementResponse L) rows)), d)
             \<and> length rows \<le> 200
             \<and> sorted_wrt (more_recent m_recordedAt m_createdAt) rows
             \<and> set rows \<subseteq> set matching
             \<and> (\<forall>x \<in> set rows. \<forall>y \<in> set matching.
                   y \<notin> set rows \<longrightarrow> more_recent m_recordedAt m_createdAt x y)
             \<and> (length matching \<le> 200 \<longrightarrow> set rows = set matching \<and> length rows = length matching)
             \<and> (200 < length matching \<longrightarrow> length rows = 200))
       \<and> (let rows = select_feedings d (u_id (ac_user auth)) animalId;
              matching = filter (\<lambda>f. f_userId f = u_id (ac_user auth) \<and> f_animalId f = Some (pg_uuid animalId))
                           (feedings d)
          in get_feedings L E d req = (send 200 (JArr (map (toFeedingResponse L) rows)), d)
             \<and> length rows \<le> 200
             \<and> sorted_wrt (more_recent f_feedingDate f_createdAt) rows
             \<and> set rows \<subseteq> set matching
             \<and> (\<forall>x \<in> set rows. \<forall>y \<in> set matching.
                   y \<notin> set rows \<longrightarrow> more_recent f_feedingDate f_createdAt x y)
             \<and> (length matching \<le> 200 \<longrightarrow> set rows = set matching \<and> length rows = length matching)
             \<and> (200 < length matching \<longrightarrow> length rows = 200))"
proof -
  note m = limited_select[where n = 200
      and c = "\<lambda>m. m_userId m = u_id (ac_user auth) \<and> m_animalId m = Some (pg_uuid animalId)"
      and ka = m_recordedAt and kb = m_createdAt and rows = "measurements d",
      folded select_measurements_def[unfolded MEASUREMENT_LIMIT_def]]
  note f = limited_select[where n = 200
      and c = "\<lambda>f. f_userId f = u_id (ac_user auth) \<and> f_animalId f = Some (pg_uuid animalId)"
      and ka = f_feedingDate and kb = f_createdAt and rows = "feedings d",
      folded select_feedings_def]
  have a: "get_measurements L E d req = (send 200 (JArr (map (toMeasurementResponse L)
             (select_measurements d (u_id (ac_user auth)) animalId))), d)"
    by (rule get_measurements_ok[OF assms])
  have b: "get_feedings L E d req = (send 200 (JArr (map (toFeedingResponse L)
             (select_feedings d (u_id (ac_user auth)) animalId))), d)"
    by (rule get_feedings_ok[OF assms])
  have pm: "(let rows = select_measurements d (u_id (ac_user auth)) animalId;
              matching = filter (\<lambda>m. m_userId m = u_id (ac_user auth) \<and> m_animalId m = Some (pg_uuid animalId))
                           (measurements d)
          in get_measurements L E d req = (send 200 (JArr (map (toMeasurementResponse L) rows)), d)
             \<and> length rows \<le> 200
             \<and> sorted_wrt (more_recent m_recordedAt m_createdAt) rows
             \<and> set rows \<subseteq> set matching
             \<and> (\<forall>x \<in> set rows. \<forall>y \<in> set matching.
                   y \<notin> set rows \<longrightarrow> more_recent m_recordedAt m_createdAt x y)
             \<and> (length matching \<le> 200 \<longrightarrow> set rows = set matching \<and> length rows = length matching)
             \<and> (200 < length matching \<longrightarrow> length rows = 200))"
    unfolding Let_def using a m by auto
  have pf: "(let rows = select_feedings d (u_id (ac_user auth)) animalId;
              matching = filter (\<lambda>f. f_userId f = u_id (ac_user auth) \<and> f_animalId f = Some (pg_uuid animalId))
                           (feedings d)
          in get_feedings L E d req = (send 200 (JArr (map (toFeedingResponse L) rows)), d)
             \<and> length rows \<le> 200
             \<and> sorted_wrt (more_recent f_feedingDate f_createdAt) rows
             \<and> set rows \<subseteq> set matching
             \<and> (\<forall>x \<in> set rows. \<forall>y \<in> set matching.
                   y \<notin> set rows \<longrightarrow> more_recent f_feedingDate f_createdAt x y)
             \<and> (length matching \<le> 200 \<longrightarrow> set rows = set matching \<and> length rows = length matching)
             \<and> (200 < length matching \<longrightarrow> length rows = 200))"
    unfolding Let_def using b f by auto
  from pm pf show ?thesis by (rule conjI)
qed

theorem lists_bounded_most_recent_first_witness:
  "requireAuth env0 db1 (request_list ''/measurements'' ''tokalice'' (a_id rex)) = (Inr as_alice, db1)
   \<and> animalIdQuerySchema lib0 (req_query (request_list ''/measurements'' ''tokalice'' (a_id rex)))
       = Inr (a_id rex)
   \<and> ensureAnimalOwnership db1 (u_id (ac_user as_alice)) (a_id rex) \<noteq> None
   \<and> select_measurements db1 (u_id (ac_user as_alice)) (a_id rex) = [meas_2025, meas_2020]
   \<and> get_measurements lib0 env0 db1 (request_list ''/measurements'' ''tokalice'' (a_id rex))
       = (send 200 (JArr (map (toMeasurementResponse lib0) [meas_2025, meas_2020])), db1)
   \<and> sorted_wrt (more_recent m_recordedAt m_createdAt) [meas_2025, meas_2020]
   \<and> select_feedings db1 (u_id (ac_user as_alice)) (a_id rex) = [feed_2025, feed_2020]
   \<and> get_feedings lib0 env0 db1 (request_list ''/measurements'' ''tokalice'' (a_id rex))
       = (send 200 (JArr (map (toFeedingResponse lib0) [feed_2025, feed_2020])), db1)"
proof -
  have h1: "requireAuth env0 db1 (request_list ''/measurements'' ''tokalice'' (a_id rex))
            = (Inr as_alice, db1)"
    by code_simp
  have h2: "animalIdQuerySchema lib0 (req_query (request_list ''/measurements'' ''tokalice'' (a_id rex)))
       = Inr (a_id rex)"
    by code_simp
  have h3: "ensureAnimalOwnership db1 (u_id (ac_user as_alice)) (a_id rex) \<noteq> None"
    by code_simp
  have sm: "select_measurements db1 (u_id (ac_user as_alice)) (a_id rex) = [meas_2025, meas_2020]"
    by code_simp
  have sf: "select_feedings db1 (u_id (ac_user as_alice)) (a_id rex) = [feed_2025, feed_2020]"
    by code_simp
  note t = lists_bounded_most_recent_first[OF h1 h2 h3, unfolded Let_def sm sf]
  have c1: "get_measurements lib0 env0 db1 (request_list ''/measurements'' ''tokalice'' (a_id rex))
       = (send 200 (JArr (map (toMeasurementResponse lib0) [meas_2025, meas_2020])), db1)"
    by (rule t[THEN conjunct1, THEN conjunct1])
  have c2: "sorted_wrt (more_recent m_recordedAt m_createdAt) [meas_2025, meas_2020]"
    by (rule t[THEN conjunct1, THEN conjunct2, THEN conjunct2, THEN conjunct1])
  have c3: "get_feedings lib0 env0 db1 (request_list ''/measurements'' ''tokalice'' (a_id rex))
       = (send 200 (JArr (map (toFeedingResponse lib0) [feed_2025, feed_2020])), db1)"
    by (rule t[THEN conjunct2, THEN conjunct1])
  show ?thesis
    by (rule conjI[OF h1 conjI[OF h2 conjI[OF h3 conjI[OF sm conjI[OF c1 conjI[OF c2 conjI[OF sf c3]]]]]]])
qed



lemma invalid_body:
  assumes "requireAuth E d req = (Inr auth, d)"
  shows "feedingInputSchema L (req_body req) = Inl issues \<Longrightarrow>
           post_feedings L E d req = (send_invalid ''Invalid feeding payload'' issues, d)"
    and "measurementInputSchema L (req_body req) = Inl issues \<Longrightarrow>
           post_measurements L E d req = (send_invalid ''Invalid measurement payload'' issues, d)"
    and "createReminderSchema L (req_body req) = Inl issues \<Longrightarrow>
           post_reminders L E d req = (send_invalid ''Invalid reminder payload'' issues, d)"
    and "createAnimalSchema L (req_body req) = Inl issues \<Longrightarrow>
           post_animals L E d req = (send_invalid ''Invalid animal payload'' issues, d)"
    and "idParamsSchema L (req_params req) = Inr ident \<Longrightarrow>
         updateReminderSchema L (req_body req) = Inl issues \<Longrightarrow>
           patch_reminder L E d req = (send_invalid ''Invalid reminder update payload'' issues, d)"
    and "idParamsSchema L (req_params req) = Inr ident \<Longrightarrow>
         updateAnimalSchema L (req_body req) = Inl issues \<Longrightarrow>
           patch_animal L E d req = (send_invalid ''Invalid animal update payload'' issues, d)"
  using assms
  by (simp_all add: post_feedings_def post_measurements_def post_reminders_def post_animals_def
      patch_reminder_def patch_animal_def with_auth_Inr)

lemma invalid_query:
  assumes "requireAuth E d req = (Inr auth, d)"
      and "animalIdQuerySchema L (req_query req) = Inl issues"
  shows "get_feedings L E d req = (send_error 400 ''Invalid feedings query parameters'', d)
       \<and> get_measurements L E d req = (send_error 400 ''Invalid measurements query parameters'', d)
       \<and> get_reminders L E d req = (send_error 400 ''Invalid reminders query parameters'', d)"
  using assms
  by (simp add: get_feedings_def get_measurements_def get_reminders_def with_auth_Inr)

lemma invalid_params:
  assumes "requireAuth E d req = (Inr auth, d)"
      and "idParamsSchema L (req_params req) = Inl issues"
  shows "delete_feeding L E d req = (send_error 400 ''Invalid feeding identifier'', d)
       \<and> delete_measurement L E d req = (send_error 400 ''Invalid measurement identifier'', d)
       \<and> patch_reminder L E d req = (send_error 400 ''Invalid reminder identifier'', d)
       \<and> delete_reminder L E d req = (send_error 400 ''Invalid reminder identifier'', d)
       \<and> patch_animal L E d req = (send_error 400 ''Invalid animal identifier'', d)
       \<and> delete_animal L E d req = (send_error 400 ''Invalid animal identifier'', d)"
  using assms
  by (simp add: delete_feeding_def delete_measurement_def patch_reminder_def delete_reminder_def
      patch_animal_def delete_animal_def with_auth_Inr)

lemma empty_reminder_update:
  assumes "requireAuth E d req = (Inr auth, d)"
      and "idParamsSchema L (req_params req) = Inr ident"
      and "updateReminderSchema L (req_body req) = Inr updates"
      and "keys_updateReminder updates = []"
  shows "patch_reminder L E d req = (send_error 400 ''No fields provided to update'', d)"
  using assms by (simp add: patch_reminder_def with_auth_Inr)

lemma invalid_credentials:
  assumes "credentialsSchema L (req_body req) = Inl issues"
  shows "auth_register L E d req = (send_invalid ''Invalid credentials payload'' issues, d)
       \<and> auth_login L E d req = (send_invalid ''Invalid credentials payload'' issues, d)"
  using assms by (simp add: auth_register_def auth_login_def)

lemma z_optional_absent: "z_optional f None = (Some None, [])"
  by (simp add: z_optional_def)

lemma empty_animal_update:
  assumes "map_of kv ''name'' = None" "map_of kv ''species'' = None"
    "map_of kv ''description'' = None" "map_of kv ''birthDate'' = None" "map_of kv ''sex'' = None"
  shows "updateAnimalSchema L (Some (JObj kv)) = Inl [(None, ''No fields provided to update'')]"
  using assms
  by (simp add: updateAnimalSchema_def z_optional_absent at_field_def keys_updateAnimal_def
      z_finish_def)

lemma empty_reminder_keys:
  assumes "map_of kv ''title'' = None" "map_of kv ''notes'' = None"
    "map_of kv ''isReminder'' = None" "map_of kv ''dueDate'' = None"
    "map_of kv ''isCompleted'' = None" "map_of kv ''notificationId'' = None"
    "map_of kv ''animalId'' = None"
  shows "\<exists>updates. updateReminderSchema L (Some (JObj kv)) = Inr updates
                   \<and> keys_updateReminder updates = []"
  using assms
  by (simp add: updateReminderSchema_def z_optional_absent at_field_def keys_updateReminder_def
      z_finish_def)

text \<open>
  Claim C6, as amended. For an authenticated request (the two \<open>/auth\<close> routes need no
  authentication), a body, query string or path parameter that fails its schema is
  answered 400 and the stored data stays as it was. A failing body is answered with the
  flattened zod error under \<open>details\<close>, which holds at least one message; a failing
  query string or path parameter, and a reminder update with none of its fields, are
  answered with an \<open>error\<close> message only, without \<open>details\<close>. An animal update with none
  of its fields fails the schema's own refinement, so it is answered with \<open>details\<close>.
\<close>

theorem validation_errors_return_400:
  "(requireAuth E d req = (Inr auth, d) \<longrightarrow>
      (\<forall>issues. feedingInputSchema L (req_body req) = Inl issues \<longrightarrow>
         post_feedings L E d req = (send_invalid ''Invalid feeding payload'' issues, d)
         \<and> issues \<noteq> [])
    \<and> (\<forall>issues. measurementInputSchema L (req_body req) = Inl issues \<longrightarrow>
         post_measurements L E d req = (send_invalid ''Invalid measurement payload'' issues, d)
         \<and> issues \<noteq> [])
    \<and> (\<forall>issues. createReminderSchema L (req_body req) = Inl issues \<longrightarrow>
         post_reminders L E d req = (send_invalid ''Invalid reminder payload'' issues, d)
         \<and> issues \<noteq> [])
    \<and> (\<forall>issues. createAnimalSchema L (req_body req) = Inl issues \<longrightarrow>
         post_animals L E d req = (send_invalid ''Invalid animal payload'' issues, d)
         \<and> issues \<noteq> [])
    \<and> (\<forall>ident issues. idParamsSchema L (req_params req) = Inr ident
           \<and> updateReminderSchema L (req_body req) = Inl issues \<longrightarrow>
         patch_reminder L E d req = (send_invalid ''Invalid reminder update payload'' issues, d)
         \<and> issues \<noteq> [])
    \<and> (\<forall>ident issues. idParamsSchema L (req_params req) = Inr ident
           \<and> updateAnimalSchema L (req_body req) = Inl issues \<longrightarrow>
         patch_animal L E d req = (send_invalid ''Invalid animal update payload'' issues, d)
         \<and> issues \<noteq> [])
    \<and> (\<forall>issues. animalIdQuerySchema L (req_query req) = Inl issues \<longrightarrow>
         get_feedings L E d req = (send_error 400 ''Invalid feedings query parameters'', d)
         \<and> get_measurements L E d req = (send_error 400 ''Invalid measurements query parameters'', d)
         \<and> get_reminders L E d req = (send_error 400 ''Invalid reminders query parameters'', d))
    \<and> (\<forall>issues. idParamsSchema L (req_params req) = Inl issues \<longrightarrow>
         delete_feeding L E d req = (send_error 400 ''Invalid feeding identifier'', d)
         \<and> delete_measurement L E d req = (send_error 400 ''Invalid measurement identifier'', d)
         \<and> patch_reminder L E d req = (send_error 400 ''Invalid reminder identifier'', d)
         \<and> delete_reminder L E d req = (send_error 400 ''Invalid reminder identifier'', d)
         \<and> patch_animal L E d req = (send_error 400 ''Invalid animal identifier'', d)
         \<and> delete_animal L E d req = (send_error 400 ''Invalid animal identifier'', d))
    \<and> (\<forall>ident updates. idParamsSchema L (req_params req) = Inr ident
           \<and> updateReminderSchema L (req_body req) = Inr updates
           \<and> keys_updateReminder updates = [] \<longrightarrow>
         patch_reminder L E d req = (send_error 400 ''No fields provided to update'', d)))
   \<and> (\<forall>issues. credentialsSchema L (req_body req) = Inl issues \<longrightarrow>
         auth_register L E d req = (send_invalid ''Invalid credentials payload'' issues, d)
         \<and> auth_login L E d req = (send_invalid ''Invalid credentials payload'' issues, d)
         \<and> issues \<noteq> [])
   \<and> (\<forall>kv. map_of kv ''name'' = None \<and> map_of kv ''species'' = None
           \<and> map_of kv ''description'' = None \<and> map_of kv ''birthDate'' = None
           \<and> map_of kv ''sex'' = None \<longrightarrow>
         updateAnimalSchema L (Some (JObj kv)) = Inl [(None, ''No fields provided to update'')])
   \<and> (\<forall>kv. map_of kv ''title'' = None \<and> map_of kv ''notes'' = None
           \<and> map_of kv ''isReminder'' = None \<and> map_of kv ''dueDate'' = None
           \<and> map_of kv ''isCompleted'' = None \<and> map_of kv ''notificationId'' = None
           \<and> map_of kv ''animalId'' = None \<longrightarrow>
         (\<exists>updates. updateReminderSchema L (Some (JObj kv)) = Inr updates
                    \<and> keys_updateReminder updates = []))
   \<and> (\<forall>msg issues. status (send_invalid msg issues) = 400
         \<and> body (send_invalid msg issues) = JObj [(''error'', JStr msg), (''details'', flatten issues)])
   \<and> (\<forall>msg. status (send_error 400 msg) = 400
         \<and> body (send_error 400 msg) = JObj [(''error'', JStr msg)])"
proof -
  have p: "requireAuth E d req = (Inr auth, d) \<longrightarrow>
      (\<forall>issues. feedingInputSchema L (req_body req) = Inl issues \<longrightarrow>
         post_feedings L E d req = (send_invalid ''Invalid feeding payload'' issues, d)
         \<and> issues \<noteq> [])
    \<and> (\<forall>issues. measurementInputSchema L (req_body req) = Inl issues \<longrightarrow>
         post_measurements L E d req = (send_invalid ''Invalid measurement payload'' issues, d)
         \<and> issues \<noteq> [])
    \<and> (\<forall>issues. createReminderSchema L (req_body req) = Inl issues \<longrightarrow>
         post_reminders L E d req = (send_invalid ''Invalid reminder payload'' issues, d)
         \<and> issues \<noteq> [])
    \<and> (\<forall>issues. createAnimalSchema L (req_body req) = Inl issues \<longrightarrow>
         post_animals L E d req = (send_invalid ''Invalid animal payload'' issues, d)
         \<and> issues \<noteq> [])
    \<and> (\<forall>ident issues. idParamsSchema L (req_params req) = Inr ident
           \<and> updateReminderSchema L (req_body req) = Inl issues \<longrightarrow>
         patch_reminder L E d req = (send_invalid ''Invalid reminder update payload'' issues, d)
         \<and> issues \<noteq> [])
    \<and> (\<forall>ident issues. idParamsSchema L (req_params req) = Inr ident
           \<and> updateAnimalSchema L (req_body req) = Inl issues \<longrightarrow>
         patch_animal L E d req = (send_invalid ''Invalid animal update payload'' issues, d)
         \<and> issues \<noteq> [])
    \<and> (\<forall>issues. animalIdQuerySchema L (req_query req) = Inl issues \<longrightarrow>
         get_feedings L E d req = (send_error 400 ''Invalid feedings query parameters'', d)
         \<and> get_measurements L E d req = (send_error 400 ''Invalid measurements query parameters'', d)
         \<and> get_reminders L E d req = (send_error 400 ''Invalid reminders query parameters'', d))
    \<and> (\<forall>issues. idParamsSchema L (req_params req) = Inl issues \<longrightarrow>
         delete_feeding L E d req = (send_error 400 ''Invalid feeding identifier'', d)
         \<and> delete_measurement L E d req = (send_error 400 ''Invalid measurement identifier'', d)
         \<and> patch_reminder L E d req = (send_error 400 ''Invalid reminder identifier'', d)
         \<and> delete_reminder L E d req = (send_error 400 ''Invalid reminder identifier'', d)
         \<and> patch_animal L E d req = (send_error 400 ''Invalid animal identifier'', d)
         \<and> delete_animal L E d req = (send_error 400 ''Invalid animal identifier'', d))
    \<and> (\<forall>ident updates. idParamsSchema L (req_params req) = Inr ident
           \<and> updateReminderSchema L (req_body req) = Inr updates
           \<and> keys_updateReminder updates = [] \<longrightarrow>
         patch_reminder L E d req = (send_error 400 ''No fields provided to update'', d))"
  proof
    assume a: "requireAuth E d req = (Inr auth, d)"
    note b = invalid_body[OF a, of L]
    show "(\<forall>issues. feedingInputSchema L (req_body req) = Inl issues \<longrightarrow>
         post_feedings L E d req = (send_invalid ''Invalid feeding payload'' issues, d)
         \<and> issues \<noteq> [])
    \<and> (\<forall>issues. measurementInputSchema L (req_body req) = Inl issues \<longrightarrow>
         post_measurements L E d req = (send_invalid ''Invalid measurement payload'' issues, d)
         \<and> issues \<noteq> [])
    \<and> (\<forall>issues. createReminderSchema L (req_body req) = Inl issues \<longrightarrow>
         post_reminders L E d req = (send_invalid ''Invalid reminder payload'' issues, d)
         \<and> issues \<noteq> [])
    \<and> (\<forall>issues. createAnimalSchema L (req_body req) = Inl issues \<longrightarrow>
         post_animals L E d req = (send_invalid ''Invalid animal payload'' issues, d)
         \<and> issues \<noteq> [])
    \<and> (\<forall>ident issues. idParamsSchema L (req_params req) = Inr ident
           \<and> updateReminderSchema L (req_body req) = Inl issues \<longrightarrow>
         patch_reminder L E d req = (send_invalid ''Invalid reminder update payload'' issues, d)
         \<and> issues \<noteq> [])
    \<and> (\<forall>ident issues. idParamsSchema L (req_params req) = Inr ident
           \<and> updateAnimalSchema L (req_body req) = Inl issues \<longrightarrow>
         patch_animal L E d req = (send_invalid ''Invalid animal update payload'' issues, d)
         \<and> issues \<noteq> [])
    \<and> (\<forall>issues. animalIdQuerySchema L (req_query req) = Inl issues \<longrightarrow>
         get_feedings L E d req = (send_error 400 ''Invalid feedings query parameters'', d)
         \<and> get_measurements L E d req = (send_error 400 ''Invalid measurements query parameters'', d)
         \<and> get_reminders L E d req = (send_error 400 ''Invalid reminders query parameters'', d))
    \<and> (\<forall>issues. idParamsSchema L (req_params req) = Inl issues \<longrightarrow>
         delete_feeding L E d req = (send_error 400 ''Invalid feeding identifier'', d)
         \<and> delete_measurement L E d req = (send_error 400 ''Invalid measurement identifier'', d)
         \<and> patch_reminder L E d req = (send_error 400 ''Invalid reminder identifier'', d)
         \<and> delete_reminder L E d req = (send_error 400 ''Invalid reminder identifier'', d)
         \<and> patch_animal L E d req = (send_error 400 ''Invalid animal identifier'', d)
         \<and> delete_animal L E d req = (send_error 400 ''Invalid animal identifier'', d))
    \<and> (\<forall>ident updates. idParamsSchema L (req_params req) = Inr ident
           \<and> updateReminderSchema L (req_body req) = Inr updates
           \<and> keys_updateReminder updates = [] \<longrightarrow>
         patch_reminder L E d req = (send_error 400 ''No fields provided to update'', d))"
    proof (intro conjI allI impI; (elim conjE)?)
      fix issues assume "feedingInputSchema L (req_body req) = Inl issues"
      then show "post_feedings L E d req = (send_invalid ''Invalid feeding payload'' issues, d)"
        "issues \<noteq> []"
        using b(1) feedingInputSchema_issues by blast+
    next
      fix issues assume "measurementInputSchema L (req_body req) = Inl issues"
      then show "post_measurements L E d req = (send_invalid ''Invalid measurement payload'' issues, d)"
        "issues \<noteq> []"
        using b(2) measurementInputSchema_issues by blast+
    next
      fix issues assume "createReminderSchema L (req_body req) = Inl issues"
      then show "post_reminders L E d req = (send_invalid ''Invalid reminder payload'' issues, d)"
        "issues \<noteq> []"
        using b(3) createReminderSchema_issues by blast+
    next
      fix issues assume "createAnimalSchema L (req_body req) = Inl issues"
      then show "post_animals L E d req = (send_invalid ''Invalid animal payload'' issues, d)"
        "issues \<noteq> []"
        using b(4) createAnimalSchema_issues by blast+
    next
      fix ident issues
      assume "idParamsSchema L (req_params req) = Inr ident"
        "updateReminderSchema L (req_body req) = Inl issues"
      then show "patch_reminder L E d req = (send_invalid ''Invalid reminder update payload'' issues, d)"
        "issues \<noteq> []"
        using b(5) updateReminderSchema_issues by blast+
    next
      fix ident issues
      assume "idParamsSchema L (req_params req) = Inr ident"
        "updateAnimalSchema L (req_body req) = Inl issues"
      then show "patch_animal L E d req = (send_invalid ''Invalid animal update payload'' issues, d)"
        "issues \<noteq> []"
        using b(6) updateAnimalSchema_issues by blast+
    next
      fix issues assume q: "animalIdQuerySchema L (req_query req) = Inl issues"
      from invalid_query[OF a q]
      show "get_feedings L E d req = (send_error 400 ''Invalid feedings query parameters'', d)"
        "get_measurements L E d req = (send_error 400 ''Invalid measurements query parameters'', d)"
        "get_reminders L E d req = (send_error 400 ''Invalid reminders query parameters'', d)"
        by simp_all
    next
      fix issues assume q: "idParamsSchema L (req_params req) = Inl issues"
      from invalid_params[OF a q]
      show "delete_feeding L E d req = (send_error 400 ''Invalid feeding identifier'', d)"
        "delete_measurement L E d req = (send_error 400 ''Invalid measurement identifier'', d)"
        "patch_reminder L E d req = (send_error 400 ''Invalid reminder identifier'', d)"
        "delete_reminder L E d req = (send_error 400 ''Invalid reminder identifier'', d)"
        "patch_animal L E d req = (send_error 400 ''Invalid animal identifier'', d)"
        "delete_animal L E d req = (send_error 400 ''Invalid animal identifier'', d)"
        by simp_all
    next
      fix ident updates
      assume "idParamsSchema L (req_params req) = Inr ident"
        "updateReminderSchema L (req_body req) = Inr updates" "keys_updateReminder updates = []"
      then show "patch_reminder L E d req = (send_error 400 ''No fields provided to update'', d)"
        by (rule empty_reminder_update[OF a])
    qed
  qed
  have c: "\<forall>issues. credentialsSchema L (req_body req) = Inl issues \<longrightarrow>
         auth_register L E d req = (send_invalid ''Invalid credentials payload'' issues, d)
         \<and> auth_login L E d req = (send_invalid ''Invalid credentials payload'' issues, d)
         \<and> issues \<noteq> []"
    using invalid_credentials[of L req _ E d] credentialsSchema_issues[of L "req_body req"]
    by blast
  have ea: "\<forall>kv. map_of kv ''name'' = None \<and> map_of kv ''species'' = None
           \<and> map_of kv ''description'' = None \<and> map_of kv ''birthDate'' = None
           \<and> map_of kv ''sex'' = None \<longrightarrow>
         updateAnimalSchema L (Some (JObj kv)) = Inl [(None, ''No fields provided to update'')]"
    using empty_animal_update by blast
  have er: "\<forall>kv. map_of kv ''title'' = None \<and> map_of kv ''notes'' = None
           \<and> map_of kv ''isReminder'' = None \<and> map_of kv ''dueDate'' = None
           \<and> map_of kv ''isCompleted'' = None \<and> map_of kv ''notificationId'' = None
           \<and> map_of kv ''animalId'' = None \<longrightarrow>
         (\<exists>updates. updateReminderSchema L (Some (JObj kv)) = Inr updates
                    \<and> keys_updateReminder updates = [])"
    using empty_reminder_keys by blast
  have s1: "\<forall>msg issues. status (send_invalid msg issues) = 400
         \<and> body (send_invalid msg issues) = JObj [(''error'', JStr msg), (''details'', flatten issues)]"
    by (simp add: send_invalid_def send_def)
  have s2: "\<forall>msg. status (send_error 400 msg) = 400
         \<and> body (send_error 400 msg) = JObj [(''error'', JStr msg)]"
    by (simp add: send_error_def send_def)
  show ?thesis
    by (rule conjI[OF p conjI[OF c conjI[OF ea conjI[OF er conjI[OF s1 s2]]]]])
qed

theorem validation_errors_return_400_witness:
  "requireAuth env0 db1 (request_json POST ''/measurements'' ''tokalice'' [(''metricType'', JStr ''  '')])
     = (Inr as_alice, db1)
   \<and> measurementInputSchema lib0
        (req_body (request_json POST ''/measurements'' ''tokalice'' [(''metricType'', JStr ''  '')]))
       = Inl [(Some ''animalId'', ''Invalid input''), (Some ''metricType'', ''Metric type is required'')]
   \<and> post_measurements lib0 env0 db1
        (request_json POST ''/measurements'' ''tokalice'' [(''metricType'', JStr ''  '')])
       = (send_invalid ''Invalid measurement payload''
            [(Some ''animalId'', ''Invalid input''), (Some ''metricType'', ''Metric type is required'')],
          db1)
   \<and> flatten [(Some ''animalId'', ''Invalid input''), (Some ''metricType'', ''Metric type is required'')]
       = JObj [(''formErrors'', JArr []),
               (''fieldErrors'', JObj [(''animalId'', JArr [JStr ''Invalid input'']),
                                       (''metricType'', JArr [JStr ''Metric type is required''])])]"
proof -
  let ?req = "request_json POST ''/measurements'' ''tokalice'' [(''metricType'', JStr ''  '')]"
  let ?issues = "[(Some ''animalId'', ''Invalid input''), (Some ''metricType'', ''Metric type is required'')]"
  have h1: "requireAuth env0 db1 ?req = (Inr as_alice, db1)" by code_simp
  have h2: "measurementInputSchema lib0 (req_body ?req) = Inl ?issues" by code_simp
  have f: "flatten ?issues
       = JObj [(''formErrors'', JArr []),
               (''fieldErrors'', JObj [(''animalId'', JArr [JStr ''Invalid input'']),
                                       (''metricType'', JArr [JStr ''Metric type is required''])])]"
    by code_simp
  note t = validation_errors_return_400[of env0 db1 ?req as_alice lib0, THEN conjunct1,
      rule_format, OF h1, THEN conjunct2, THEN conjunct1, rule_format, OF h2, THEN conjunct1]
  show ?thesis
    by (rule conjI[OF h1 conjI[OF h2 conjI[OF t f]]])
qed

theorem invalid_identifier_without_details_counterexample:
  "fst (requireAuth env0 db1 (request_plain DELETE ''/measurements/not-a-uuid'' ''tokalice''))
     = Inr as_alice
   \<and> serve lib0 env0 db1 (request_plain DELETE ''/measurements/not-a-uuid'' ''tokalice'')
     = (send 400 (JObj [(''error'', JStr ''Invalid measurement identifier'')]), db1)
   \<and> \<not> has_key ''details''
         (body (fst (serve lib0 env0 db1 (request_plain DELETE ''/measurements/not-a-uuid'' ''tokalice''))))"
  by code_simp

lemma delete_rows_none:
  "\<forall>r \<in> set table. \<not> cond r \<Longrightarrow> delete_rows cond table = ([], table)"
  by (simp add: delete_rows_def filter_empty_conv filter_id_conv)

lemma update_rows_none:
  "\<forall>r \<in> set table. \<not> cond r \<Longrightarrow> update_rows cond f table = ([], table)"
  by (simp add: update_rows_def filter_empty_conv map_idI)

lemma cascade_animals_Nil: "cascade_animals [] d = d"
proof -
  have "(case x of None \<Rightarrow> True | Some (a :: string) \<Rightarrow> a \<notin> set []) = True" for x
    by (cases x) simp_all
  then show ?thesis by (simp add: cascade_animals_def)
qed

lemma delete_animals_none:
  "\<forall>a \<in> set (animals d). \<not> cond a \<Longrightarrow> delete_animals cond d = ([], d)"
  by (simp add: delete_animals_def filter_empty_conv filter_id_conv cascade_animals_Nil)

lemma not_found_delete:
  assumes "requireAuth E d req = (Inr auth, d)"
      and "idParamsSchema L (req_params req) = Inr ident"
  shows "\<forall>m \<in> set (measurements d). \<not> (m_id m = pg_uuid ident \<and> m_userId m = u_id (ac_user auth)) \<Longrightarrow>
           delete_measurement L E d req = (send_error 404 ''Measurement not found'', d)"
    and "\<forall>f \<in> set (feedings d). \<not> (f_id f = pg_uuid ident \<and> f_userId f = u_id (ac_user auth)) \<Longrightarrow>
           delete_feeding L E d req = (send_error 404 ''Feeding record not found'', d)"
    and "\<forall>r \<in> set (reminders d). \<not> (r_id r = pg_uuid ident \<and> r_userId r = u_id (ac_user auth)) \<Longrightarrow>
           delete_reminder L E d req = (send_error 404 ''Reminder not found'', d)"
    and "\<forall>a \<in> set (animals d). \<not> (a_id a = pg_uuid ident \<and> a_userId a = u_id (ac_user auth)) \<Longrightarrow>
           delete_animal L E d req = (send_error 404 ''Animal not found'', d)"
  using assms
  by (simp_all add: delete_measurement_def delete_feeding_def delete_reminder_def delete_animal_def
      with_auth_Inr delete_rows_none delete_animals_none)

lemma not_found_patch_reminder:
  assumes "requireAuth E d req = (Inr auth, d)"
      and "idParamsSchema L (req_params req) = Inr ident"
      and "updateReminderSchema L (req_body req) = Inr updates"
      and "keys_updateReminder updates \<noteq> []"
      and "\<forall>r \<in> set (reminders d). \<not> (r_id r = pg_uuid ident \<and> r_userId r = u_id (ac_user auth))"
  shows "status (fst (patch_reminder L E d req)) = 404 \<and> snd (patch_reminder L E d req) = d"
  using assms
  by (simp add: patch_reminder_def with_auth_Inr update_rows_none)

lemma updateAnimalSchema_keys:
  assumes "updateAnimalSchema L input = Inr u"
  shows "keys_updateAnimal u \<noteq> []"
proof (cases "\<exists>kv. input = Some (JObj kv)")
  case False
  with assms show ?thesis by (simp add: updateAnimalSchema_def not_object)
next
  case True
  then obtain kv where kv: "input = Some (JObj kv)" by blast
  show ?thesis
    using assms unfolding kv updateAnimalSchema_def
    by (auto simp: Let_def z_finish_Inr split: option.splits if_splits)
qed

lemma keys_animal_patch_sanitize:
  "keys_animal_patch (sanitizeUpdateAnimalPayload u) = keys_updateAnimal u"
  by (simp add: keys_animal_patch_def keys_updateAnimal_def sanitizeUpdateAnimalPayload_def)

lemma not_found_patch_animal:
  assumes "requireAuth E d req = (Inr auth, d)"
      and "idParamsSchema L (req_params req) = Inr ident"
      and "updateAnimalSchema L (req_body req) = Inr input"
      and "\<forall>a \<in> set (animals d). \<not> (a_id a = pg_uuid ident \<and> a_userId a = u_id (ac_user auth))"
  shows "patch_animal L E d req =
     (if duplicate_name d (u_id (ac_user auth)) ident (sanitizeUpdateAnimalPayload input)
      then (send_error 409 ''An animal with this name already exists'', d)
      else (send_error 404 ''Animal not found'', d))"
  using assms updateAnimalSchema_keys[OF assms(3)]
  by (simp add: patch_animal_def with_auth_Inr update_rows_none Let_def keys_animal_patch_sanitize)

lemma animal_not_owned:
  assumes "requireAuth E d req = (Inr auth, d)"
  shows "feedingInputSchema L (req_body req) = Inr fp \<Longrightarrow>
         ensureAnimalOwnership d (u_id (ac_user auth)) (fi_animalId fp) = None \<Longrightarrow>
           post_feedings L E d req = (send_error 404 ''Animal not found'', d)"
    and "measurementInputSchema L (req_body req) = Inr mp \<Longrightarrow>
         ensureAnimalOwnership d (u_id (ac_user auth)) (mi_animalId mp) = None \<Longrightarrow>
           post_measurements L E d req = (send_error 404 ''Animal not found'', d)"
    and "createReminderSchema L (req_body req) = Inr rp \<Longrightarrow>
         ensureAnimalOwnership d (u_id (ac_user auth)) (cr_animalId rp) = None \<Longrightarrow>
           post_reminders L E d req = (send_error 404 ''Animal not found'', d)"
    and "animalIdQuerySchema L (req_query req) = Inr animalId \<Longrightarrow>
         ensureAnimalOwnership d (u_id (ac_user auth)) animalId = None \<Longrightarrow>
           get_feedings L E d req = (send_error 404 ''Animal not found'', d)
           \<and> get_measurements L E d req = (send_error 404 ''Animal not found'', d)
           \<and> get_reminders L E d req = (send_error 404 ''Animal not found'', d)"
    and "idParamsSchema L (req_params req) = Inr ident \<Longrightarrow>
         updateReminderSchema L (req_body req) = Inr updates \<Longrightarrow>
         ur_animalId updates = Some a \<Longrightarrow>
         ensureAnimalOwnership d (u_id (ac_user auth)) a = None \<Longrightarrow>
           patch_reminder L E d req = (send_error 404 ''Animal not found'', d)"
  using assms
  by (simp_all add: post_feedings_def post_measurements_def post_reminders_def get_feedings_def
      get_measurements_def get_reminders_def patch_reminder_def with_auth_Inr
      keys_updateReminder_def)

lemma ensureAnimalOwnership_None_iff:
  "ensureAnimalOwnership d userId animalId = None \<longleftrightarrow>
     \<not> (\<exists>a \<in> set (animals d). a_id a = pg_uuid animalId \<and> a_userId a = userId)"
  using ensureAnimalOwnership_Some_iff[of d userId animalId] by blast

lemma dropWhile_rev_dropWhile:
  "dropWhile P (rev (dropWhile P (rev xs))) = rev (dropWhile P (rev (dropWhile P xs)))"
proof (cases "\<forall>x \<in> set xs. P x")
  case True
  then have h: "dropWhile P xs = []" "dropWhile P (rev xs) = []"
    by (simp_all add: dropWhile_eq_Nil_conv)
  show ?thesis unfolding h by simp
next
  case False
  then obtain x where x: "x \<in> set xs" "\<not> P x" by blast
  obtain as y bs where s1: "xs = as @ y # bs" "\<not> P y" "\<forall>a \<in> set as. P a"
    using split_list_first_prop[of xs "\<lambda>x. \<not> P x"] x by blast
  obtain cs z ds where s2: "y # bs = cs @ z # ds" "\<not> P z" "\<forall>a \<in> set ds. P a"
    using split_list_last_prop[of "y # bs" "\<lambda>x. \<not> P x"] s1(2) by auto
  have d1: "dropWhile P xs = y # bs"
    using s1 by (simp add: dropWhile_append3)
  have r1: "rev (y # bs) = rev ds @ z # rev cs" using s2(1) by simp
  have d2: "dropWhile P (rev (y # bs)) = z # rev cs"
    unfolding r1 using s2 by (simp add: dropWhile_append3)
  have rhs: "rev (dropWhile P (rev (dropWhile P xs))) = cs @ [z]"
    unfolding d1 d2 by simp
  have r2: "rev xs = rev ds @ z # rev cs @ rev as"
    using s1(1) s2(1) by simp
  have d3: "dropWhile P (rev xs) = z # rev cs @ rev as"
    unfolding r2 using s2 by (simp add: dropWhile_append3)
  have cz: "cs @ [z] \<noteq> []" by simp
  have hd_c: "hd (cs @ [z]) = y" using s2(1) by (cases cs) auto
  have d4: "dropWhile P (as @ cs @ [z]) = cs @ [z]"
  proof -
    have "dropWhile P (as @ cs @ [z]) = dropWhile P (cs @ [z])"
      using s1(3) by (simp add: dropWhile_append)
    also have "\<dots> = cs @ [z]"
      using hd_c s1(2) cz by (cases "cs @ [z]") auto
    finally show ?thesis .
  qed
  have lhs: "dropWhile P (rev (dropWhile P (rev xs))) = cs @ [z]"
    unfolding d3 using d4 by simp
  from lhs rhs show ?thesis by simp
qed

lemma trim_trim: "trim (trim s) = trim s"
proof -
  let ?P = isWhiteSpace
  let ?t = "rev (dropWhile ?P (rev (dropWhile ?P s)))"
  have a: "dropWhile ?P ?t = ?t"
    using dropWhile_rev_dropWhile[of ?P "dropWhile ?P s"] by (simp add: dropWhile_idem)
  have "dropWhile ?P (rev ?t) = rev ?t" by (simp add: dropWhile_idem)
  with a show ?thesis by (simp add: trim_def)
qed

lemma z_string_trim_min:
  assumes "z_string L [Trim, Min (Suc 0) m1, Max k m2] j = (Some n, [])"
  shows "n \<noteq> [] \<and> trim n = n"
  using assms
  by (cases j) (auto simp: z_string_def trim_trim split: if_splits)

lemma updateAnimalSchema_name:
  assumes "updateAnimalSchema L input = Inr u" and "ua_name u = Some n"
  shows "n \<noteq> [] \<and> trim n = n"
proof (cases "\<exists>kv. input = Some (JObj kv)")
  case False
  with assms show ?thesis by (simp add: updateAnimalSchema_def not_object)
next
  case True
  then obtain kv where kv: "input = Some (JObj kv)" by blast
  let ?r = "z_optional (z_string L
                   [Trim, Min 1 (Some ''Name must be at least 1 character long''),
                    Max 100 (Some ''Name must be 100 characters or less'')])
                 (map_of kv ''name'')"
  have "fst ?r = Some (Some n) \<and> snd ?r = []"
    using assms unfolding kv updateAnimalSchema_def
    by (auto simp: Let_def z_finish_Inr at_field_Nil bind_eq_Some_conv split: option.splits if_splits)
  then obtain j where "z_string L
                   [Trim, Min 1 (Some ''Name must be at least 1 character long''),
                    Max 100 (Some ''Name must be 100 characters or less'')] j = (Some n, [])"
    by (cases "map_of kv ''name''") (auto simp: z_optional_def prod_eq_iff)
  then show ?thesis using z_string_trim_min by simp
qed

lemma filter_unique_key:
  assumes "distinct (map f xs)" and "x \<in> set xs"
  shows "filter (\<lambda>y. f y = f x) xs = [x]"
  using assms
proof (induction xs)
  case Nil
  then show ?case by simp
next
  case (Cons a xs)
  show ?case
  proof (cases "a = x")
    case True
    with Cons.prems have "\<forall>y \<in> set xs. f y \<noteq> f x" by (auto simp: image_iff)
    then have "filter (\<lambda>y. f y = f x) xs = []" by (simp add: filter_empty_conv)
    with True show ?thesis by simp
  next
    case False
    with Cons.prems have x: "x \<in> set xs" by simp
    with Cons.prems have "f a \<noteq> f x" by (auto simp: image_iff)
    with Cons.IH Cons.prems x show ?thesis by simp
  qed
qed

lemma post_animals_duplicate:
  assumes "requireAuth E d req = (Inr auth, d)"
      and "createAnimalSchema L (req_body req) = Inr input"
      and "\<exists>a \<in> set (animals d). a_userId a = u_id (ac_user auth) \<and> a_name a = trim (ca_name input)"
  shows "post_animals L E d req = (send_error 409 ''An animal with this name already exists'', d)"
proof -
  from assms(3) have "filter (\<lambda>a. a_userId a = u_id (ac_user auth) \<and> a_name a = trim (ca_name input))
      (animals d) \<noteq> []"
    by (auto simp: filter_empty_conv)
  with assms(1,2) show ?thesis
    by (simp add: post_animals_def with_auth_Inr Let_def new_animal_def)
qed

lemma post_animals_created:
  assumes "requireAuth E d req = (Inr auth, d)"
      and "createAnimalSchema L (req_body req) = Inr input"
      and "\<not> (\<exists>a \<in> set (animals d). a_userId a = u_id (ac_user auth) \<and> a_name a = trim (ca_name input))"
      and "gen_random_uuid E \<notin> a_id ` set (animals d)"
  shows "post_animals L E d req =
     (send 201 (toAnimalResponse L (new_animal E (u_id (ac_user auth)) input)),
      d\<lparr>animals := animals d @ [new_animal E (u_id (ac_user auth)) input]\<rparr>)"
proof -
  from assms(3) have "filter (\<lambda>a. a_userId a = u_id (ac_user auth) \<and> a_name a = trim (ca_name input))
      (animals d) = []"
    by (auto simp: filter_empty_conv)
  moreover have "a_name (new_animal E (u_id (ac_user auth)) input) = trim (ca_name input)"
    "a_id (new_animal E (u_id (ac_user auth)) input) = gen_random_uuid E"
    by (simp_all add: new_animal_def)
  ultimately show ?thesis
    using assms(1,2,4)
    by (simp add: post_animals_def with_auth_Inr Let_def insert_row_def)
qed

lemma patch_animal_duplicate:
  assumes "requireAuth E d req = (Inr auth, d)"
      and "idParamsSchema L (req_params req) = Inr ident"
      and "updateAnimalSchema L (req_body req) = Inr input"
      and "ua_name input = Some n"
      and "distinct (map (\<lambda>a. (a_userId a, a_name a)) (animals d))"
      and "b \<in> set (animals d)" and "a_userId b = u_id (ac_user auth)"
      and "a_name b = trim n" and "a_id b \<noteq> ident"
  shows "patch_animal L E d req = (send_error 409 ''An animal with this name already exists'', d)"
proof -
  from updateAnimalSchema_name[OF assms(3,4)] have n: "n \<noteq> []" "trim n = n" by simp_all
  have k: "keys_animal_patch (sanitizeUpdateAnimalPayload input) \<noteq> []"
    using updateAnimalSchema_keys[OF assms(3)] by (simp add: keys_animal_patch_sanitize)
  have "filter (\<lambda>a. (a_userId a, a_name a) = (a_userId b, a_name b)) (animals d) = [b]"
    by (rule filter_unique_key[OF assms(5,6)])
  then have f: "filter (\<lambda>a. a_userId a = u_id (ac_user auth) \<and> a_name a = n) (animals d) = [b]"
    using assms(7,8) n by simp
  have "duplicate_name d (u_id (ac_user auth)) ident (sanitizeUpdateAnimalPayload input)"
    using assms(4,9) n f by (simp add: duplicate_name_def sanitizeUpdateAnimalPayload_def)
  with assms(1,2,3) k show ?thesis
    by (simp add: patch_animal_def with_auth_Inr Let_def)
qed

text \<open>
  Claim C5. For an authenticated user and a body that passes the schema:
  \<open>POST /animals\<close> with a (trimmed) name that an animal of the user already has, and
  \<open>PATCH /animals/:id\<close> with a (trimmed) name that a different animal of the user has,
  are answered 409 and leave the stored data as it was. The check looks at the user's
  own animals only: when no animal of the user has the name (whoever else has one with
  it) and the new identifier is not taken, \<open>POST /animals\<close> is answered 201 and the
  animal is added. For the \<open>PATCH\<close>, the animal table satisfies its unique index
  \<open>animal_user_name_unique\<close> on \<open>(user_id, name)\<close>.
\<close>

theorem duplicate_names_rejected:
  assumes "requireAuth E d req = (Inr auth, d)"
  shows "(\<forall>input. createAnimalSchema L (req_body req) = Inr input \<longrightarrow>
           ((\<exists>a \<in> set (animals d). a_userId a = u_id (ac_user auth)
                \<and> a_name a = trim (ca_name input)) \<longrightarrow>
              post_animals L E d req =
                (send_error 409 ''An animal with this name already exists'', d))
         \<and> (\<not> (\<exists>a \<in> set (animals d). a_userId a = u_id (ac_user auth)
                  \<and> a_name a = trim (ca_name input))
              \<and> gen_random_uuid E \<notin> a_id ` set (animals d) \<longrightarrow>
              post_animals L E d req =
                (send 201 (toAnimalResponse L (new_animal E (u_id (ac_user auth)) input)),
                 d\<lparr>animals := animals d @ [new_animal E (u_id (ac_user auth)) input]\<rparr>)
              \<and> a_name (new_animal E (u_id (ac_user auth)) input) = trim (ca_name input)
              \<and> a_userId (new_animal E (u_id (ac_user auth)) input) = u_id (ac_user auth)))
       \<and> (\<forall>ident input n b. idParamsSchema L (req_params req) = Inr ident
             \<and> updateAnimalSchema L (req_body req) = Inr input
             \<and> ua_name input = Some n
             \<and> distinct (map (\<lambda>a. (a_userId a, a_name a)) (animals d))
             \<and> b \<in> set (animals d) \<and> a_userId b = u_id (ac_user auth)
             \<and> a_name b = trim n \<and> a_id b \<noteq> ident \<longrightarrow>
           patch_animal L E d req =
             (send_error 409 ''An animal with this name already exists'', d))"
proof -
  have p1: "\<forall>input. createAnimalSchema L (req_body req) = Inr input \<longrightarrow>
           ((\<exists>a \<in> set (animals d). a_userId a = u_id (ac_user auth)
                \<and> a_name a = trim (ca_name input)) \<longrightarrow>
              post_animals L E d req =
                (send_error 409 ''An animal with this name already exists'', d))
         \<and> (\<not> (\<exists>a \<in> set (animals d). a_userId a = u_id (ac_user auth)
                  \<and> a_name a = trim (ca_name input))
              \<and> gen_random_uuid E \<notin> a_id ` set (animals d) \<longrightarrow>
              post_animals L E d req =
                (send 201 (toAnimalResponse L (new_animal E (u_id (ac_user auth)) input)),
                 d\<lparr>animals := animals d @ [new_animal E (u_id (ac_user auth)) input]\<rparr>)
              \<and> a_name (new_animal E (u_id (ac_user auth)) input) = trim (ca_name input)
              \<and> a_userId (new_animal E (u_id (ac_user auth)) input) = u_id (ac_user auth))"
  proof (intro allI impI conjI)
    fix input
    assume i: "createAnimalSchema L (req_body req) = Inr input"
    {
      assume "\<exists>a \<in> set (animals d). a_userId a = u_id (ac_user auth)
                \<and> a_name a = trim (ca_name input)"
      then show "post_animals L E d req =
                (send_error 409 ''An animal with this name already exists'', d)"
        by (rule post_animals_duplicate[OF assms i])
    }
    {
      assume "\<not> (\<exists>a \<in> set (animals d). a_userId a = u_id (ac_user auth)
                  \<and> a_name a = trim (ca_name input))
              \<and> gen_random_uuid E \<notin> a_id ` set (animals d)"
      then show "post_animals L E d req =
                (send 201 (toAnimalResponse L (new_animal E (u_id (ac_user auth)) input)),
                 d\<lparr>animals := animals d @ [new_animal E (u_id (ac_user auth)) input]\<rparr>)"
        using post_animals_created[OF assms i] by blast
    }
    show "a_name (new_animal E (u_id (ac_user auth)) input) = trim (ca_name input)"
      by (simp add: new_animal_def)
    show "a_userId (new_animal E (u_id (ac_user auth)) input) = u_id (ac_user auth)"
      by (simp add: new_animal_def)
  qed
  have p2: "\<forall>ident input n b. idParamsSchema L (req_params req) = Inr ident
             \<and> updateAnimalSchema L (req_body req) = Inr input
             \<and> ua_name input = Some n
             \<and> distinct (map (\<lambda>a. (a_userId a, a_name a)) (animals d))
             \<and> b \<in> set (animals d) \<and> a_userId b = u_id (ac_user auth)
             \<and> a_name b = trim n \<and> a_id b \<noteq> ident \<longrightarrow>
           patch_animal L E d req =
             (send_error 409 ''An animal with this name already exists'', d)"
    using patch_animal_duplicate[OF assms] by blast
  from p1 p2 show ?thesis by (rule conjI)
qed

theorem duplicate_names_rejected_witness:
  "requireAuth env0 db1 (request_json POST ''/animals'' ''tokalice'' [(''name'', JStr '' Rex '')])
     = (Inr as_alice, db1)
   \<and> createAnimalSchema lib0
        (req_body (request_json POST ''/animals'' ''tokalice'' [(''name'', JStr '' Rex '')]))
       = Inr \<lparr>ca_name = ''Rex'', ca_species = None, ca_description = None, ca_birthDate = None,
              ca_sex = None\<rparr>
   \<and> list_ex (\<lambda>a. a_userId a = u_id (ac_user as_alice) \<and> a_name a = ''Rex'') (animals db1)
   \<and> post_animals lib0 env0 db1
        (request_json POST ''/animals'' ''tokalice'' [(''name'', JStr '' Rex '')])
       = (send_error 409 ''An animal with this name already exists'', db1)
   \<and> requireAuth env0 db1 (request_json POST ''/animals'' ''tokbob'' [(''name'', JStr '' Rex '')])
     = (Inr as_bob, db1)
   \<and> \<not> list_ex (\<lambda>a. a_userId a = u_id (ac_user as_bob) \<and> a_name a = ''Rex'') (animals db1)
   \<and> status (fst (post_animals lib0 env0 db1
        (request_json POST ''/animals'' ''tokbob'' [(''name'', JStr '' Rex '')]))) = 201
   \<and> list_ex (\<lambda>a. a_userId a = u_id alice \<and> a_name a = ''Rex'')
        (animals (snd (post_animals lib0 env0 db1
           (request_json POST ''/animals'' ''tokbob'' [(''name'', JStr '' Rex '')]))))
   \<and> list_ex (\<lambda>a. a_userId a = u_id bob \<and> a_name a = ''Rex'')
        (animals (snd (post_animals lib0 env0 db1
           (request_json POST ''/animals'' ''tokbob'' [(''name'', JStr '' Rex '')]))))
   \<and> distinct (map (\<lambda>a. (a_userId a, a_name a)) (animals db1))
   \<and> a_id rex \<noteq> a_id iggy
   \<and> patch_animal lib0 env0 db1
        (with_id (a_id iggy) (request_json PATCH ''/animals'' ''tokalice'' [(''name'', JStr ''Rex'')]))
       = (send_error 409 ''An animal with this name already exists'', db1)"
proof -
  let ?ra = "request_json POST ''/animals'' ''tokalice'' [(''name'', JStr '' Rex '')]"
  let ?rb = "request_json POST ''/animals'' ''tokbob'' [(''name'', JStr '' Rex '')]"
  let ?input = "\<lparr>ca_name = ''Rex'', ca_species = None, ca_description = None,
      ca_birthDate = None, ca_sex = None\<rparr>"
  have a1: "requireAuth env0 db1 ?ra = (Inr as_alice, db1)" by code_simp
  have a2: "createAnimalSchema lib0 (req_body ?ra) = Inr ?input" by code_simp
  have b1: "requireAuth env0 db1 ?rb = (Inr as_bob, db1)" by code_simp
  have b2: "createAnimalSchema lib0 (req_body ?rb) = Inr ?input" by code_simp
  have tr: "trim (ca_name ?input) = ''Rex''" by code_simp
  have a3: "list_ex (\<lambda>a. a_userId a = u_id (ac_user as_alice) \<and> a_name a = ''Rex'') (animals db1)"
    by code_simp
  have b3: "\<not> list_ex (\<lambda>a. a_userId a = u_id (ac_user as_bob) \<and> a_name a = ''Rex'') (animals db1)"
    by code_simp
  have b4: "gen_random_uuid env0 \<notin> a_id ` set (animals db1)" by code_simp
  have a3': "\<exists>a \<in> set (animals db1). a_userId a = u_id (ac_user as_alice)
      \<and> a_name a = trim (ca_name ?input)"
    using a3 unfolding tr by (simp add: list_ex_iff)
  have b3': "\<not> (\<exists>a \<in> set (animals db1). a_userId a = u_id (ac_user as_bob)
      \<and> a_name a = trim (ca_name ?input))
     \<and> gen_random_uuid env0 \<notin> a_id ` set (animals db1)"
    using b3 b4 unfolding tr by (simp add: list_ex_iff)
  have ca: "post_animals lib0 env0 db1 ?ra
      = (send_error 409 ''An animal with this name already exists'', db1)"
    by (rule duplicate_names_rejected[OF a1, of lib0, THEN conjunct1, rule_format, OF a2,
          THEN conjunct1, THEN mp, OF a3'])
  note cb = duplicate_names_rejected[OF b1, of lib0, THEN conjunct1, rule_format, OF b2,
          THEN conjunct2, THEN mp, OF b3', THEN conjunct1]
  have cb1: "status (fst (post_animals lib0 env0 db1 ?rb)) = 201"
    unfolding cb by simp
  have cb2: "list_ex (\<lambda>a. a_userId a = u_id alice \<and> a_name a = ''Rex'')
        (animals (snd (post_animals lib0 env0 db1 ?rb)))"
    unfolding cb by code_simp
  have cb3: "list_ex (\<lambda>a. a_userId a = u_id bob \<and> a_name a = ''Rex'')
        (animals (snd (post_animals lib0 env0 db1 ?rb)))"
    unfolding cb by code_simp
  let ?rp = "with_id (a_id iggy) (request_json PATCH ''/animals'' ''tokalice'' [(''name'', JStr ''Rex'')])"
  let ?up = "\<lparr>ua_name = Some ''Rex'', ua_species = None, ua_description = None,
      ua_birthDate = None, ua_sex = None\<rparr>"
  have p1: "requireAuth env0 db1 ?rp = (Inr as_alice, db1)" by code_simp
  have p2: "idParamsSchema lib0 (req_params ?rp) = Inr (a_id iggy)" by code_simp
  have p3: "updateAnimalSchema lib0 (req_body ?rp) = Inr ?up" by code_simp
  have p4: "ua_name ?up = Some ''Rex''" by simp
  have p5: "distinct (map (\<lambda>a. (a_userId a, a_name a)) (animals db1))" by code_simp
  have p6: "rex \<in> set (animals db1)" by (simp add: db1_def db0_def)
  have p7: "a_userId rex = u_id (ac_user as_alice)" by code_simp
  have p8: "a_name rex = trim ''Rex''" by code_simp
  have p9: "a_id rex \<noteq> a_id iggy" by code_simp
  have cp: "patch_animal lib0 env0 db1 ?rp
      = (send_error 409 ''An animal with this name already exists'', db1)"
    by (rule duplicate_names_rejected[OF p1, of lib0, THEN conjunct2, rule_format,
          of "a_id iggy" ?up "''Rex''" rex])
      (intro conjI p2 p3 p4 p5 p6 p7 p8 p9)
  show ?thesis
    by (rule conjI[OF a1 conjI[OF a2 conjI[OF a3 conjI[OF ca conjI[OF b1 conjI[OF b3
          conjI[OF cb1 conjI[OF cb2 conjI[OF cb3 conjI[OF p5 conjI[OF p9 cp]]]]]]]]]]])
qed

lemma animal_ref_ok_iff:
  "animal_ref_ok d ref = (\<forall>a. ref = Some a \<longrightarrow> a \<in> a_id ` set (animals d))"
  by (cases ref) (simp_all add: animal_ref_ok_def)

lemma fk_ok_sessions:
  assumes "fk_ok d" and "same_resources d d'" and "set (sessions d') \<subseteq> set (sessions d)"
  shows "fk_ok d'"
  using assms unfolding fk_ok_def same_resources_def animal_ref_ok_iff
  by (simp add: subset_iff)

lemma fk_ok_prune_sessions:
  "fk_ok d \<Longrightarrow> fk_ok (d\<lparr>sessions := filter c (sessions d)\<rparr>)"
  unfolding fk_ok_def animal_ref_ok_iff by auto

lemma insert_row_Some: "insert_row pk r t = Some t' \<Longrightarrow> t' = t @ [r] \<and> pk r \<notin> pk ` set t"
  by (auto simp: insert_row_def split: if_splits)

lemma ensureAnimalOwnership_ref:
  "ensureAnimalOwnership d u a = Some x \<Longrightarrow> animal_ref_ok d (Some (pg_uuid a))"
proof -
  assume "ensureAnimalOwnership d u a = Some x"
  with ensureAnimalOwnership_Some_iff[of d u a]
  obtain b where "b \<in> set (animals d)" "a_id b = pg_uuid a" by auto
  then have "pg_uuid a \<in> a_id ` set (animals d)" by (metis imageI)
  then show ?thesis by (simp add: animal_ref_ok_iff)
qed

lemma auth_user_known:
  "requireAuth E d req = (Inr auth, d) \<Longrightarrow> u_id (ac_user auth) \<in> u_id ` set (users d)"
  by (drule requireAuth_Inr) simp

lemma fk_ok_add_feeding:
  assumes "fk_ok d" "f_userId r \<in> u_id ` set (users d)" "animal_ref_ok d (f_animalId r)"
  shows "fk_ok (d\<lparr>feedings := feedings d @ [r]\<rparr>)"
  using assms unfolding fk_ok_def animal_ref_ok_iff by auto

lemma fk_ok_add_measurement:
  assumes "fk_ok d" "m_userId r \<in> u_id ` set (users d)" "animal_ref_ok d (m_animalId r)"
  shows "fk_ok (d\<lparr>measurements := measurements d @ [r]\<rparr>)"
  using assms unfolding fk_ok_def animal_ref_ok_iff by auto

lemma fk_ok_add_reminder:
  assumes "fk_ok d" "r_userId r \<in> u_id ` set (users d)" "animal_ref_ok d (r_animalId r)"
  shows "fk_ok (d\<lparr>reminders := reminders d @ [r]\<rparr>)"
  using assms unfolding fk_ok_def animal_ref_ok_iff by auto

lemma fk_ok_add_animal:
  assumes "fk_ok d" "a_userId r \<in> u_id ` set (users d)"
  shows "fk_ok (d\<lparr>animals := animals d @ [r]\<rparr>)"
  using assms unfolding fk_ok_def animal_ref_ok_iff by (auto split: option.splits)

lemma fk_ok_add_session:
  assumes "fk_ok d" "s_userId r \<in> u_id ` set (users d)"
  shows "fk_ok (d\<lparr>sessions := sessions d @ [r]\<rparr>)"
  using assms unfolding fk_ok_def animal_ref_ok_iff by auto

lemma fk_ok_add_user:
  assumes "fk_ok d"
  shows "fk_ok (d\<lparr>users := users d @ [r]\<rparr>)"
  using assms unfolding fk_ok_def animal_ref_ok_iff by auto

lemma fk_ok_filter_feedings: "fk_ok d \<Longrightarrow> fk_ok (d\<lparr>feedings := filter c (feedings d)\<rparr>)"
  unfolding fk_ok_def animal_ref_ok_iff by auto

lemma fk_ok_filter_measurements:
  "fk_ok d \<Longrightarrow> fk_ok (d\<lparr>measurements := filter c (measurements d)\<rparr>)"
  unfolding fk_ok_def animal_ref_ok_iff by auto

lemma fk_ok_filter_reminders: "fk_ok d \<Longrightarrow> fk_ok (d\<lparr>reminders := filter c (reminders d)\<rparr>)"
  unfolding fk_ok_def animal_ref_ok_iff by auto

lemma fk_ok_update_reminders:
  assumes "fk_ok d"
      and "\<And>r. r \<in> set (reminders d) \<Longrightarrow> c r \<Longrightarrow>
             r_userId (f r) = r_userId r \<and> animal_ref_ok d (r_animalId (f r))"
  shows "fk_ok (d\<lparr>reminders := map (\<lambda>r. if c r then f r else r) (reminders d)\<rparr>)"
proof -
  have "r_userId x \<in> u_id ` set (users d) \<and> animal_ref_ok d (r_animalId x)"
    if "x \<in> set (map (\<lambda>r. if c r then f r else r) (reminders d))" for x
  proof -
    from that obtain r where r: "r \<in> set (reminders d)" "x = (if c r then f r else r)" by auto
    from assms(1) r(1) have k: "r_userId r \<in> u_id ` set (users d)" "animal_ref_ok d (r_animalId r)"
      unfolding fk_ok_def by blast+
    show ?thesis
    proof (cases "c r")
      case True
      with r assms(2)[OF r(1) True] k show ?thesis by simp
    next
      case False
      with r k show ?thesis by simp
    qed
  qed
  with assms(1) show ?thesis
    unfolding fk_ok_def animal_ref_ok_iff by auto
qed

lemma fk_ok_update_animals:
  assumes "fk_ok d"
      and "\<And>r. a_userId (f r) = a_userId r \<and> a_id (f r) = a_id r"
  shows "fk_ok (d\<lparr>animals := map (\<lambda>r. if c r then f r else r) (animals d)\<rparr>)"
proof -
  have "a_id (if c r then f r else r) = a_id r" for r using assms(2) by simp
  hence "map a_id (map (\<lambda>r. if c r then f r else r) (animals d)) = map a_id (animals d)"
    by (simp add: o_def)
  hence i: "a_id ` set (map (\<lambda>r. if c r then f r else r) (animals d)) = a_id ` set (animals d)"
    by (metis set_map)
  have u: "a_userId x \<in> u_id ` set (users d)"
    if "x \<in> set (map (\<lambda>r. if c r then f r else r) (animals d))" for x
  proof -
    from that obtain r where r: "r \<in> set (animals d)" "x = (if c r then f r else r)" by auto
    from assms(1) r(1) have "a_userId r \<in> u_id ` set (users d)" unfolding fk_ok_def by blast
    with r assms(2)[of r] show ?thesis by (cases "c r") simp_all
  qed
  from assms(1) u show ?thesis
    unfolding fk_ok_def animal_ref_ok_iff using i by auto
qed


lemma fk_ok_unauthorized:
  "fk_ok d \<Longrightarrow> same_resources d d' \<Longrightarrow> set (sessions d') \<subseteq> set (sessions d) \<Longrightarrow>
   fk_ok (snd (r, d'))"
  by (simp add: fk_ok_sessions)

lemma fk_ok_post_feedings: "fk_ok d \<Longrightarrow> fk_ok (snd (post_feedings L E d req))"
  unfolding post_feedings_def
  by (rule with_auth_cases)
    (auto simp: Let_def new_feeding_def fk_ok_sessions
      intro!: fk_ok_add_feeding
      dest!: insert_row_Some auth_user_known ensureAnimalOwnership_ref
      split: sum.splits option.splits)

lemma fk_ok_get_feedings: "fk_ok d \<Longrightarrow> fk_ok (snd (get_feedings L E d req))"
  unfolding get_feedings_def
  by (rule with_auth_cases)
    (auto simp: fk_ok_sessions split: sum.splits option.splits)

lemma fk_ok_delete_feeding: "fk_ok d \<Longrightarrow> fk_ok (snd (delete_feeding L E d req))"
  unfolding delete_feeding_def
  by (rule with_auth_cases)
    (auto simp: fk_ok_sessions delete_rows_def fk_ok_filter_feedings
      split: sum.splits prod.splits list.splits)

lemma fk_ok_post_measurements: "fk_ok d \<Longrightarrow> fk_ok (snd (post_measurements L E d req))"
  unfolding post_measurements_def
  by (rule with_auth_cases)
    (auto simp: Let_def new_measurement_def fk_ok_sessions
      intro!: fk_ok_add_measurement
      dest!: insert_row_Some auth_user_known ensureAnimalOwnership_ref
      split: sum.splits option.splits)

lemma fk_ok_get_measurements: "fk_ok d \<Longrightarrow> fk_ok (snd (get_measurements L E d req))"
  unfolding get_measurements_def
  by (rule with_auth_cases)
    (auto simp: fk_ok_sessions split: sum.splits option.splits)

lemma fk_ok_delete_measurement: "fk_ok d \<Longrightarrow> fk_ok (snd (delete_measurement L E d req))"
  unfolding delete_measurement_def
  by (rule with_auth_cases)
    (auto simp: fk_ok_sessions delete_rows_def fk_ok_filter_measurements
      split: sum.splits prod.splits list.splits)

lemma fk_ok_post_reminders: "fk_ok d \<Longrightarrow> fk_ok (snd (post_reminders L E d req))"
  unfolding post_reminders_def
  by (rule with_auth_cases)
    (auto simp: Let_def new_reminder_def fk_ok_sessions
      intro!: fk_ok_add_reminder
      dest!: insert_row_Some auth_user_known ensureAnimalOwnership_ref
      split: sum.splits option.splits)

lemma fk_ok_get_reminders: "fk_ok d \<Longrightarrow> fk_ok (snd (get_reminders L E d req))"
  unfolding get_reminders_def
  by (rule with_auth_cases)
    (auto simp: fk_ok_sessions split: sum.splits option.splits)

lemma fk_ok_delete_reminder: "fk_ok d \<Longrightarrow> fk_ok (snd (delete_reminder L E d req))"
  unfolding delete_reminder_def
  by (rule with_auth_cases)
    (auto simp: fk_ok_sessions delete_rows_def fk_ok_filter_reminders
      split: sum.splits prod.splits list.splits)


lemma set_reminder_keeps:
  "r_userId (set_reminder p r) = r_userId r"
  "r_animalId (set_reminder p r) = (case rp_animalId p of None \<Rightarrow> r_animalId r | Some v \<Rightarrow> Some v)"
  by (simp_all add: set_reminder_def)

lemma fk_ok_patch_reminder: "fk_ok d \<Longrightarrow> fk_ok (snd (patch_reminder L E d req))"
  unfolding patch_reminder_def
proof (rule with_auth_cases)
  fix d' assume "fk_ok d" "same_resources d d'" "set (sessions d') \<subseteq> set (sessions d)"
  then show "fk_ok (snd (send_error 401 ''Unauthorized'', d'))" by (simp add: fk_ok_sessions)
next
  fix auth
  assume d: "fk_ok d"
  have upd: "fk_ok (d\<lparr>reminders := map (\<lambda>r. if c r then set_reminder (reminder_updatePayload E u) r else r)
                                   (reminders d)\<rparr>)"
    if "case ur_animalId u of None \<Rightarrow> True
        | Some a \<Rightarrow> ensureAnimalOwnership d (u_id (ac_user auth)) a \<noteq> None" for c u
  proof (rule fk_ok_update_reminders[OF d])
    fix r assume r: "r \<in> set (reminders d)"
    from d r have k: "animal_ref_ok d (r_animalId r)" unfolding fk_ok_def by blast
    show "r_userId (set_reminder (reminder_updatePayload E u) r) = r_userId r \<and>
          animal_ref_ok d (r_animalId (set_reminder (reminder_updatePayload E u) r))"
    proof (cases "ur_animalId u")
      case None
      with k show ?thesis by (simp add: set_reminder_keeps reminder_updatePayload_def)
    next
      case (Some a)
      with that obtain x where "ensureAnimalOwnership d (u_id (ac_user auth)) a = Some x" by auto
      from ensureAnimalOwnership_ref[OF this] Some show ?thesis
        by (simp add: set_reminder_keeps reminder_updatePayload_def)
    qed
  qed
  show "fk_ok (snd (case idParamsSchema L (req_params req) of
         Inl issues \<Rightarrow> (send_error 400 ''Invalid reminder identifier'', d)
       | Inr ident \<Rightarrow>
           (case updateReminderSchema L (req_body req) of
              Inl issues \<Rightarrow> (send_invalid ''Invalid reminder update payload'' issues, d)
            | Inr updates \<Rightarrow>
                if length (keys_updateReminder updates) = 0
                then (send_error 400 ''No fields provided to update'', d)
                else if (case ur_animalId updates of
                           None \<Rightarrow> False
                         | Some a \<Rightarrow> ensureAnimalOwnership d (u_id (ac_user auth)) a = None)
                then (send_error 404 ''Animal not found'', d)
                else (case update_rows (\<lambda>r. r_id r = pg_uuid ident \<and> r_userId r = u_id (ac_user auth))
                             (set_reminder (reminder_updatePayload E updates)) (reminders d) of
                        ([], t) \<Rightarrow> (send_error 404 ''Reminder not found'', d\<lparr>reminders := t\<rparr>)
                      | (updated # _, t) \<Rightarrow>
                          (send 200 (toReminderResponse L updated), d\<lparr>reminders := t\<rparr>)))))"
    using d by (auto simp: update_rows_def intro!: upd split: sum.splits list.splits option.splits)
qed

lemma fk_ok_get_animals: "fk_ok d \<Longrightarrow> fk_ok (snd (get_animals L E d req))"
  unfolding get_animals_def
  by (rule with_auth_cases) (auto simp: fk_ok_sessions)

lemma fk_ok_post_animals: "fk_ok d \<Longrightarrow> fk_ok (snd (post_animals L E d req))"
  unfolding post_animals_def
  by (rule with_auth_cases)
    (auto simp: Let_def new_animal_def fk_ok_sessions
      intro!: fk_ok_add_animal
      dest!: insert_row_Some auth_user_known
      split: sum.splits option.splits)

lemma set_animal_keeps:
  "a_userId (set_animal p t r) = a_userId r \<and> a_id (set_animal p t r) = a_id r"
  by (simp add: set_animal_def)

lemma fk_ok_patch_animal: "fk_ok d \<Longrightarrow> fk_ok (snd (patch_animal L E d req))"
  unfolding patch_animal_def
  by (rule with_auth_cases)
    (auto simp: Let_def fk_ok_sessions update_rows_def
      intro!: fk_ok_update_animals set_animal_keeps
      split: sum.splits list.splits)

lemma cascade_animals_tables:
  "users (cascade_animals gone d) = users d"
  "sessions (cascade_animals gone d) = sessions d"
  "animals (cascade_animals gone d) = animals d"
  "set (feedings (cascade_animals gone d)) =
     {f \<in> set (feedings d). \<forall>a. f_animalId f = Some a \<longrightarrow> a \<notin> set gone}"
  "set (measurements (cascade_animals gone d)) =
     {m \<in> set (measurements d). \<forall>a. m_animalId m = Some a \<longrightarrow> a \<notin> set gone}"
  "set (reminders (cascade_animals gone d)) =
     {r \<in> set (reminders d). \<forall>a. r_animalId r = Some a \<longrightarrow> a \<notin> set gone}"
  by (auto simp: cascade_animals_def split: option.splits)

lemma delete_animals_tables:
  "users (snd (delete_animals c d)) = users d"
  "sessions (snd (delete_animals c d)) = sessions d"
  "animals (snd (delete_animals c d)) = filter (\<lambda>a. \<not> c a) (animals d)"
  "fst (delete_animals c d) = filter c (animals d)"
  "set (feedings (snd (delete_animals c d))) =
     {f \<in> set (feedings d). \<forall>a. f_animalId f = Some a \<longrightarrow> a \<notin> a_id ` {x \<in> set (animals d). c x}}"
  "set (measurements (snd (delete_animals c d))) =
     {m \<in> set (measurements d). \<forall>a. m_animalId m = Some a \<longrightarrow> a \<notin> a_id ` {x \<in> set (animals d). c x}}"
  "set (reminders (snd (delete_animals c d))) =
     {r \<in> set (reminders d). \<forall>a. r_animalId r = Some a \<longrightarrow> a \<notin> a_id ` {x \<in> set (animals d). c x}}"
  by (simp_all add: delete_animals_def Let_def cascade_animals_tables)

lemma fk_ok_delete_animals: "fk_ok d \<Longrightarrow> fk_ok (snd (delete_animals c d))"
  unfolding fk_ok_def animal_ref_ok_iff delete_animals_tables
  by (simp add: image_iff) blast

lemma fk_ok_delete_animal: "fk_ok d \<Longrightarrow> fk_ok (snd (delete_animal L E d req))"
  unfolding delete_animal_def
proof (rule with_auth_cases)
  fix d' assume "fk_ok d" "same_resources d d'" "set (sessions d') \<subseteq> set (sessions d)"
  then show "fk_ok (snd (send_error 401 ''Unauthorized'', d'))" by (simp add: fk_ok_sessions)
next
  fix auth
  assume d: "fk_ok d"
  show "fk_ok (snd (case idParamsSchema L (req_params req) of
         Inl issues \<Rightarrow> (send_error 400 ''Invalid animal identifier'', d)
       | Inr ident \<Rightarrow>
           (case delete_animals (\<lambda>a. a_id a = pg_uuid ident \<and> a_userId a = u_id (ac_user auth)) d of
              ([], d') \<Rightarrow> (send_error 404 ''Animal not found'', d')
            | (_ # _, d') \<Rightarrow> (send 200 success_body, d'))))"
  proof (cases "idParamsSchema L (req_params req)")
    case (Inl issues)
    with d show ?thesis by simp
  next
    case (Inr ident)
    obtain gone d' where g: "delete_animals (\<lambda>a. a_id a = pg_uuid ident \<and> a_userId a = u_id (ac_user auth)) d = (gone, d')"
      by (cases "delete_animals (\<lambda>a. a_id a = pg_uuid ident \<and> a_userId a = u_id (ac_user auth)) d")
    from fk_ok_delete_animals[OF d, of "\<lambda>a. a_id a = pg_uuid ident \<and> a_userId a = u_id (ac_user auth)"] g
    have "fk_ok d'" by simp
    with Inr g show ?thesis by (cases gone) simp_all
  qed
qed


lemma fk_ok_createSession:
  "createSession L E d uid = Some (sp, d') \<Longrightarrow> fk_ok d \<Longrightarrow> uid \<in> u_id ` set (users d) \<Longrightarrow>
   fk_ok d'"
  by (auto simp: createSession_def Let_def intro!: fk_ok_add_session dest!: insert_row_Some
      split: option.splits)

lemma findUserByUsername_Some:
  "findUserByUsername d n = Some u \<Longrightarrow> u \<in> set (users d)"
proof -
  assume a: "findUserByUsername d n = Some u"
  then obtain rest where "filter (\<lambda>u. u_username u = n) (users d) = u # rest"
    by (auto simp: findUserByUsername_def split: list.splits)
  then have "u \<in> set (filter (\<lambda>u. u_username u = n) (users d))" by simp
  then show ?thesis by simp
qed

lemma fk_ok_getActiveSessionByToken:
  "fk_ok d \<Longrightarrow> fk_ok (snd (getActiveSessionByToken E d token))"
  by (auto simp: getActiveSessionByToken_def fk_ok_prune_sessions split: list.splits)

lemma fk_ok_auth_register: "fk_ok d \<Longrightarrow> fk_ok (snd (auth_register L E d req))"
proof -
  assume d: "fk_ok d"
  have k: "fk_ok d'"
    if "createSession L E (d\<lparr>users := t\<rparr>) uid = Some (sp, d')"
      and "insert_row u_id r (users d) = Some t" and "u_id r = uid" for t r sp d' uid
  proof -
    from that(2) have t: "t = users d @ [r]" by (auto dest: insert_row_Some)
    from fk_ok_add_user[OF d, of r] t have "fk_ok (d\<lparr>users := t\<rparr>)" by simp
    from fk_ok_createSession[OF that(1) this] t that(3) show ?thesis by simp
  qed
  have u: "fk_ok (d\<lparr>users := t\<rparr>)" if "insert_row u_id r (users d) = Some t" for t r
    using that fk_ok_add_user[OF d, of r] by (auto dest: insert_row_Some)
  from d show ?thesis
    unfolding auth_register_def
    apply (auto simp: Let_def split: sum.splits option.splits intro: u)
    apply (rule k, assumption, assumption, simp)
    done
qed

lemma fk_ok_auth_login: "fk_ok d \<Longrightarrow> fk_ok (snd (auth_login L E d req))"
  unfolding auth_login_def
  by (auto split: sum.splits option.splits
      dest!: findUserByUsername_Some elim!: fk_ok_createSession)

lemma fk_ok_auth_me: "fk_ok d \<Longrightarrow> fk_ok (snd (auth_me L E d req))"
proof -
  assume d: "fk_ok d"
  have "fk_ok d'" if "getActiveSessionByToken E d token = (x, d')" for token x d'
    using fk_ok_getActiveSessionByToken[OF d, of E token] that by simp
  with d show ?thesis
    unfolding auth_me_def by (auto split: option.splits prod.splits)
qed

lemma fk_ok_auth_logout: "fk_ok d \<Longrightarrow> fk_ok (snd (auth_logout L E d req))"
  unfolding auth_logout_def
  by (auto simp: fk_ok_prune_sessions split: option.splits)

lemma fk_ok_health: "fk_ok d \<Longrightarrow> fk_ok (snd (health L E d req))"
  by (simp add: health_def)

lemmas fk_ok_handlers =
  fk_ok_post_feedings fk_ok_get_feedings fk_ok_delete_feeding
  fk_ok_post_measurements fk_ok_get_measurements fk_ok_delete_measurement
  fk_ok_post_reminders fk_ok_get_reminders fk_ok_patch_reminder fk_ok_delete_reminder
  fk_ok_get_animals fk_ok_post_animals fk_ok_patch_animal fk_ok_delete_animal
  fk_ok_auth_register fk_ok_auth_login fk_ok_auth_me fk_ok_auth_logout fk_ok_health

lemma fk_ok_serve: "fk_ok d \<Longrightarrow> fk_ok (snd (serve L E d req))"
proof (rule serve_cases)
  assume "fk_ok d"
  then show "fk_ok (snd (route_not_found, d))" by simp
next
  fix r req'
  assume "fk_ok d" "r \<in> set createServer"
  then show "fk_ok (snd (snd (snd r) L E d req'))"
    unfolding createServer_def registerAuthRoutes_def registerFeedingRoutes_def
      registerMeasurementRoutes_def registerReminderRoutes_def
    by (auto simp: fk_ok_handlers)
qed

lemma fk_ok_serve_animals:
  "fk_ok d \<Longrightarrow> fk_ok (snd (serve_routes registerAnimalRoutes L E d req))"
proof (rule serve_routes_cases)
  assume "fk_ok d"
  then show "fk_ok (snd (route_not_found, d))" by simp
next
  fix r req'
  assume "fk_ok d" "r \<in> set registerAnimalRoutes"
  then show "fk_ok (snd (snd (snd r) L E d req'))"
    unfolding registerAnimalRoutes_def by (auto simp: fk_ok_handlers)
qed

lemma delete_user_tables:
  "set (users (delete_user uid d)) = {u \<in> set (users d). u_id u \<noteq> uid}"
  "set (sessions (delete_user uid d)) = {s \<in> set (sessions d). s_userId s \<noteq> uid}"
  "set (animals (delete_user uid d)) = {a \<in> set (animals d). a_userId a \<noteq> uid}"
  "set (feedings (delete_user uid d)) =
     {f \<in> set (feedings d). f_userId f \<noteq> uid \<and>
        (\<forall>a. f_animalId f = Some a \<longrightarrow> a \<notin> a_id ` {x \<in> set (animals d). a_userId x = uid})}"
  "set (measurements (delete_user uid d)) =
     {m \<in> set (measurements d). m_userId m \<noteq> uid \<and>
        (\<forall>a. m_animalId m = Some a \<longrightarrow> a \<notin> a_id ` {x \<in> set (animals d). a_userId x = uid})}"
  "set (reminders (delete_user uid d)) =
     {r \<in> set (reminders d). r_userId r \<noteq> uid \<and>
        (\<forall>a. r_animalId r = Some a \<longrightarrow> a \<notin> a_id ` {x \<in> set (animals d). a_userId x = uid})}"
  by (simp_all add: delete_user_def Let_def delete_animals_tables)

lemma delete_user_gone:
  "uid \<notin> u_id ` set (users (delete_user uid d))
   \<and> uid \<notin> s_userId ` set (sessions (delete_user uid d))
   \<and> uid \<notin> a_userId ` set (animals (delete_user uid d))
   \<and> uid \<notin> f_userId ` set (feedings (delete_user uid d))
   \<and> uid \<notin> m_userId ` set (measurements (delete_user uid d))
   \<and> uid \<notin> r_userId ` set (reminders (delete_user uid d))"
  unfolding delete_user_tables by auto

lemma fk_ok_delete_user: "fk_ok d \<Longrightarrow> fk_ok (delete_user uid d)"
  unfolding fk_ok_def animal_ref_ok_iff delete_user_tables
  by (simp add: image_iff) blast

lemma delete_animals_cascade:
  "x \<in> set (fst (delete_animals c d)) \<Longrightarrow>
     x \<notin> set (animals (snd (delete_animals c d)))
     \<and> Some (a_id x) \<notin> f_animalId ` set (feedings (snd (delete_animals c d)))
     \<and> Some (a_id x) \<notin> m_animalId ` set (measurements (snd (delete_animals c d)))
     \<and> Some (a_id x) \<notin> r_animalId ` set (reminders (snd (delete_animals c d)))"
  unfolding delete_animals_tables
  by (auto simp: image_iff dest!: sym[of "Some (a_id x)"])

lemma delete_animal_cascade:
  "idParamsSchema L (req_params req) = Inr ident \<Longrightarrow>
   status (fst (delete_animal L E d req)) = 200 \<Longrightarrow>
     Some (pg_uuid ident) \<notin> f_animalId ` set (feedings (snd (delete_animal L E d req)))
     \<and> Some (pg_uuid ident) \<notin> m_animalId ` set (measurements (snd (delete_animal L E d req)))
     \<and> Some (pg_uuid ident) \<notin> r_animalId ` set (reminders (snd (delete_animal L E d req)))"
proof -
  assume i: "idParamsSchema L (req_params req) = Inr ident"
  let ?P = "\<lambda>p. status (fst p) = 200 \<longrightarrow>
     Some (pg_uuid ident) \<notin> f_animalId ` set (feedings (snd p))
     \<and> Some (pg_uuid ident) \<notin> m_animalId ` set (measurements (snd p))
     \<and> Some (pg_uuid ident) \<notin> r_animalId ` set (reminders (snd p))"
  have "?P (delete_animal L E d req)"
    unfolding delete_animal_def
  proof (rule with_auth_cases)
    fix d' show "?P (send_error 401 ''Unauthorized'', d')" by simp
  next
    fix auth
    let ?c = "\<lambda>a. a_id a = pg_uuid ident \<and> a_userId a = u_id (ac_user auth)"
    obtain gone d' where g: "delete_animals ?c d = (gone, d')" by (cases "delete_animals ?c d")
    show "?P (case idParamsSchema L (req_params req) of
         Inl issues \<Rightarrow> (send_error 400 ''Invalid animal identifier'', d)
       | Inr ident \<Rightarrow>
           (case delete_animals (\<lambda>a. a_id a = pg_uuid ident \<and> a_userId a = u_id (ac_user auth)) d of
              ([], d') \<Rightarrow> (send_error 404 ''Animal not found'', d')
            | (_ # _, d') \<Rightarrow> (send 200 success_body, d')))"
    proof (cases gone)
      case Nil
      with i g show ?thesis by simp
    next
      case (Cons x rest)
      with g have x: "x \<in> set (fst (delete_animals ?c d))" by simp
      then have "a_id x = pg_uuid ident" by (simp add: delete_animals_tables)
      with delete_animals_cascade[OF x] g i Cons show ?thesis by simp
    qed
  qed
  then show "status (fst (delete_animal L E d req)) = 200 \<Longrightarrow>
     Some (pg_uuid ident) \<notin> f_animalId ` set (feedings (snd (delete_animal L E d req)))
     \<and> Some (pg_uuid ident) \<notin> m_animalId ` set (measurements (snd (delete_animal L E d req)))
     \<and> Some (pg_uuid ident) \<notin> r_animalId ` set (reminders (snd (delete_animal L E d req)))"
    by simp
qed


text \<open>
  Claim C4 (deleting a parent row cascades to its dependents). Deleting a user leaves no
  user, session, animal, feeding, measurement or reminder row with that user's id. Deleting
  animals, by the statement itself or by a \<open>DELETE /animals/:id\<close> answered 200, leaves no
  feeding, measurement or reminder row that references a deleted animal's id. And
  referential integrity (\<open>fk_ok\<close>: every \<open>user_id\<close> and every non-null \<open>animal_id\<close> names an
  existing row) is kept by the deletion of a user, by the deletion of animals, by every
  request the server answers and by every request the animal routes answer.
\<close>

theorem deleting_a_parent_cascades:
  "(uid \<notin> u_id ` set (users (delete_user uid d))
    \<and> uid \<notin> s_userId ` set (sessions (delete_user uid d))
    \<and> uid \<notin> a_userId ` set (animals (delete_user uid d))
    \<and> uid \<notin> f_userId ` set (feedings (delete_user uid d))
    \<and> uid \<notin> m_userId ` set (measurements (delete_user uid d))
    \<and> uid \<notin> r_userId ` set (reminders (delete_user uid d)))
   \<and> (\<forall>x \<in> set (fst (delete_animals c d)).
         x \<notin> set (animals (snd (delete_animals c d)))
         \<and> Some (a_id x) \<notin> f_animalId ` set (feedings (snd (delete_animals c d)))
         \<and> Some (a_id x) \<notin> m_animalId ` set (measurements (snd (delete_animals c d)))
         \<and> Some (a_id x) \<notin> r_animalId ` set (reminders (snd (delete_animals c d))))
   \<and> (idParamsSchema L (req_params req) = Inr ident
       \<and> status (fst (delete_animal L E d req)) = 200 \<longrightarrow>
         Some (pg_uuid ident) \<notin> f_animalId ` set (feedings (snd (delete_animal L E d req)))
         \<and> Some (pg_uuid ident) \<notin> m_animalId ` set (measurements (snd (delete_animal L E d req)))
         \<and> Some (pg_uuid ident) \<notin> r_animalId ` set (reminders (snd (delete_animal L E d req))))
   \<and> (fk_ok d \<longrightarrow>
         fk_ok (delete_user uid d) \<and> fk_ok (snd (delete_animals c d))
         \<and> fk_ok (snd (serve L E d req'))
         \<and> fk_ok (snd (serve_routes registerAnimalRoutes L E d req')))"
proof -
  have p1: "\<forall>x \<in> set (fst (delete_animals c d)).
         x \<notin> set (animals (snd (delete_animals c d)))
         \<and> Some (a_id x) \<notin> f_animalId ` set (feedings (snd (delete_animals c d)))
         \<and> Some (a_id x) \<notin> m_animalId ` set (measurements (snd (delete_animals c d)))
         \<and> Some (a_id x) \<notin> r_animalId ` set (reminders (snd (delete_animals c d)))"
    using delete_animals_cascade[of _ c d] by blast
  have p2: "idParamsSchema L (req_params req) = Inr ident
       \<and> status (fst (delete_animal L E d req)) = 200 \<longrightarrow>
         Some (pg_uuid ident) \<notin> f_animalId ` set (feedings (snd (delete_animal L E d req)))
         \<and> Some (pg_uuid ident) \<notin> m_animalId ` set (measurements (snd (delete_animal L E d req)))
         \<and> Some (pg_uuid ident) \<notin> r_animalId ` set (reminders (snd (delete_animal L E d req)))"
    using delete_animal_cascade[of L req ident E d] by blast
  have p3: "fk_ok d \<longrightarrow>
         fk_ok (delete_user uid d) \<and> fk_ok (snd (delete_animals c d))
         \<and> fk_ok (snd (serve L E d req'))
         \<and> fk_ok (snd (serve_routes registerAnimalRoutes L E d req'))"
    using fk_ok_delete_user[of d uid] fk_ok_delete_animals[of d c] fk_ok_serve[of d L E req']
      fk_ok_serve_animals[of d L E req']
    by blast
  from delete_user_gone[of uid d] p1 p2 p3 show ?thesis by (intro conjI) blast+
qed

theorem deleting_a_parent_cascades_witness:
  "fk_ok db1
   \<and> fst (delete_animals (\<lambda>a. a_id a = a_id rex) db1) = [rex]
   \<and> idParamsSchema lib0 (req_params (with_id (a_id rex) (request_plain DELETE ''/animals'' ''tokalice'')))
       = Inr (a_id rex)
   \<and> delete_animal lib0 env0 db1 (with_id (a_id rex) (request_plain DELETE ''/animals'' ''tokalice''))
       = (send 200 success_body,
          db1\<lparr>animals := [iggy, spike], feedings := [], measurements := [], reminders := []\<rparr>)
   \<and> Some (a_id rex) \<in> f_animalId ` set (feedings db1)
   \<and> Some (a_id rex) \<notin> f_animalId ` set (feedings (snd (delete_animal lib0 env0 db1
        (with_id (a_id rex) (request_plain DELETE ''/animals'' ''tokalice'')))))
   \<and> Some (a_id rex) \<notin> f_animalId ` set (feedings (snd (delete_animals (\<lambda>a. a_id a = a_id rex) db1)))
   \<and> u_id alice \<in> a_userId ` set (animals db1)
   \<and> u_id alice \<notin> a_userId ` set (animals (delete_user (u_id alice) db1))
   \<and> animals (delete_user (u_id alice) db1) = [spike]
   \<and> fk_ok (delete_user (u_id alice) db1)
   \<and> fk_ok (snd (delete_animals (\<lambda>a. a_id a = a_id rex) db1))
   \<and> serve_routes registerAnimalRoutes lib0 env0 db1
        (request_plain DELETE ''/animals/00000000-0000-4000-8000-0000000000a1'' ''tokalice'')
       = (send 200 success_body,
          db1\<lparr>animals := [iggy, spike], feedings := [], measurements := [], reminders := []\<rparr>)
   \<and> fk_ok (snd (serve_routes registerAnimalRoutes lib0 env0 db1
        (request_plain DELETE ''/animals/00000000-0000-4000-8000-0000000000a1'' ''tokalice'')))
   \<and> fk_ok (snd (serve lib0 env0 db1
        (request_plain DELETE ''/animals/00000000-0000-4000-8000-0000000000a1'' ''tokalice'')))"
proof -
  let ?c = "\<lambda>a. a_id a = a_id rex"
  let ?req = "with_id (a_id rex) (request_plain DELETE ''/animals'' ''tokalice'')"
  let ?req' = "request_plain DELETE ''/animals/00000000-0000-4000-8000-0000000000a1'' ''tokalice''"
  let ?d = "db1\<lparr>animals := [iggy, spike], feedings := [], measurements := [], reminders := []\<rparr>"
  note t = deleting_a_parent_cascades[of "u_id alice" db1 ?c lib0 ?req "a_id rex" env0 ?req']
  have h1: "fk_ok db1" by code_simp
  have h2: "fst (delete_animals ?c db1) = [rex]" by code_simp
  have h3: "idParamsSchema lib0 (req_params ?req) = Inr (a_id rex)" by code_simp
  have h4: "delete_animal lib0 env0 db1 ?req = (send 200 success_body, ?d)" by code_simp
  have h5: "Some (a_id rex) \<in> f_animalId ` set (feedings db1)" by code_simp
  have h6: "u_id alice \<in> a_userId ` set (animals db1)" by code_simp
  have h7: "animals (delete_user (u_id alice) db1) = [spike]" by code_simp
  have h8: "serve_routes registerAnimalRoutes lib0 env0 db1 ?req' = (send 200 success_body, ?d)"
    by code_simp
  have h9: "pg_uuid (a_id rex) = a_id rex" by code_simp
  from h4 have s: "status (fst (delete_animal lib0 env0 db1 ?req)) = 200" by (simp add: send_def)
  from h2 have x: "rex \<in> set (fst (delete_animals ?c db1))" by simp
  from t have c1: "u_id alice \<notin> a_userId ` set (animals (delete_user (u_id alice) db1))"
    by blast
  from t x have c2: "Some (a_id rex) \<notin> f_animalId ` set (feedings (snd (delete_animals ?c db1)))"
    by blast
  from t h3 s
  have "Some (pg_uuid (a_id rex))
          \<notin> f_animalId ` set (feedings (snd (delete_animal lib0 env0 db1 ?req)))"
    by blast
  then have c3: "Some (a_id rex) \<notin> f_animalId ` set (feedings (snd (delete_animal lib0 env0 db1 ?req)))"
    unfolding h9 .
  from t h1 have c4: "fk_ok (delete_user (u_id alice) db1)"
    and c5: "fk_ok (snd (delete_animals ?c db1))"
    and c6: "fk_ok (snd (serve lib0 env0 db1 ?req'))"
    and c7: "fk_ok (snd (serve_routes registerAnimalRoutes lib0 env0 db1 ?req'))" by blast+
  from h1 h2 h3 h4 h5 c3 c2 h6 c1 h7 c4 c5 h8 c7 c6 show ?thesis by (intro conjI)
qed

lemma duplicate_name_iff:
  assumes "updateAnimalSchema L input = Inr u"
      and "\<forall>a \<in> set (animals d). \<not> (a_id a = pg_uuid ident \<and> a_userId a = userId)"
      and "\<forall>a \<in> set (animals d). pg_uuid (a_id a) = a_id a"
  shows "duplicate_name d userId ident (sanitizeUpdateAnimalPayload u) \<longleftrightarrow>
         (\<exists>n. ua_name u = Some n \<and> (\<exists>a \<in> set (animals d). a_userId a = userId \<and> a_name a = n))"
proof (cases "ua_name u")
  case None
  then show ?thesis by (simp add: duplicate_name_def sanitizeUpdateAnimalPayload_def)
next
  case (Some n)
  from updateAnimalSchema_name[OF assms(1) Some] have n: "n \<noteq> []" "trim n = n" by simp_all
  let ?found = "filter (\<lambda>a. a_userId a = userId \<and> a_name a = n) (animals d)"
  show ?thesis
  proof (cases ?found)
    case Nil
    then have "\<not> (\<exists>a \<in> set (animals d). a_userId a = userId \<and> a_name a = n)"
      by (simp add: filter_empty_conv)
    with Nil Some n show ?thesis
      by (simp add: duplicate_name_def sanitizeUpdateAnimalPayload_def)
  next
    case (Cons dup rest)
    then have "dup \<in> set ?found" by simp
    then have dup: "dup \<in> set (animals d)" "a_userId dup = userId" "a_name dup = n" by simp_all
    have "a_id dup \<noteq> ident"
    proof
      assume e: "a_id dup = ident"
      from assms(3) dup(1) have "pg_uuid (a_id dup) = a_id dup" by blast
      with e have "a_id dup = pg_uuid ident" by simp
      with assms(2) dup(1,2) show False by blast
    qed
    moreover from dup have "\<exists>a \<in> set (animals d). a_userId a = userId \<and> a_name a = n" by blast
    ultimately show ?thesis
      using Cons Some n by (simp add: duplicate_name_def sanitizeUpdateAnimalPayload_def)
  qed
qed

text \<open>
  Claim C3, as amended. For an authenticated request that passes the validation of its
  route (the schemas of its path id, query and body and, for \<open>PATCH /reminders/:id\<close>, the
  check that the body gives at least one field): a \<open>DELETE\<close> of a measurement, feeding,
  reminder or animal, and a \<open>PATCH\<close> of a reminder, whose id (read as a uuid) names no
  row of the user, is answered 404; a \<open>PATCH\<close> of an animal whose id names no animal of
  the user is answered 409 when the body gives a name that an animal of the user has
  (the duplicate-name check comes before the update) and 404 otherwise, the animal ids
  being stored as PostgreSQL writes them; and a \<open>POST\<close> or list request for feedings,
  measurements or reminders, or a reminder update, that names an animal which is not an
  animal of the user is answered 404. In each case the stored data stays as it was.
\<close>

theorem not_found_returns_404:
  assumes "requireAuth E d req = (Inr auth, d)"
  shows "(\<forall>ident. idParamsSchema L (req_params req) = Inr ident \<longrightarrow>
       ((\<forall>m \<in> set (measurements d). \<not> (m_id m = pg_uuid ident \<and> m_userId m = u_id (ac_user auth))) \<longrightarrow>
          delete_measurement L E d req = (send_error 404 ''Measurement not found'', d))
     \<and> ((\<forall>f \<in> set (feedings d). \<not> (f_id f = pg_uuid ident \<and> f_userId f = u_id (ac_user auth))) \<longrightarrow>
          delete_feeding L E d req = (send_error 404 ''Feeding record not found'', d))
     \<and> ((\<forall>r \<in> set (reminders d). \<not> (r_id r = pg_uuid ident \<and> r_userId r = u_id (ac_user auth))) \<longrightarrow>
          delete_reminder L E d req = (send_error 404 ''Reminder not found'', d))
     \<and> ((\<forall>a \<in> set (animals d). \<not> (a_id a = pg_uuid ident \<and> a_userId a = u_id (ac_user auth))) \<longrightarrow>
          delete_animal L E d req = (send_error 404 ''Animal not found'', d))
     \<and> (\<forall>updates. updateReminderSchema L (req_body req) = Inr updates
            \<and> keys_updateReminder updates \<noteq> []
            \<and> (\<forall>r \<in> set (reminders d).
                  \<not> (r_id r = pg_uuid ident \<and> r_userId r = u_id (ac_user auth))) \<longrightarrow>
          status (fst (patch_reminder L E d req)) = 404 \<and> snd (patch_reminder L E d req) = d)
     \<and> (\<forall>input. updateAnimalSchema L (req_body req) = Inr input
            \<and> (\<forall>a \<in> set (animals d).
                  \<not> (a_id a = pg_uuid ident \<and> a_userId a = u_id (ac_user auth)))
            \<and> (\<forall>a \<in> set (animals d). pg_uuid (a_id a) = a_id a) \<longrightarrow>
          patch_animal L E d req =
            (if \<exists>n. ua_name input = Some n
                  \<and> (\<exists>a \<in> set (animals d). a_userId a = u_id (ac_user auth) \<and> a_name a = n)
             then (send_error 409 ''An animal with this name already exists'', d)
             else (send_error 404 ''Animal not found'', d)))
     \<and> (\<forall>updates a. updateReminderSchema L (req_body req) = Inr updates
            \<and> ur_animalId updates = Some a
            \<and> \<not> (\<exists>b \<in> set (animals d). a_id b = pg_uuid a \<and> a_userId b = u_id (ac_user auth)) \<longrightarrow>
          patch_reminder L E d req = (send_error 404 ''Animal not found'', d)))
   \<and> (\<forall>p. feedingInputSchema L (req_body req) = Inr p
          \<and> \<not> (\<exists>b \<in> set (animals d). a_id b = pg_uuid (fi_animalId p)
                  \<and> a_userId b = u_id (ac_user auth)) \<longrightarrow>
        post_feedings L E d req = (send_error 404 ''Animal not found'', d))
   \<and> (\<forall>p. measurementInputSchema L (req_body req) = Inr p
          \<and> \<not> (\<exists>b \<in> set (animals d). a_id b = pg_uuid (mi_animalId p)
                  \<and> a_userId b = u_id (ac_user auth)) \<longrightarrow>
        post_measurements L E d req = (send_error 404 ''Animal not found'', d))
   \<and> (\<forall>p. createReminderSchema L (req_body req) = Inr p
          \<and> \<not> (\<exists>b \<in> set (animals d). a_id b = pg_uuid (cr_animalId p)
                  \<and> a_userId b = u_id (ac_user auth)) \<longrightarrow>
        post_reminders L E d req = (send_error 404 ''Animal not found'', d))
   \<and> (\<forall>animalId. animalIdQuerySchema L (req_query req) = Inr animalId
          \<and> \<not> (\<exists>b \<in> set (animals d). a_id b = pg_uuid animalId
                  \<and> a_userId b = u_id (ac_user auth)) \<longrightarrow>
        get_feedings L E d req = (send_error 404 ''Animal not found'', d)
        \<and> get_measurements L E d req = (send_error 404 ''Animal not found'', d)
        \<and> get_reminders L E d req = (send_error 404 ''Animal not found'', d))"
proof (intro conjI allI impI)
  fix ident
  assume i: "idParamsSchema L (req_params req) = Inr ident"
  {
    assume "\<forall>m \<in> set (measurements d). \<not> (m_id m = pg_uuid ident \<and> m_userId m = u_id (ac_user auth))"
    then show "delete_measurement L E d req = (send_error 404 ''Measurement not found'', d)"
      by (rule not_found_delete(1)[OF assms i])
  }
  {
    assume "\<forall>f \<in> set (feedings d). \<not> (f_id f = pg_uuid ident \<and> f_userId f = u_id (ac_user auth))"
    then show "delete_feeding L E d req = (send_error 404 ''Feeding record not found'', d)"
      by (rule not_found_delete(2)[OF assms i])
  }
  {
    assume "\<forall>r \<in> set (reminders d). \<not> (r_id r = pg_uuid ident \<and> r_userId r = u_id (ac_user auth))"
    then show "delete_reminder L E d req = (send_error 404 ''Reminder not found'', d)"
      by (rule not_found_delete(3)[OF assms i])
  }
  {
    assume "\<forall>a \<in> set (animals d). \<not> (a_id a = pg_uuid ident \<and> a_userId a = u_id (ac_user auth))"
    then show "delete_animal L E d req = (send_error 404 ''Animal not found'', d)"
      by (rule not_found_delete(4)[OF assms i])
  }
  {
    fix updates
    assume h: "updateReminderSchema L (req_body req) = Inr updates
            \<and> keys_updateReminder updates \<noteq> []
            \<and> (\<forall>r \<in> set (reminders d).
                  \<not> (r_id r = pg_uuid ident \<and> r_userId r = u_id (ac_user auth)))"
    from h have h1: "updateReminderSchema L (req_body req) = Inr updates" by (rule conjunct1)
    from h have h2: "keys_updateReminder updates \<noteq> []" by (rule conjunct2[THEN conjunct1])
    from h have h3: "\<forall>r \<in> set (reminders d).
                  \<not> (r_id r = pg_uuid ident \<and> r_userId r = u_id (ac_user auth))"
      by (rule conjunct2[THEN conjunct2])
    note r = not_found_patch_reminder[OF assms i h1 h2 h3]
    from r show "status (fst (patch_reminder L E d req)) = 404" by (rule conjunct1)
    from r show "snd (patch_reminder L E d req) = d" by (rule conjunct2)
  }
  {
    fix input
    assume h: "updateAnimalSchema L (req_body req) = Inr input
            \<and> (\<forall>a \<in> set (animals d).
                  \<not> (a_id a = pg_uuid ident \<and> a_userId a = u_id (ac_user auth)))
            \<and> (\<forall>a \<in> set (animals d). pg_uuid (a_id a) = a_id a)"
    from h have h1: "updateAnimalSchema L (req_body req) = Inr input" by (rule conjunct1)
    from h have h2: "\<forall>a \<in> set (animals d).
                  \<not> (a_id a = pg_uuid ident \<and> a_userId a = u_id (ac_user auth))"
      by (rule conjunct2[THEN conjunct1])
    from h have h3: "\<forall>a \<in> set (animals d). pg_uuid (a_id a) = a_id a"
      by (rule conjunct2[THEN conjunct2])
    show "patch_animal L E d req =
            (if \<exists>n. ua_name input = Some n
                  \<and> (\<exists>a \<in> set (animals d). a_userId a = u_id (ac_user auth) \<and> a_name a = n)
             then (send_error 409 ''An animal with this name already exists'', d)
             else (send_error 404 ''Animal not found'', d))"
      unfolding not_found_patch_animal[OF assms i h1 h2] duplicate_name_iff[OF h1 h2 h3] ..
  }
  {
    fix updates a
    assume h: "updateReminderSchema L (req_body req) = Inr updates
            \<and> ur_animalId updates = Some a
            \<and> \<not> (\<exists>b \<in> set (animals d). a_id b = pg_uuid a \<and> a_userId b = u_id (ac_user auth))"
    then have "ensureAnimalOwnership d (u_id (ac_user auth)) a = None"
      by (simp add: ensureAnimalOwnership_None_iff)
    with h show "patch_reminder L E d req = (send_error 404 ''Animal not found'', d)"
      using animal_not_owned(5)[OF assms i] by blast
  }
next
  fix p
  assume h: "feedingInputSchema L (req_body req) = Inr p
          \<and> \<not> (\<exists>b \<in> set (animals d). a_id b = pg_uuid (fi_animalId p)
                  \<and> a_userId b = u_id (ac_user auth))"
  then have "ensureAnimalOwnership d (u_id (ac_user auth)) (fi_animalId p) = None"
    by (simp add: ensureAnimalOwnership_None_iff)
  with h show "post_feedings L E d req = (send_error 404 ''Animal not found'', d)"
    using animal_not_owned(1)[OF assms] by blast
next
  fix p
  assume h: "measurementInputSchema L (req_body req) = Inr p
          \<and> \<not> (\<exists>b \<in> set (animals d). a_id b = pg_uuid (mi_animalId p)
                  \<and> a_userId b = u_id (ac_user auth))"
  then have "ensureAnimalOwnership d (u_id (ac_user auth)) (mi_animalId p) = None"
    by (simp add: ensureAnimalOwnership_None_iff)
  with h show "post_measurements L E d req = (send_error 404 ''Animal not found'', d)"
    using animal_not_owned(2)[OF assms] by blast
next
  fix p
  assume h: "createReminderSchema L (req_body req) = Inr p
          \<and> \<not> (\<exists>b \<in> set (animals d). a_id b = pg_uuid (cr_animalId p)
                  \<and> a_userId b = u_id (ac_user auth))"
  then have "ensureAnimalOwnership d (u_id (ac_user auth)) (cr_animalId p) = None"
    by (simp add: ensureAnimalOwnership_None_iff)
  with h show "post_reminders L E d req = (send_error 404 ''Animal not found'', d)"
    using animal_not_owned(3)[OF assms] by blast
next
  fix animalId
  assume h: "animalIdQuerySchema L (req_query req) = Inr animalId
          \<and> \<not> (\<exists>b \<in> set (animals d). a_id b = pg_uuid animalId
                  \<and> a_userId b = u_id (ac_user auth))"
  then have n: "ensureAnimalOwnership d (u_id (ac_user auth)) animalId = None"
    by (simp add: ensureAnimalOwnership_None_iff)
  from h have q: "animalIdQuerySchema L (req_query req) = Inr animalId" by (rule conjunct1)
  note g = animal_not_owned(4)[OF assms q n]
  from g show "get_feedings L E d req = (send_error 404 ''Animal not found'', d)"
    by (rule conjunct1)
  from g show "get_measurements L E d req = (send_error 404 ''Animal not found'', d)"
    by (rule conjunct2[THEN conjunct1])
  from g show "get_reminders L E d req = (send_error 404 ''Animal not found'', d)"
    by (rule conjunct2[THEN conjunct2])
qed

theorem not_found_returns_404_witness:
  "requireAuth env0 db1 (with_id (m_id meas_2020) (request_plain DELETE ''/measurements'' ''tokbob''))
     = (Inr as_bob, db1)
   \<and> idParamsSchema lib0 (req_params (with_id (m_id meas_2020)
         (request_plain DELETE ''/measurements'' ''tokbob''))) = Inr (m_id meas_2020)
   \<and> meas_2020 \<in> set (measurements db1)
   \<and> m_userId meas_2020 = u_id alice
   \<and> \<not> list_ex (\<lambda>m. m_id m = pg_uuid (m_id meas_2020) \<and> m_userId m = u_id (ac_user as_bob))
          (measurements db1)
   \<and> delete_measurement lib0 env0 db1
        (with_id (m_id meas_2020) (request_plain DELETE ''/measurements'' ''tokbob''))
       = (send_error 404 ''Measurement not found'', db1)
   \<and> requireAuth env0 db1 (with_id ''00000000-0000-4000-8000-0000000000AA''
         (request_json PATCH ''/animals'' ''tokalice'' [(''name'', JStr ''Zed'')]))
       = (Inr as_alice, db1)
   \<and> updateAnimalSchema lib0 (req_body (with_id ''00000000-0000-4000-8000-0000000000AA''
         (request_json PATCH ''/animals'' ''tokalice'' [(''name'', JStr ''Zed'')])))
       = Inr \<lparr>ua_name = Some ''Zed'', ua_species = None, ua_description = None,
              ua_birthDate = None, ua_sex = None\<rparr>
   \<and> \<not> list_ex (\<lambda>a. a_id a = pg_uuid ''00000000-0000-4000-8000-0000000000AA''
                     \<and> a_userId a = u_id (ac_user as_alice)) (animals db1)
   \<and> list_all (\<lambda>a. pg_uuid (a_id a) = a_id a) (animals db1)
   \<and> \<not> list_ex (\<lambda>a. a_userId a = u_id (ac_user as_alice) \<and> a_name a = ''Zed'') (animals db1)
   \<and> patch_animal lib0 env0 db1 (with_id ''00000000-0000-4000-8000-0000000000AA''
         (request_json PATCH ''/animals'' ''tokalice'' [(''name'', JStr ''Zed'')]))
       = (send_error 404 ''Animal not found'', db1)
   \<and> list_ex (\<lambda>a. a_userId a = u_id (ac_user as_alice) \<and> a_name a = ''Rex'') (animals db1)
   \<and> patch_animal lib0 env0 db1 (with_id ''00000000-0000-4000-8000-0000000000AA''
         (request_json PATCH ''/animals'' ''tokalice'' [(''name'', JStr ''Rex'')]))
       = (send_error 409 ''An animal with this name already exists'', db1)
   \<and> requireAuth env0 db1 (request_json POST ''/feedings'' ''tokbob''
         [(''animalId'', JStr (a_id rex)), (''foodType'', JStr ''mouse''), (''quantity'', JStr ''1'')])
       = (Inr as_bob, db1)
   \<and> \<not> list_ex (\<lambda>b. a_id b = pg_uuid (a_id rex) \<and> a_userId b = u_id (ac_user as_bob)) (animals db1)
   \<and> post_feedings lib0 env0 db1 (request_json POST ''/feedings'' ''tokbob''
         [(''animalId'', JStr (a_id rex)), (''foodType'', JStr ''mouse''), (''quantity'', JStr ''1'')])
       = (send_error 404 ''Animal not found'', db1)
   \<and> get_feedings lib0 env0 db1 (request_list ''/feedings'' ''tokbob'' (a_id rex))
       = (send_error 404 ''Animal not found'', db1)"
proof -
  let ?rm = "with_id (m_id meas_2020) (request_plain DELETE ''/measurements'' ''tokbob'')"
  let ?id = "''00000000-0000-4000-8000-0000000000AA''"
  let ?rz = "with_id ?id (request_json PATCH ''/animals'' ''tokalice'' [(''name'', JStr ''Zed'')])"
  let ?rr = "with_id ?id (request_json PATCH ''/animals'' ''tokalice'' [(''name'', JStr ''Rex'')])"
  let ?rf = "request_json POST ''/feedings'' ''tokbob''
         [(''animalId'', JStr (a_id rex)), (''foodType'', JStr ''mouse''), (''quantity'', JStr ''1'')]"
  let ?rl = "request_list ''/feedings'' ''tokbob'' (a_id rex)"
  let ?zed = "\<lparr>ua_name = Some ''Zed'', ua_species = None, ua_description = None,
              ua_birthDate = None, ua_sex = None\<rparr> :: updateAnimal"
  let ?rex = "\<lparr>ua_name = Some ''Rex'', ua_species = None, ua_description = None,
              ua_birthDate = None, ua_sex = None\<rparr> :: updateAnimal"
  let ?fp = "\<lparr>fi_animalId = a_id rex, fi_feedingDate = None, fi_consumed = None,
      fi_foodType = ''mouse'', fi_quantity = ''1'', fi_notes = None, fi_weight = None\<rparr>"
  have m1: "requireAuth env0 db1 ?rm = (Inr as_bob, db1)" by code_simp
  have m2: "idParamsSchema lib0 (req_params ?rm) = Inr (m_id meas_2020)" by code_simp
  have m3: "meas_2020 \<in> set (measurements db1)" by (simp add: db1_def)
  have m4: "m_userId meas_2020 = u_id alice" by (simp add: meas_2020_def)
  have m5: "\<not> list_ex (\<lambda>m. m_id m = pg_uuid (m_id meas_2020) \<and> m_userId m = u_id (ac_user as_bob))
               (measurements db1)"
    by code_simp
  then have m6: "\<forall>m \<in> set (measurements db1).
      \<not> (m_id m = pg_uuid (m_id meas_2020) \<and> m_userId m = u_id (ac_user as_bob))"
    by (simp add: list_ex_iff)
  have m7: "delete_measurement lib0 env0 db1 ?rm = (send_error 404 ''Measurement not found'', db1)"
    by (rule not_found_returns_404[OF m1, of lib0, THEN conjunct1, THEN spec, THEN mp, OF m2,
        THEN conjunct1, THEN mp, OF m6])
  have z1: "requireAuth env0 db1 ?rz = (Inr as_alice, db1)" by code_simp
  have z2: "idParamsSchema lib0 (req_params ?rz) = Inr ?id" by code_simp
  have z3: "updateAnimalSchema lib0 (req_body ?rz) = Inr ?zed" by code_simp
  have z4: "\<not> list_ex (\<lambda>a. a_id a = pg_uuid ?id \<and> a_userId a = u_id (ac_user as_alice)) (animals db1)"
    by code_simp
  then have z4': "\<forall>a \<in> set (animals db1). \<not> (a_id a = pg_uuid ?id \<and> a_userId a = u_id (ac_user as_alice))"
    by (simp add: list_ex_iff)
  have z5: "list_all (\<lambda>a. pg_uuid (a_id a) = a_id a) (animals db1)" by code_simp
  then have z5': "\<forall>a \<in> set (animals db1). pg_uuid (a_id a) = a_id a" by (simp add: list_all_iff)
  have z6: "\<not> list_ex (\<lambda>a. a_userId a = u_id (ac_user as_alice) \<and> a_name a = ''Zed'') (animals db1)"
    by code_simp
  then have z6': "\<not> (\<exists>n. ua_name ?zed = Some n
      \<and> (\<exists>a \<in> set (animals db1). a_userId a = u_id (ac_user as_alice) \<and> a_name a = n))"
    by (simp add: list_ex_iff)
  note tz = not_found_returns_404[OF z1, of lib0, THEN conjunct1, THEN spec, THEN mp, OF z2,
      THEN conjunct2, THEN conjunct2, THEN conjunct2, THEN conjunct2, THEN conjunct2,
      THEN conjunct1, THEN spec, THEN mp, OF conjI[OF z3 conjI[OF z4' z5']]]
  have z7: "patch_animal lib0 env0 db1 ?rz = (send_error 404 ''Animal not found'', db1)"
    using tz unfolding if_not_P[OF z6'] .
  have r1: "requireAuth env0 db1 ?rr = (Inr as_alice, db1)" by code_simp
  have r2: "idParamsSchema lib0 (req_params ?rr) = Inr ?id" by code_simp
  have r3: "updateAnimalSchema lib0 (req_body ?rr) = Inr ?rex" by code_simp
  have r6: "list_ex (\<lambda>a. a_userId a = u_id (ac_user as_alice) \<and> a_name a = ''Rex'') (animals db1)"
    by code_simp
  then have r6': "\<exists>n. ua_name ?rex = Some n
      \<and> (\<exists>a \<in> set (animals db1). a_userId a = u_id (ac_user as_alice) \<and> a_name a = n)"
    by (simp add: list_ex_iff)
  note tr = not_found_returns_404[OF r1, of lib0, THEN conjunct1, THEN spec, THEN mp, OF r2,
      THEN conjunct2, THEN conjunct2, THEN conjunct2, THEN conjunct2, THEN conjunct2,
      THEN conjunct1, THEN spec, THEN mp, OF conjI[OF r3 conjI[OF z4' z5']]]
  have r7: "patch_animal lib0 env0 db1 ?rr
      = (send_error 409 ''An animal with this name already exists'', db1)"
    using tr unfolding if_P[OF r6'] .
  have f1: "requireAuth env0 db1 ?rf = (Inr as_bob, db1)" by code_simp
  have f2: "feedingInputSchema lib0 (req_body ?rf) = Inr ?fp" by code_simp
  have f3: "\<not> list_ex (\<lambda>b. a_id b = pg_uuid (a_id rex) \<and> a_userId b = u_id (ac_user as_bob)) (animals db1)"
    by code_simp
  then have f3': "\<not> (\<exists>b \<in> set (animals db1). a_id b = pg_uuid (fi_animalId ?fp)
      \<and> a_userId b = u_id (ac_user as_bob))"
    by (simp add: list_ex_iff)
  have f4: "post_feedings lib0 env0 db1 ?rf = (send_error 404 ''Animal not found'', db1)"
    by (rule not_found_returns_404[OF f1, of lib0, THEN conjunct2, THEN conjunct1, THEN spec,
        THEN mp, OF conjI[OF f2 f3']])
  have l1: "requireAuth env0 db1 ?rl = (Inr as_bob, db1)" by code_simp
  have l2: "animalIdQuerySchema lib0 (req_query ?rl) = Inr (a_id rex)" by code_simp
  from f3 have l3: "\<not> (\<exists>b \<in> set (animals db1). a_id b = pg_uuid (a_id rex)
      \<and> a_userId b = u_id (ac_user as_bob))"
    by (simp add: list_ex_iff)
  have l4: "get_feedings lib0 env0 db1 ?rl = (send_error 404 ''Animal not found'', db1)"
    by (rule not_found_returns_404[OF l1, of lib0, THEN conjunct2, THEN conjunct2, THEN conjunct2,
        THEN conjunct2, THEN spec, THEN mp, OF conjI[OF l2 l3], THEN conjunct1])
  from m1 m2 m3 m4 m5 m7 z1 z3 z4 z5 z6 z7 r6 r7 f1 f3 f4 l4 show ?thesis by (intro conjI)
qed

theorem not_found_is_not_always_404_counterexample:
  "fst (requireAuth env0 db1
      (request_json PATCH ''/reminders/00000000-0000-4000-8000-0000000000ee'' ''tokalice'' []))
     = Inr as_alice
   \<and> \<not> list_ex (\<lambda>r. r_id r = ''00000000-0000-4000-8000-0000000000ee'') (reminders db1)
   \<and> serve lib0 env0 db1
        (request_json PATCH ''/reminders/00000000-0000-4000-8000-0000000000ee'' ''tokalice'' [])
       = (send_error 400 ''No fields provided to update'', db1)
   \<and> status (send_error 400 ''No fields provided to update'') = 400
   \<and> fst (requireAuth env0 db1
      (request_json PATCH ''/animals/00000000-0000-4000-8000-0000000000aa'' ''tokalice''
         [(''name'', JStr ''Rex'')])) = Inr as_alice
   \<and> \<not> list_ex (\<lambda>a. a_id a = ''00000000-0000-4000-8000-0000000000aa'') (animals db1)
   \<and> serve_routes registerAnimalRoutes lib0 env0 db1
        (request_json PATCH ''/animals/00000000-0000-4000-8000-0000000000aa'' ''tokalice''
           [(''name'', JStr ''Rex'')])
       = (send_error 409 ''An animal with this name already exists'', db1)
   \<and> status (send_error 409 ''An animal with this name already exists'') = 409"
  by code_simp

lemma items_error [simp]:
  "items (body (send_error c m)) = []" "items (body (send_invalid m issues)) = []"
  "items (body internal_server_error) = []"
  by (simp_all add: send_error_def send_invalid_def internal_server_error_def)



































lemma requireAuth_params [simp]:
  "requireAuth E d (req\<lparr>req_params := ps\<rparr>) = requireAuth E d req"
  by (simp add: requireAuth_def authenticateRequest_def)















end
